(* ===== verification/Prelude.thy ===== *)
theory Prelude
  imports Main "HOL-Library.Sublist" "HOL-Library.Multiset"
begin

text \<open>
  Shared vocabulary of the development.  It holds the collections of rewrite rules
  that the component theories feed (\<open>cache_simps\<close>, \<open>core_simps\<close>, \<open>cli_simps\<close>),
  the Go machine integer \<open>int64\<close> with its two's-complement wrap-around written out,
  the names of the model's basic types, and the Go standard-library string functions
  that the command-line client calls (\<open>strings.ToLower\<close>, \<open>strings.Contains\<close>,
  and \<open>fmt.Sprintf\<close> as the logger uses it),
  with the lemmas on them that several components share, and facts on maps, lists and
  folds used by the cache, the store and the deployment model.
\<close>

named_theorems cache_simps "evaluation rules of the local cache model"
named_theorems core_simps "evaluation rules of the Config Core handlers"
named_theorems cli_simps "evaluation rules of the command-line client"

section \<open>Basic types\<close>

text \<open>
  Go's \<open>time.Duration\<close> and \<open>UnixNano\<close> timestamps are \<open>int64\<close> nanoseconds;
  a change set's \<open>Timestamp\<close> is an \<open>int64\<close> of seconds.  All are modelled as
  \<open>int\<close>; where a sum can leave the \<open>int64\<close> range the model applies
  \<open>int64_wrap\<close>, as the Go arithmetic does.
\<close>

type_synonym nanos = int
type_synonym namespace = string
type_synonym cpath = string
type_synonym ckey = "namespace \<times> cpath"

section \<open>int64 arithmetic\<close>

definition int64_min :: int where
  "int64_min = - (2 ^ 63)"

definition int64_max :: int where
  "int64_max = 2 ^ 63 - 1"

definition int64_ok :: "int \<Rightarrow> bool" where
  "int64_ok x = (int64_min \<le> x \<and> x \<le> int64_max)"

definition int64_wrap :: "int \<Rightarrow> int" where
  "int64_wrap x = (x + 2 ^ 63) mod 2 ^ 64 - 2 ^ 63"

definition int64_add :: "int \<Rightarrow> int \<Rightarrow> int" where
  "int64_add a b = int64_wrap (a + b)"

lemma int64_wrap_bounds [intro]: "int64_min \<le> int64_wrap x \<and> int64_wrap x \<le> int64_max"
  by (simp add: int64_wrap_def int64_min_def int64_max_def)

lemma int64_wrap_id [simp]:
  "int64_min \<le> x \<Longrightarrow> x \<le> int64_max \<Longrightarrow> int64_wrap x = x"
  by (simp add: int64_wrap_def int64_min_def int64_max_def)

lemma int64_ok_wrap [simp]: "int64_ok (int64_wrap x)"
  using int64_wrap_bounds by (simp add: int64_ok_def)

lemma int64_ok_0 [simp]: "int64_ok 0"
  by (simp add: int64_ok_def int64_min_def int64_max_def)

lemma int64_add_no_overflow:
  "int64_min \<le> a + b \<Longrightarrow> a + b \<le> int64_max \<Longrightarrow> int64_add a b = a + b"
  by (simp add: int64_add_def)

lemma int64_add_overflow:
  assumes "int64_max < a + b" and "a + b \<le> 2 * int64_max"
  shows "int64_add a b = a + b - 2 ^ 64"
proof -
  have "(a + b + 2 ^ 63) mod 2 ^ 64 = (a + b + 2 ^ 63 - 2 ^ 64) mod (2 ^ 64 :: int)"
    using assms(1) by (intro mod_pos_geq) (simp_all add: int64_max_def)
  also have "\<dots> = a + b + 2 ^ 63 - 2 ^ 64"
    using assms by (intro mod_pos_pos_trivial) (simp_all add: int64_max_def)
  finally show ?thesis by (simp add: int64_add_def int64_wrap_def)
qed

lemma int64_add_wrapped_nonpos:
  assumes "int64_ok a" and "int64_ok b" and "int64_max < a + b"
  shows "int64_add a b < 0"
proof -
  have "a + b \<le> 2 * int64_max"
    using assms(1,2) by (simp add: int64_ok_def)
  then have "int64_add a b = a + b - 2 ^ 64"
    by (rule int64_add_overflow [OF assms(3)])
  also have "\<dots> < 0"
    using assms(1,2) by (simp add: int64_ok_def int64_max_def)
  finally show ?thesis .
qed

section \<open>Go strings\<close>

text \<open>
  \<open>strings.ToLower\<close> maps every upper-case letter to lower case.  The model maps the
  ASCII letters \<open>A\<close>..\<open>Z\<close>; Go also lowers non-ASCII letters of the UTF-8 text,
  which no lemma of the development depends on.
\<close>

definition go_lower_char :: "char \<Rightarrow> char" where
  "go_lower_char c =
     (if (65::nat) \<le> of_char c \<and> of_char c \<le> (90::nat) then char_of (of_char c + (32::nat)) else c)"

definition go_to_lower :: "string \<Rightarrow> string" where
  "go_to_lower s = map go_lower_char s"

text \<open>
  \<open>strings.Contains s sub\<close>: whether \<open>sub\<close> occurs in \<open>s\<close> as a contiguous
  substring.  The model scans \<open>s\<close> left to right and tests for a prefix at each
  position; it is shown equal to the library's \<open>sublist\<close>.
\<close>

fun go_has_prefix :: "string \<Rightarrow> string \<Rightarrow> bool" where
  "go_has_prefix s [] = True"
| "go_has_prefix [] (c # cs) = False"
| "go_has_prefix (d # ds) (c # cs) = (d = c \<and> go_has_prefix ds cs)"

fun go_contains :: "string \<Rightarrow> string \<Rightarrow> bool" where
  "go_contains [] sub = (sub = [])"
| "go_contains (d # ds) sub = (go_has_prefix (d # ds) sub \<or> go_contains ds sub)"

lemma go_has_prefix_prefix: "go_has_prefix s sub \<longleftrightarrow> prefix sub s"
  by (induction s sub rule: go_has_prefix.induct) auto

theorem go_contains_sublist: "go_contains s sub \<longleftrightarrow> sublist sub s"
  by (induction s) (auto simp: go_has_prefix_prefix sublist_Cons_right)

lemma go_contains_append_middle [intro]: "go_contains (a @ sub @ b) sub"
  by (simp add: go_contains_sublist)

lemma go_to_lower_length [simp]: "length (go_to_lower s) = length s"
  by (simp add: go_to_lower_def)

lemma go_to_lower_append [simp]: "go_to_lower (a @ b) = go_to_lower a @ go_to_lower b"
  by (simp add: go_to_lower_def)

text \<open>
  \<open>fmt.Sprintf\<close>, as the go-micro logger's \<open>Infof\<close> and \<open>Fatalf\<close> call it, for the
  verbs the program uses: \<open>%v\<close> prints the next argument, \<open>%%\<close> a percent sign; a
  \<open>%v\<close> with no argument left prints \<open>%!v(MISSING)\<close>, and arguments left over at the
  end of the format are appended as \<open>%!(EXTRA type=value, ...)\<close>.  An argument is
  its dynamic type's name and its printed value.
\<close>

definition go_extra :: "(string \<times> string) list \<Rightarrow> string" where
  "go_extra args =
     (if args = [] then []
      else ''%!(EXTRA '' @ concat (map (\<lambda>a. fst a @ ''='' @ snd a @ '', '') (butlast args))
           @ fst (last args) @ ''='' @ snd (last args) @ '')'')"

fun go_sprintf :: "string \<Rightarrow> (string \<times> string) list \<Rightarrow> string" where
  "go_sprintf [] args = go_extra args"
| "go_sprintf [c] args = (if c = CHR ''%'' then ''%!(NOVERB)'' else [c]) @ go_extra args"
| "go_sprintf (c # d # fmt) args =
     (if c = CHR ''%'' \<and> d = CHR ''v'' then
        (case args of a # rest \<Rightarrow> snd a @ go_sprintf fmt rest | [] \<Rightarrow> ''%!v(MISSING)'' @ go_sprintf fmt [])
      else if c = CHR ''%'' \<and> d = CHR ''%'' then CHR ''%'' # go_sprintf fmt args
      else c # go_sprintf (d # fmt) args)"

lemma go_extra_Nil [simp]: "go_extra [] = []"
  by (simp add: go_extra_def)

section \<open>Maps\<close>

text \<open>Facts on partial maps used by the cache, the store and the cluster model.\<close>

lemma map_upd_other [simp]: "k' \<noteq> k \<Longrightarrow> (m(k \<mapsto> v)) k' = m k'"
  by simp

lemma ran_updD: "x \<in> ran (m(k \<mapsto> v)) \<Longrightarrow> x = v \<or> x \<in> ran m"
  by (auto simp: ran_def split: if_splits)

lemma ran_restrictD: "x \<in> ran (m(k := None)) \<Longrightarrow> x \<in> ran m"
  by (auto simp: ran_def split: if_splits)

text \<open>A property of every element survives an update with an element that has it.\<close>

lemma set_update_all:
  "\<forall>x\<in>set xs. P x \<Longrightarrow> (i < length xs \<Longrightarrow> P y) \<Longrightarrow> \<forall>x\<in>set (xs[i := y]). P x"
  by (cases "i < length xs") (auto dest: set_update_subset_insert [THEN subsetD] simp: list_update_beyond not_less)

section \<open>Folds of commuting, idempotent steps\<close>

text \<open>
  A step function \<open>f\<close> that keeps an invariant \<open>P\<close>, whose steps from a set \<open>A\<close>
  commute pairwise and are idempotent under \<open>P\<close>: folding it over a list of steps from
  \<open>A\<close> gives a result that depends only on the set of steps, not on their order or
  their repetitions.  This is the shape of at-least-once, reordering delivery.
\<close>

definition steps_commute :: "('s \<Rightarrow> bool) \<Rightarrow> ('s \<Rightarrow> 'e \<Rightarrow> 's) \<Rightarrow> 'e set \<Rightarrow> bool" where
  "steps_commute P f A =
     ((\<forall>c x. P c \<longrightarrow> x \<in> A \<longrightarrow> P (f c x))
      \<and> (\<forall>c x y. P c \<longrightarrow> x \<in> A \<longrightarrow> y \<in> A \<longrightarrow> f (f c x) y = f (f c y) x)
      \<and> (\<forall>c x. P c \<longrightarrow> x \<in> A \<longrightarrow> f (f c x) x = f c x))"

lemma foldl_keeps:
  "steps_commute P f A \<Longrightarrow> P c \<Longrightarrow> set xs \<subseteq> A \<Longrightarrow> P (foldl f c xs)"
  by (induction xs arbitrary: c) (auto simp: steps_commute_def)

lemma foldl_step_to_front:
  assumes "steps_commute P f A" and "P c" and "set zs \<subseteq> A" and "x \<in> A"
  shows "f (foldl f c zs) x = foldl f (f c x) zs"
  using assms
proof (induction zs arbitrary: c)
  case Nil
  then show ?case by simp
next
  case (Cons z zs)
  have "P (f c z)" using Cons.prems by (simp add: steps_commute_def)
  then have "f (foldl f (f c z) zs) x = foldl f (f (f c z) x) zs"
    using Cons.prems by (intro Cons.IH) auto
  also have "f (f c z) x = f (f c x) z"
    using Cons.prems by (simp add: steps_commute_def)
  finally show ?case by simp
qed

lemma foldl_absorb:
  assumes "steps_commute P f A" and "P c" and "set xs \<subseteq> A" and "y \<in> set xs"
  shows "f (foldl f c xs) y = foldl f c xs"
  using assms
proof (induction xs arbitrary: c)
  case Nil
  then show ?case by simp
next
  case (Cons x xs)
  have Px: "P (f c x)" using Cons.prems by (simp add: steps_commute_def)
  show ?case
  proof (cases "y = x")
    case True
    have "f (foldl f (f c x) xs) x = foldl f (f (f c x) x) xs"
      using foldl_step_to_front [OF Cons.prems(1) Px] Cons.prems by auto
    also have "f (f c x) x = f c x"
      using Cons.prems by (simp add: steps_commute_def)
    finally show ?thesis using True by simp
  next
    case False
    then show ?thesis using Cons.prems Px by (simp add: Cons.IH)
  qed
qed

lemma foldl_absorb_list:
  assumes "steps_commute P f A" and "P c" and "set xs \<subseteq> A" and "set ys \<subseteq> set xs"
  shows "foldl f c (xs @ ys) = foldl f c xs"
  using assms(4)
proof (induction ys rule: rev_induct)
  case Nil
  then show ?case by simp
next
  case (snoc y ys)
  then have "foldl f c (xs @ ys @ [y]) = f (foldl f c xs) y"
    by simp
  also have "\<dots> = foldl f c xs"
    using foldl_absorb [OF assms(1,2,3)] snoc.prems by auto
  finally show ?case by simp
qed

lemma foldl_swap_lists:
  assumes "steps_commute P f A" and "P c" and "set xs \<subseteq> A" and "set ys \<subseteq> A"
  shows "foldl f c (xs @ ys) = foldl f c (ys @ xs)"
  using assms(2,4)
proof (induction ys arbitrary: c)
  case Nil
  then show ?case by simp
next
  case (Cons y ys)
  have "foldl f c (xs @ y # ys) = foldl f (f (foldl f c xs) y) ys"
    by simp
  also have "f (foldl f c xs) y = foldl f (f c y) xs"
    using foldl_step_to_front [OF assms(1) Cons.prems(1) assms(3)] Cons.prems by auto
  also have "foldl f (foldl f (f c y) xs) ys = foldl f (f c y) (xs @ ys)"
    by simp
  also have "\<dots> = foldl f (f c y) (ys @ xs)"
    using assms(1) Cons.prems by (intro Cons.IH) (auto simp: steps_commute_def)
  finally show ?case by simp
qed

theorem foldl_set_determined:
  assumes "steps_commute P f A" and "P c" and "set xs \<subseteq> A" and "set xs = set ys"
  shows "foldl f c xs = foldl f c ys"
proof -
  have ys: "set ys \<subseteq> A" using assms(3,4) by simp
  have "foldl f c xs = foldl f c (xs @ ys)"
    using foldl_absorb_list [OF assms(1,2,3)] assms(4) by simp
  also have "\<dots> = foldl f c (ys @ xs)"
    by (rule foldl_swap_lists [OF assms(1,2,3) ys])
  also have "\<dots> = foldl f c ys"
    using foldl_absorb_list [OF assms(1,2) ys] assms(4) by simp
  finally show ?thesis .
qed

end
