(* ===== verification/Proto.thy ===== *)
theory Proto
  imports Prelude
begin

text \<open>
  The messages exchanged between the command-line client (\<open>config.go\<close>), the Config
  Core handler and the notification topic.  The protobuf package
  \<open>service/rtss_config/proto\<close> is not among the sources, so these types follow the spec
  (sections 3 and 6) and the fields that \<open>config.go\<close> reads and writes: a Go pointer
  field that may be \<open>nil\<close> is an \<open>option\<close>.
\<close>

section \<open>Encoded values and changes\<close>

text \<open>\<open>proto.ChangeSet\<close>: the Encoded Value of spec section 3.\<close>

record change_set =
  cs_data :: string
  cs_format :: string
  cs_source :: string
  cs_timestamp :: int

text \<open>\<open>proto.Change\<close>: a namespace, a path and a possibly nil change set.\<close>

record change =
  ch_namespace :: namespace
  ch_path :: cpath
  ch_change_set :: "change_set option"

text \<open>Requests and responses of the three RPCs of spec section 6.\<close>

record read_request =
  rr_namespace :: namespace
  rr_path :: cpath

record read_response =
  rsp_change :: "change option"

section \<open>Change events\<close>

text \<open>
  A Change Event (spec section 3) carries either a new value or a tombstone, and the
  timestamp of its origin.
\<close>

datatype payload = Value change_set | Tombstone

record change_event =
  ev_key :: ckey
  ev_payload :: payload
  ev_origin_ts :: int

text \<open>An event is well formed when its origin timestamp is the timestamp of its value.\<close>

definition event_wf :: "change_event \<Rightarrow> bool" where
  "event_wf ev =
     (case ev_payload ev of Value v \<Rightarrow> ev_origin_ts ev = cs_timestamp v | Tombstone \<Rightarrow> True)"

text \<open>The value an event carries, if any.\<close>

definition payload_values :: "payload \<Rightarrow> change_set set" where
  "payload_values p = (case p of Value v \<Rightarrow> {v} | Tombstone \<Rightarrow> {})"

section \<open>Errors\<close>

text \<open>
  The error taxonomy of spec section 7: validation, not-found and transient
  infrastructure failure.  \<open>core_error_text\<close> is the text that \<open>err.Error()\<close> returns
  to the client for each, in the JSON form of go-micro's \<open>errors.Error\<close>.
\<close>

datatype core_error = BadRequest | NotFound | Unavailable

fun core_error_text :: "core_error \<Rightarrow> string" where
  "core_error_text BadRequest =
     ''{\"id\":\"go.micro.rtss_config\",\"code\":400,\"detail\":\"invalid key\",\"status\":\"Bad Request\"}''"
| "core_error_text NotFound =
     ''{\"id\":\"go.micro.rtss_config\",\"code\":404,\"detail\":\"not found\",\"status\":\"Not Found\"}''"
| "core_error_text Unavailable =
     ''{\"id\":\"go.micro.rtss_config\",\"code\":503,\"detail\":\"store unavailable\",\"status\":\"Service Unavailable\"}''"


text \<open>The texts are kept folded; the client's lemmas are about what they contain.\<close>

declare core_error_text.simps [simp del]

end
