(* ===== verification/Go_Cache.thy ===== *)
theory Go_Cache
  imports Prelude
begin

text \<open>
  The Local Cache: the time-expiring in-process cache that \<open>Run\<close> creates with
  \<open>cache.New(CacheDuration, CacheCleanupInterval)\<close> (\<open>config.go\<close>, line 56), from
  the library \<open>github.com/patrickmn/go-cache\<close>.  The library is not among the sources;
  the model follows spec section 3 (Cache Entry, expiry, background sweep) with the
  library's representation: an item stores its object and an absolute expiration time
  in \<open>UnixNano\<close>, where \<open>0\<close> means "never expires"; \<open>New\<close> turns a default
  expiration of \<open>0\<close> into \<open>NoExpiration\<close> (\<open>-1\<close>); \<open>Set\<close> with
  \<open>DefaultExpiration\<close> (\<open>0\<close>) uses the cache's default; an item is expired once the
  clock is strictly past its expiration.  \<open>New\<close> starts a janitor only for a
  positive cleanup interval; the janitor's \<open>Run\<close> panics in \<open>time.NewTicker\<close> on a
  non-positive one and otherwise sweeps on every tick until it is stopped.
\<close>

record 'v cache_item =
  item_object :: 'v
  item_expiration :: nanos

text \<open>
  The cache: its default expiration, its items, and the interval of its janitor, the
  goroutine that \<open>New\<close> starts only for a positive cleanup interval.
\<close>

record ('k, 'v) go_cache =
  gc_default_expiration :: nanos
  gc_items :: "'k \<rightharpoonup> 'v cache_item"
  gc_janitor :: "nanos option"

definition no_expiration :: nanos where
  "no_expiration = -1"

definition default_expiration :: nanos where
  "default_expiration = 0"

section \<open>Operations\<close>

definition cache_new :: "nanos \<Rightarrow> nanos \<Rightarrow> ('k, 'v) go_cache" where
  "cache_new de ci =
     \<lparr>gc_default_expiration = (if de = 0 then no_expiration else de), gc_items = Map.empty,
      gc_janitor = (if 0 < ci then Some ci else None)\<rparr>"

definition item_expired :: "nanos \<Rightarrow> 'v cache_item \<Rightarrow> bool" where
  "item_expired now it = (0 < item_expiration it \<and> item_expiration it < now)"

definition cache_set_d :: "'k \<Rightarrow> 'v \<Rightarrow> nanos \<Rightarrow> nanos \<Rightarrow> ('k, 'v) go_cache \<Rightarrow> ('k, 'v) go_cache" where
  "cache_set_d k x d now c =
     (let d' = (if d = default_expiration then gc_default_expiration c else d);
          e = (if 0 < d' then int64_add now d' else 0)
      in c\<lparr>gc_items := (gc_items c)(k \<mapsto> \<lparr>item_object = x, item_expiration = e\<rparr>)\<rparr>)"

definition cache_set :: "'k \<Rightarrow> 'v \<Rightarrow> nanos \<Rightarrow> ('k, 'v) go_cache \<Rightarrow> ('k, 'v) go_cache" where
  "cache_set k x now c = cache_set_d k x default_expiration now c"

definition cache_get :: "'k \<Rightarrow> nanos \<Rightarrow> ('k, 'v) go_cache \<Rightarrow> 'v option" where
  "cache_get k now c =
     (case gc_items c k of
        None \<Rightarrow> None
      | Some it \<Rightarrow> if item_expired now it then None else Some (item_object it))"

definition cache_delete :: "'k \<Rightarrow> ('k, 'v) go_cache \<Rightarrow> ('k, 'v) go_cache" where
  "cache_delete k c = c\<lparr>gc_items := (gc_items c)(k := None)\<rparr>"

definition cache_delete_expired :: "nanos \<Rightarrow> ('k, 'v) go_cache \<Rightarrow> ('k, 'v) go_cache" where
  "cache_delete_expired now c =
     c\<lparr>gc_items := (\<lambda>k. case gc_items c k of
                          None \<Rightarrow> None
                        | Some it \<Rightarrow> if item_expired now it then None else Some it)\<rparr>"

text \<open>
  The janitor's loop (the \<open>for\<close>/\<open>select\<close> of \<open>janitor.Run\<close>): its ticker fires every
  \<open>ci\<close> nanoseconds and each tick runs \<open>DeleteExpired\<close>, until the janitor is stopped
  at time \<open>stop\<close> (\<open>stopJanitor\<close>, run by the cache's finalizer), when it returns.
  A tick that coincides with the stop is taken first.  Termination depends on the
  interval, so the loop is a partial function: \<open>None\<close> is a loop that never returns.
\<close>

partial_function (option) janitor_loop ::
  "nanos \<Rightarrow> nanos \<Rightarrow> nanos \<Rightarrow> ('k, 'v) go_cache \<Rightarrow> ('k, 'v) go_cache option" where
  "janitor_loop ci stop now c =
     (if stop < now + ci then Some c
      else janitor_loop ci stop (now + ci) (cache_delete_expired (now + ci) c))"

text \<open>
  \<open>janitor.Run\<close>: \<open>time.NewTicker(ci)\<close> panics on a non-positive interval; otherwise
  the loop runs.  The result is the panic's message or the cache when the janitor returns.
\<close>

definition ticker_panic :: string where
  "ticker_panic = ''non-positive interval for NewTicker''"

definition janitor_run ::
  "nanos \<Rightarrow> nanos \<Rightarrow> nanos \<Rightarrow> ('k, 'v) go_cache \<Rightarrow> (string + ('k, 'v) go_cache) option" where
  "janitor_run ci stop now c =
     (if ci \<le> 0 then Some (Inl ticker_panic) else map_option Inr (janitor_loop ci stop now c))"

text \<open>One tick of a running janitor at time \<open>now\<close>; a cache without a janitor is never swept.\<close>

definition janitor_tick :: "nanos \<Rightarrow> ('k, 'v) go_cache \<Rightarrow> ('k, 'v) go_cache" where
  "janitor_tick now c = (case gc_janitor c of None \<Rightarrow> c | Some _ \<Rightarrow> cache_delete_expired now c)"

section \<open>Well-formedness and the abstract view\<close>

text \<open>
  A cache is well formed when its default expiration is an \<open>int64\<close> other than
  \<open>DefaultExpiration\<close> (\<open>New\<close> never leaves \<open>0\<close> there).  The abstract view of a
  cache at time \<open>now\<close> is the map of what \<open>Get\<close> returns; the lemmas below show that
  each operation acts on the view as a plain map operation would.
\<close>

definition cache_wf :: "('k, 'v) go_cache \<Rightarrow> bool" where
  "cache_wf c = (int64_ok (gc_default_expiration c) \<and> gc_default_expiration c \<noteq> 0)"

definition cache_view :: "nanos \<Rightarrow> ('k, 'v) go_cache \<Rightarrow> 'k \<rightharpoonup> 'v" where
  "cache_view now c = (\<lambda>k. cache_get k now c)"

text \<open>The objects the cache holds, expired or not yet swept.\<close>

definition cache_values :: "('k, 'v) go_cache \<Rightarrow> 'v set" where
  "cache_values c = item_object ` ran (gc_items c)"

text \<open>
  Bounded staleness at clock \<open>now\<close> for a default duration \<open>d\<close>: every item expires by
  \<open>now + d\<close>, unless \<open>now + d\<close> has left \<open>int64\<close> (then a wrapped expiration may
  mean "never").
\<close>

definition cache_bounded :: "nanos \<Rightarrow> nanos \<Rightarrow> ('k, 'v) go_cache \<Rightarrow> bool" where
  "cache_bounded d now c =
     (gc_default_expiration c = d
      \<and> (\<forall>it\<in>ran (gc_items c). (0 < item_expiration it \<and> item_expiration it \<le> now + d) \<or> int64_max < now + d))"

lemma cache_set_items [cache_simps]:
  "gc_items (cache_set k x now c) =
     (gc_items c)(k \<mapsto> \<lparr>item_object = x,
        item_expiration = (if 0 < gc_default_expiration c
                           then int64_add now (gc_default_expiration c) else 0)\<rparr>)"
  by (simp add: cache_set_def cache_set_d_def default_expiration_def Let_def)

lemma cache_set_default [cache_simps]:
  "gc_default_expiration (cache_set k x now c) = gc_default_expiration c"
  by (simp add: cache_set_def cache_set_d_def Let_def)

lemma cache_delete_default [cache_simps]:
  "gc_default_expiration (cache_delete k c) = gc_default_expiration c"
  by (simp add: cache_delete_def)

lemma cache_delete_expired_default [cache_simps]:
  "gc_default_expiration (cache_delete_expired now c) = gc_default_expiration c"
  by (simp add: cache_delete_expired_def)

lemma cache_new_wf:
  "int64_ok de \<Longrightarrow> cache_wf (cache_new de ci)"
  by (simp add: cache_wf_def cache_new_def no_expiration_def int64_ok_def int64_min_def int64_max_def)

theorem cache_ops_wf:
  assumes "cache_wf c"
  shows "cache_wf (cache_set k x now c)" and "cache_wf (cache_delete k c)"
    and "cache_wf (cache_delete_expired now c)"
  using assms by (simp_all add: cache_wf_def cache_simps)

text \<open>
  An item stored at a valid clock reading is not expired at that reading: with a
  positive duration its expiration lies after \<open>now\<close> or has wrapped below zero.
\<close>

lemma cache_set_fresh:
  assumes "cache_wf c" and "int64_ok now" and "t \<le> now"
  shows "cache_get k t (cache_set k x now c) = Some x"
proof (cases "0 < gc_default_expiration c \<and> int64_max < now + gc_default_expiration c")
  case True
  then have "int64_add now (gc_default_expiration c) < 0"
    using assms(1,2) by (intro int64_add_wrapped_nonpos) (auto simp: cache_wf_def)
  then show ?thesis
    by (simp add: cache_get_def cache_set_items item_expired_def)
next
  case False
  then have "0 < gc_default_expiration c \<longrightarrow> int64_add now (gc_default_expiration c) = now + gc_default_expiration c"
    using assms(2) by (auto simp: int64_ok_def int64_add_no_overflow)
  then show ?thesis
    using assms(3) by (auto simp: cache_get_def cache_set_items item_expired_def)
qed

lemma cache_get_set_other [cache_simps]:
  "k' \<noteq> k \<Longrightarrow> cache_get k' t (cache_set k x now c) = cache_get k' t c"
  by (simp add: cache_get_def cache_set_items)

lemma cache_get_delete [cache_simps]:
  "cache_get k' t (cache_delete k c) = (if k' = k then None else cache_get k' t c)"
  by (simp add: cache_get_def cache_delete_def)

lemma cache_get_new [cache_simps]: "cache_get k t (cache_new de ci) = None"
  by (simp add: cache_get_def cache_new_def)

text \<open>Refinement: each operation is, on the view, the corresponding map operation.\<close>

theorem cache_view_set:
  assumes "cache_wf c" and "int64_ok now"
  shows "cache_view now (cache_set k x now c) = (cache_view now c)(k \<mapsto> x)"
proof
  fix k'
  show "cache_view now (cache_set k x now c) k' = ((cache_view now c)(k \<mapsto> x)) k'"
    using assms by (cases "k' = k") (simp_all add: cache_view_def cache_set_fresh cache_get_set_other)
qed

theorem cache_view_delete:
  "cache_view now (cache_delete k c) = (cache_view now c)(k := None)"
  by (auto simp: cache_view_def cache_get_delete)

theorem cache_view_new: "cache_view now (cache_new de ci) = Map.empty"
  by (simp add: cache_view_def cache_get_new)

text \<open>
  The janitor's sweep at any time \<open>s\<close> up to \<open>now\<close> is invisible at \<open>now\<close>: it only
  removes items that \<open>Get\<close> already reports as missing.
\<close>

theorem cache_view_delete_expired:
  assumes "s \<le> now"
  shows "cache_view now (cache_delete_expired s c) = cache_view now c"
proof
  fix k
  show "cache_view now (cache_delete_expired s c) k = cache_view now c k"
    using assms by (auto simp: cache_view_def cache_get_def cache_delete_expired_def item_expired_def
        split: option.splits)
qed

section \<open>Expiry\<close>

text \<open>A hit stays a hit at every earlier time.\<close>

lemma cache_get_earlier:
  "cache_get k t c = Some x \<Longrightarrow> t' \<le> t \<Longrightarrow> cache_get k t' c = Some x"
  by (auto simp: cache_get_def item_expired_def split: option.splits if_splits)

text \<open>
  An item stored with a positive default duration \<open>d\<close> at a time \<open>now\<close> after the
  epoch, where \<open>now + d\<close> fits in \<open>int64\<close>, is visible up to \<open>now + d\<close> and gone
  after it.  (Before the epoch an expiration \<open>\<le> 0\<close> would mean "never".)
\<close>

theorem cache_set_lifetime:
  assumes "0 < gc_default_expiration c" and "0 \<le> now"
    and "now + gc_default_expiration c \<le> int64_max"
  shows "cache_get k t (cache_set k x now c) =
           (if t \<le> now + gc_default_expiration c then Some x else None)"
proof -
  have "int64_add now (gc_default_expiration c) = now + gc_default_expiration c"
    using assms by (intro int64_add_no_overflow) (auto simp: int64_min_def)
  then show ?thesis
    using assms(1,2) by (auto simp: cache_get_def cache_set_items item_expired_def)
qed

text \<open>Without a positive default (\<open>NoExpiration\<close>), a stored item never expires.\<close>

theorem cache_set_no_expiry:
  "gc_default_expiration c \<le> 0 \<Longrightarrow> cache_get k t (cache_set k x now c) = Some x"
  by (simp add: cache_get_def cache_set_items item_expired_def)

text \<open>
  Wrap-around: when \<open>now + d\<close> leaves the \<open>int64\<close> range the expiration wraps to a
  negative number, and the item never expires however late it is read.
\<close>

theorem cache_set_overflow_never_expires:
  assumes "cache_wf c" and "int64_ok now" and "0 < gc_default_expiration c"
    and "int64_max < now + gc_default_expiration c"
  shows "cache_get k t (cache_set k x now c) = Some x"
proof -
  have "int64_add now (gc_default_expiration c) < 0"
    using assms by (intro int64_add_wrapped_nonpos) (auto simp: cache_wf_def)
  then show ?thesis
    by (simp add: cache_get_def cache_set_items item_expired_def)
qed

section \<open>Operations on different keys commute\<close>

lemma cache_set_twice [cache_simps]: "cache_set k y now (cache_set k x now' c) = cache_set k y now c"
  by (simp add: cache_set_def cache_set_d_def Let_def)

lemma cache_delete_set [cache_simps]: "cache_delete k (cache_set k x now c) = cache_delete k c"
  by (simp add: cache_set_def cache_set_d_def cache_delete_def Let_def)

lemma cache_delete_twice [cache_simps]: "cache_delete k (cache_delete k c) = cache_delete k c"
  by (simp add: cache_delete_def)

lemma cache_ops_commute:
  assumes "k1 \<noteq> k2"
  shows "cache_set k1 x t1 (cache_set k2 y t2 c) = cache_set k2 y t2 (cache_set k1 x t1 c)"
    and "cache_delete k1 (cache_set k2 y t2 c) = cache_set k2 y t2 (cache_delete k1 c)"
    and "cache_delete k1 (cache_delete k2 c) = cache_delete k2 (cache_delete k1 c)"
  using assms by (simp_all add: cache_set_def cache_set_d_def cache_delete_def Let_def fun_upd_twist)

section \<open>Values held by the cache\<close>

text \<open>The cache holds only what was put into it.\<close>

lemma cache_values_new [simp]: "cache_values (cache_new de ci) = {}"
  by (simp add: cache_values_def cache_new_def)

lemma cache_values_setD [dest]:
  "y \<in> cache_values (cache_set k x now c) \<Longrightarrow> y = x \<or> y \<in> cache_values c"
  by (auto simp: cache_values_def cache_set_def cache_set_d_def Let_def dest: ran_updD)

lemma cache_values_deleteD [dest]: "y \<in> cache_values (cache_delete k c) \<Longrightarrow> y \<in> cache_values c"
  by (auto simp: cache_values_def cache_delete_def dest: ran_restrictD)

lemma cache_get_values: "cache_get k now c = Some x \<Longrightarrow> x \<in> cache_values c"
  by (auto simp: cache_get_def cache_values_def ran_def split: option.splits if_splits)

section \<open>Bounded staleness\<close>

text \<open>
  With a positive default duration and a clock after the epoch, the bound holds for a
  new cache, survives every operation at the clock, and only weakens as time passes.
\<close>

lemma cache_bounded_set:
  assumes "cache_bounded d now c" and "0 < d" and "0 \<le> now"
  shows "cache_bounded d now (cache_set k x now c)"
proof -
  have "0 < int64_add now d \<and> int64_add now d \<le> now + d \<or> int64_max < now + d"
    using assms(2,3) int64_add_no_overflow [of now d] by (auto simp: int64_min_def)
  then show ?thesis
    using assms by (auto simp: cache_bounded_def cache_set_items cache_set_default dest: ran_updD)
qed

lemma cache_bounded_ops [intro]:
  "d \<noteq> 0 \<Longrightarrow> cache_bounded d now (cache_new d ci)"
  "cache_bounded d now c \<Longrightarrow> cache_bounded d now (cache_delete k c)"
  "cache_bounded d now c \<Longrightarrow> cache_bounded d now (cache_delete_expired t c)"
  "cache_bounded d now c \<Longrightarrow> now \<le> now' \<Longrightarrow> cache_bounded d now' c"
proof -
  show "d \<noteq> 0 \<Longrightarrow> cache_bounded d now (cache_new d ci)"
    by (simp add: cache_bounded_def cache_new_def)
  show "cache_bounded d now c \<Longrightarrow> cache_bounded d now (cache_delete k c)"
    by (auto simp: cache_bounded_def cache_delete_def dest: ran_restrictD)
  show "cache_bounded d now c \<Longrightarrow> cache_bounded d now (cache_delete_expired t c)"
    by (auto simp: cache_bounded_def cache_delete_expired_def ran_def split: option.splits if_splits)
  show "cache_bounded d now c \<Longrightarrow> now \<le> now' \<Longrightarrow> cache_bounded d now' c"
    by (fastforce simp: cache_bounded_def)
qed

text \<open>Once the clock has passed \<open>now + d\<close>, within \<open>int64\<close>, \<open>Get\<close> misses every key.\<close>

lemma cache_bounded_expired:
  assumes "cache_bounded d now c" and "now + d \<le> int64_max" and "now + d < t"
  shows "cache_get k t c = None"
  using assms by (force simp: cache_bounded_def cache_get_def item_expired_def ran_def split: option.split)


section \<open>The janitor\<close>

lemma cache_delete_expired_twice:
  "t1 \<le> t2 \<Longrightarrow> cache_delete_expired t2 (cache_delete_expired t1 c) = cache_delete_expired t2 c"
  by (auto simp: cache_delete_expired_def item_expired_def fun_eq_iff split: option.splits)

lemma janitor_keeps [simp]:
  "gc_janitor (cache_set k x now c) = gc_janitor c" "gc_janitor (cache_delete k c) = gc_janitor c"
  "gc_janitor (cache_delete_expired now c) = gc_janitor c" "gc_janitor (janitor_tick now c) = gc_janitor c"
  by (simp_all add: cache_set_def cache_set_d_def Let_def cache_delete_def cache_delete_expired_def
      janitor_tick_def split: option.split)

text \<open>
  With a positive interval the janitor returns by any stop time, and its effect is one
  sweep at its last tick \<open>now + q * ci\<close>, \<open>q\<close> the number of ticks before the stop.
\<close>

lemma janitor_loop_closed:
  assumes "0 < ci"
  shows "janitor_loop ci stop now (c :: ('k, 'v) go_cache) =
           Some (if stop < now + ci then c else cache_delete_expired (now + (stop - now) div ci * ci) c)"
  using assms
proof (induction "nat (stop - now)" arbitrary: now c rule: less_induct)
  case less
  show ?case
  proof (cases "stop < now + ci")
    case True
    then show ?thesis by (subst janitor_loop.simps) simp
  next
    case False
    let ?q = "(stop - now) div ci"
    have q: "(stop - (now + ci)) div ci = ?q - 1"
      using less.prems div_add_self2 [of ci "stop - (now + ci)"] by (simp add: algebra_simps)
    have decr: "nat (stop - (now + ci)) < nat (stop - now)"
      using False less.prems by simp
    have IH: "janitor_loop ci stop (now + ci) c' =
        Some (if stop < now + ci + ci then c'
              else cache_delete_expired (now + ci + (stop - (now + ci)) div ci * ci) c')"
      for c' :: "('k, 'v) go_cache"
      by (rule less.hyps [OF decr less.prems])
    have ge: "1 \<le> ?q"
      using zdiv_mono1 [of ci "stop - now" ci] False less.prems by simp
    show ?thesis
    proof (cases "stop < now + ci + ci")
      case True
      then have "(stop - (now + ci)) div ci = 0"
        using False by (intro div_pos_pos_trivial) auto
      then have "?q = 1"
        using q by simp
      then show ?thesis
        using True False IH by (subst janitor_loop.simps) simp
    next
      case False2: False
      have eq: "now + ci + (?q - 1) * ci = now + ?q * ci"
        by (simp add: algebra_simps)
      have le: "now + ci \<le> now + ?q * ci"
        using ge less.prems by simp
      have "janitor_loop ci stop now c = janitor_loop ci stop (now + ci) (cache_delete_expired (now + ci) c)"
        using False by (subst janitor_loop.simps) simp
      also have "\<dots> = Some (cache_delete_expired (now + ci + (?q - 1) * ci) (cache_delete_expired (now + ci) c))"
        using IH False2 q by simp
      also have "\<dots> = Some (cache_delete_expired (now + ?q * ci) c)"
        unfolding eq using le by (simp add: cache_delete_expired_twice)
      finally show ?thesis using False by simp
    qed
  qed
qed

text \<open>
  \<open>janitor.Run\<close> returns for every interval: it panics at once on a non-positive one,
  and otherwise returns at the stop with the effect of its last tick.
\<close>

lemma janitor_run_returns:
  "janitor_run ci stop now c =
     Some (if ci \<le> 0 then Inl ticker_panic
           else Inr (if stop < now + ci then c else cache_delete_expired (now + (stop - now) div ci * ci) c))"
  by (simp add: janitor_run_def janitor_loop_closed)

theorem janitor_invisible:
  "cache_get k now (janitor_tick now c) = cache_get k now c"
  using cache_view_delete_expired [of now now c]
  by (auto simp: janitor_tick_def cache_view_def fun_eq_iff split: option.split)


lemma janitor_tick_props:
  "cache_values (janitor_tick now c) \<subseteq> cache_values c"
  "cache_wf c \<Longrightarrow> cache_wf (janitor_tick now c)"
  "cache_bounded d t c \<Longrightarrow> cache_bounded d t (janitor_tick now c)"
  by (auto simp: janitor_tick_def cache_values_def cache_wf_def cache_delete_expired_def cache_bounded_def
      ran_def split: option.splits if_splits)

end
