(* ===== verification/Config_Core.thy ===== *)
theory Config_Core
  imports Proto Go_Cache
begin

text \<open>
  The Config Core: the handler \<open>handler.Config{Store, Cache}\<close> that \<open>Run\<close> registers
  as the RPC handler and whose \<open>Watcher\<close> it subscribes to the watch topic
  (\<open>config.go\<close>, lines 54-66).  The package \<open>service/rtss_config/handler\<close> is not among
  the sources, so its operations follow spec section 4: Read (4.1), Write (4.2),
  Delete (4.3) and Apply Remote Change Event (4.4), with the error policy of section 7.

  The backing store is the map \<open>store\<close>, shared by all instances; the instance's
  own state is its \<open>cache\<close>.  Every operation takes the clock reading \<open>now\<close>
  (\<open>UnixNano\<close>), whether the store answers (\<open>up\<close>: when \<open>False\<close>, every store call
  fails with a transient error), and, for the mutating ones, whether the publish call
  succeeds (\<open>pub\<close>).  It returns a \<open>core_out\<close>: the RPC result, the new store, the
  new cache and the events it published, in publish order.
\<close>

type_synonym store = "ckey \<rightharpoonup> change_set"
type_synonym cache = "(ckey, change_set) go_cache"

record 'a core_out =
  out_result :: "core_error + 'a"
  out_store :: store
  out_cache :: cache
  out_events :: "change_event list"

section \<open>Keys and the backing store adapter\<close>

text \<open>
  Composite keys (spec section 3): an empty path is invalid and rejected before any
  I/O; an empty namespace defaults to the global partition.
\<close>

definition global_namespace :: namespace where
  "global_namespace = ''global''"

definition key_of :: "namespace \<Rightarrow> cpath \<Rightarrow> ckey" where
  "key_of ns p = (if ns = [] then global_namespace else ns, p)"

definition core_key :: "namespace \<Rightarrow> cpath \<Rightarrow> core_error + ckey" where
  "core_key ns p = (if p = [] then Inl BadRequest else Inr (key_of ns p))"

text \<open>The adapter's \<open>Get\<close>, \<open>Put\<close> and \<open>Delete\<close> (spec section 6).\<close>

definition store_get :: "bool \<Rightarrow> store \<Rightarrow> ckey \<Rightarrow> core_error + change_set option" where
  "store_get up st k = (if up then Inr (st k) else Inl Unavailable)"

definition store_put :: "bool \<Rightarrow> store \<Rightarrow> ckey \<Rightarrow> change_set \<Rightarrow> core_error + store" where
  "store_put up st k v = (if up then Inr (st(k \<mapsto> v)) else Inl Unavailable)"

definition store_delete :: "bool \<Rightarrow> store \<Rightarrow> ckey \<Rightarrow> core_error + store" where
  "store_delete up st k = (if up then Inr (st(k := None)) else Inl Unavailable)"

text \<open>A payload that is empty or the literal \<open>null\<close> reads as absent (spec 4.1 step 3).\<close>

definition empty_payload :: "change_set \<Rightarrow> bool" where
  "empty_payload v = (cs_data v = [] \<or> cs_data v = ''null'')"

section \<open>Read (spec 4.1)\<close>

definition core_read ::
  "bool \<Rightarrow> nanos \<Rightarrow> store \<Rightarrow> cache \<Rightarrow> read_request \<Rightarrow> change_set core_out" where
  "core_read up now st c req =
     (case core_key (rr_namespace req) (rr_path req) of
        Inl e \<Rightarrow> \<lparr>out_result = Inl e, out_store = st, out_cache = c, out_events = []\<rparr>
      | Inr k \<Rightarrow>
          (case cache_get k now c of
             Some v \<Rightarrow> \<lparr>out_result = Inr v, out_store = st, out_cache = c, out_events = []\<rparr>
           | None \<Rightarrow>
               (case store_get up st k of
                  Inl e \<Rightarrow> \<lparr>out_result = Inl e, out_store = st, out_cache = c, out_events = []\<rparr>
                | Inr None \<Rightarrow> \<lparr>out_result = Inl NotFound, out_store = st, out_cache = c, out_events = []\<rparr>
                | Inr (Some v) \<Rightarrow>
                    if empty_payload v
                    then \<lparr>out_result = Inl NotFound, out_store = st, out_cache = c, out_events = []\<rparr>
                    else \<lparr>out_result = Inr v, out_store = st, out_cache = cache_set k v now c,
                          out_events = []\<rparr>)))"

section \<open>Write (spec 4.2)\<close>

text \<open>
  Validate, persist (the durability point), update the local cache, publish.  A failed
  publish loses the event but not the write.
\<close>

definition core_update ::
  "bool \<Rightarrow> bool \<Rightarrow> nanos \<Rightarrow> store \<Rightarrow> cache \<Rightarrow> change \<Rightarrow> unit core_out" where
  "core_update up pub now st c ch =
     (case core_key (ch_namespace ch) (ch_path ch) of
        Inl e \<Rightarrow> \<lparr>out_result = Inl e, out_store = st, out_cache = c, out_events = []\<rparr>
      | Inr k \<Rightarrow>
          (case ch_change_set ch of
             None \<Rightarrow> \<lparr>out_result = Inl BadRequest, out_store = st, out_cache = c, out_events = []\<rparr>
           | Some v \<Rightarrow>
               (case store_put up st k v of
                  Inl e \<Rightarrow> \<lparr>out_result = Inl e, out_store = st, out_cache = c, out_events = []\<rparr>
                | Inr st' \<Rightarrow>
                    \<lparr>out_result = Inr (), out_store = st', out_cache = cache_set k v now c,
                     out_events =
                       (if pub then [\<lparr>ev_key = k, ev_payload = Value v, ev_origin_ts = cs_timestamp v\<rparr>]
                        else [])\<rparr>)))"

section \<open>Delete (spec 4.3)\<close>

text \<open>
  Delete from the store (idempotent), then evict locally and publish a tombstone; with
  the recommended policy of spec 4.3, nothing is evicted or published when the store
  delete fails.  The tombstone carries the deletion time in Unix seconds.
\<close>

definition core_delete ::
  "bool \<Rightarrow> bool \<Rightarrow> nanos \<Rightarrow> store \<Rightarrow> cache \<Rightarrow> change \<Rightarrow> unit core_out" where
  "core_delete up pub now st c ch =
     (case core_key (ch_namespace ch) (ch_path ch) of
        Inl e \<Rightarrow> \<lparr>out_result = Inl e, out_store = st, out_cache = c, out_events = []\<rparr>
      | Inr k \<Rightarrow>
          (case store_delete up st k of
             Inl e \<Rightarrow> \<lparr>out_result = Inl e, out_store = st, out_cache = c, out_events = []\<rparr>
           | Inr st' \<Rightarrow>
               \<lparr>out_result = Inr (), out_store = st', out_cache = cache_delete k c,
                out_events =
                  (if pub then [\<lparr>ev_key = k, ev_payload = Tombstone, ev_origin_ts = now div 1000000000\<rparr>]
                   else [])\<rparr>))"

section \<open>Apply Remote Change Event (spec 4.4)\<close>

text \<open>
  The \<open>Watcher\<close> subscriber: a tombstone evicts unconditionally; a value replaces the
  cached one only when its origin timestamp is strictly newer (last writer wins, ties
  keep the cached value) and fills the cache on a miss.  The store is never touched.
\<close>

definition core_apply :: "nanos \<Rightarrow> cache \<Rightarrow> change_event \<Rightarrow> cache" where
  "core_apply now c ev =
     (case ev_payload ev of
        Tombstone \<Rightarrow> cache_delete (ev_key ev) c
      | Value v \<Rightarrow>
          (case cache_get (ev_key ev) now c of
             None \<Rightarrow> cache_set (ev_key ev) v now c
           | Some cur \<Rightarrow>
               if cs_timestamp cur < ev_origin_ts ev then cache_set (ev_key ev) v now c else c))"

section \<open>Behaviour on every branch\<close>

text \<open>
  The answer the store gives for a key, as Read reports it after a cache miss:
  absent, empty and \<open>null\<close> payloads are all "not found".
\<close>

definition store_answer :: "store \<Rightarrow> ckey \<Rightarrow> core_error + change_set" where
  "store_answer st k =
     (case st k of None \<Rightarrow> Inl NotFound | Some v \<Rightarrow> if empty_payload v then Inl NotFound else Inr v)"

definition read_req :: "change \<Rightarrow> read_request" where
  "read_req ch = \<lparr>rr_namespace = ch_namespace ch, rr_path = ch_path ch\<rparr>"

definition unchanged :: "store \<Rightarrow> cache \<Rightarrow> core_error \<Rightarrow> 'a core_out" where
  "unchanged st c e = \<lparr>out_result = Inl e, out_store = st, out_cache = c, out_events = []\<rparr>"

text \<open>Every value a handler call leaves in the store, in the cache or on the topic.\<close>

definition out_values :: "'a core_out \<Rightarrow> change_set set" where
  "out_values r =
     ran (out_store r) \<union> cache_values (out_cache r) \<union> (\<Union>ev\<in>set (out_events r). payload_values (ev_payload ev))"

lemma key_of_snd [simp]: "snd (key_of ns p) = p"
  by (simp add: key_of_def)

lemma core_key_simps [core_simps]:
  "core_key ns [] = Inl BadRequest"
  "p \<noteq> [] \<Longrightarrow> core_key ns p = Inr (key_of ns p)"
  by (simp_all add: core_key_def)

lemmas store_ops [core_simps] = store_get_def store_put_def store_delete_def

text \<open>Validation happens before any I/O: an empty path changes nothing.\<close>

theorem core_blank_path:
  "ch_path ch = [] \<Longrightarrow> core_update up pub now st c ch = unchanged st c BadRequest"
  "ch_path ch = [] \<Longrightarrow> core_delete up pub now st c ch = unchanged st c BadRequest"
  "rr_path req = [] \<Longrightarrow> core_read up now st c req = unchanged st c BadRequest"
  by (simp_all add: core_update_def core_delete_def core_read_def core_simps unchanged_def)

lemma core_read_hit [core_simps]:
  "rr_path req \<noteq> [] \<Longrightarrow> cache_get (key_of (rr_namespace req) (rr_path req)) now c = Some v \<Longrightarrow>
   core_read up now st c req = \<lparr>out_result = Inr v, out_store = st, out_cache = c, out_events = []\<rparr>"
  by (simp add: core_read_def core_simps)

lemma core_read_miss [core_simps]:
  assumes "rr_path req \<noteq> []" and "cache_get (key_of (rr_namespace req) (rr_path req)) now c = None"
  shows "core_read up now st c req =
    (let k = key_of (rr_namespace req) (rr_path req) in
     if \<not> up then unchanged st c Unavailable
     else \<lparr>out_result = store_answer st k, out_store = st,
           out_cache = (case store_answer st k of Inr v \<Rightarrow> cache_set k v now c | Inl _ \<Rightarrow> c),
           out_events = []\<rparr>)"
  using assms by (auto simp: core_read_def core_simps store_answer_def unchanged_def Let_def
      split: option.splits)

text \<open>The handlers as one conditional each, for case splits.\<close>

lemma core_update_eq:
  "core_update up pub now st c ch =
     (if ch_path ch = [] then unchanged st c BadRequest
      else case ch_change_set ch of
        None \<Rightarrow> unchanged st c BadRequest
      | Some v \<Rightarrow>
          if \<not> up then unchanged st c Unavailable
          else (let k = key_of (ch_namespace ch) (ch_path ch) in
                \<lparr>out_result = Inr (), out_store = st(k \<mapsto> v), out_cache = cache_set k v now c,
                 out_events = (if pub then [\<lparr>ev_key = k, ev_payload = Value v, ev_origin_ts = cs_timestamp v\<rparr>]
                               else [])\<rparr>))"
  by (simp add: core_update_def core_key_def store_put_def unchanged_def Let_def split: option.splits)

lemma core_delete_eq:
  "core_delete up pub now st c ch =
     (if ch_path ch = [] then unchanged st c BadRequest
      else if \<not> up then unchanged st c Unavailable
      else (let k = key_of (ch_namespace ch) (ch_path ch) in
            \<lparr>out_result = Inr (), out_store = st(k := None), out_cache = cache_delete k c,
             out_events = (if pub then [\<lparr>ev_key = k, ev_payload = Tombstone,
                                         ev_origin_ts = now div 1000000000\<rparr>] else [])\<rparr>))"
  by (simp add: core_delete_def core_key_def store_delete_def unchanged_def Let_def)

lemma unchanged_simps [simp]:
  "out_result (unchanged st c e) = Inl e" "out_store (unchanged st c e) = st"
  "out_cache (unchanged st c e) = c" "out_events (unchanged st c e) = []"
  by (simp_all add: unchanged_def)

lemma core_update_ok [core_simps]:
  "ch_path ch \<noteq> [] \<Longrightarrow> ch_change_set ch = Some v \<Longrightarrow>
   core_update True pub now st c ch =
     (let k = key_of (ch_namespace ch) (ch_path ch) in
      \<lparr>out_result = Inr (), out_store = st(k \<mapsto> v), out_cache = cache_set k v now c,
       out_events = (if pub then [\<lparr>ev_key = k, ev_payload = Value v, ev_origin_ts = cs_timestamp v\<rparr>] else [])\<rparr>)"
  by (simp add: core_update_def core_simps Let_def)

lemma core_update_fail [core_simps]:
  "ch_path ch \<noteq> [] \<Longrightarrow> ch_change_set ch = None \<Longrightarrow> core_update up pub now st c ch = unchanged st c BadRequest"
  "ch_path ch \<noteq> [] \<Longrightarrow> ch_change_set ch = Some v \<Longrightarrow> core_update False pub now st c ch = unchanged st c Unavailable"
  by (simp_all add: core_update_def core_simps unchanged_def)

lemma core_delete_ok [core_simps]:
  "ch_path ch \<noteq> [] \<Longrightarrow>
   core_delete True pub now st c ch =
     (let k = key_of (ch_namespace ch) (ch_path ch) in
      \<lparr>out_result = Inr (), out_store = st(k := None), out_cache = cache_delete k c,
       out_events = (if pub then [\<lparr>ev_key = k, ev_payload = Tombstone, ev_origin_ts = now div 1000000000\<rparr>] else [])\<rparr>)"
  by (simp add: core_delete_def core_simps Let_def)

lemma core_delete_fail [core_simps]:
  "ch_path ch \<noteq> [] \<Longrightarrow> core_delete False pub now st c ch = unchanged st c Unavailable"
  by (simp add: core_delete_def core_simps unchanged_def)

section \<open>Invariant: the cache stays well formed\<close>

theorem core_cache_wf:
  assumes "cache_wf c"
  shows "cache_wf (out_cache (core_read up now st c req))"
    and "cache_wf (out_cache (core_update up pub now st c ch))"
    and "cache_wf (out_cache (core_delete up pub now st c ch))"
    and "cache_wf (core_apply now c ev)"
  using assms
  by (auto simp: core_read_def core_update_eq core_delete_eq core_apply_def core_key_def store_get_def
      cache_ops_wf Let_def split: sum.splits option.splits payload.splits if_splits)

section \<open>Properties of the handlers\<close>

text \<open>
  Read-after-write on one instance: once Write has returned success, a Read of the same
  key at the same clock reading returns the written value, whether or not the store
  answers, and without any notification.
\<close>

theorem read_after_write:
  assumes "out_result (core_update up pub now st c ch) = Inr ()"
    and "ch_change_set ch = Some v" and "cache_wf c" and "int64_ok now"
  shows "out_result (core_read up' now (out_store (core_update up pub now st c ch))
            (out_cache (core_update up pub now st c ch)) (read_req ch)) = Inr v"
proof -
  have path: "ch_path ch \<noteq> []" and up: up
    using assms(1,2) by (auto simp: core_update_eq split: if_splits)
  have "cache_get (key_of (ch_namespace ch) (ch_path ch)) now
          (cache_set (key_of (ch_namespace ch) (ch_path ch)) v now c) = Some v"
    using assms(3,4) by (simp add: cache_set_fresh)
  then show ?thesis
    using path up assms(2) by (simp add: core_update_ok core_read_hit read_req_def Let_def)
qed

text \<open>
  Not found on an absent key: a key the store does not hold and the cache does not
  show reads as \<open>NotFound\<close> when the store answers, and as the distinct transient
  error \<open>Unavailable\<close> when it does not.
\<close>

theorem read_absent:
  assumes "rr_path req \<noteq> []" and "st (key_of (rr_namespace req) (rr_path req)) = None"
    and "cache_get (key_of (rr_namespace req) (rr_path req)) now c = None"
  shows "out_result (core_read up now st c req) = (if up then Inl NotFound else Inl Unavailable)"
  using assms by (simp add: core_read_miss store_answer_def unchanged_def Let_def)

text \<open>
  Delete is idempotent: two deletes of the same key both succeed, the second leaves the
  store as the first left it, and a Read on that instance afterwards reports
  \<open>NotFound\<close> at any time.
\<close>

theorem delete_idempotent:
  assumes "ch_path ch \<noteq> []"
  shows "let o1 = core_delete True pub now st c ch;
             o2 = core_delete True pub' now' (out_store o1) (out_cache o1) ch
         in out_result o1 = Inr () \<and> out_result o2 = Inr () \<and> out_store o2 = out_store o1
            \<and> out_result (core_read True t (out_store o2) (out_cache o2) (read_req ch)) = Inl NotFound"
  using assms
  by (simp add: core_delete_ok core_read_miss read_req_def store_answer_def cache_get_delete Let_def)

text \<open>Stale-event rejection: an event no newer than the cached value leaves the cache as it is.\<close>

theorem apply_stale_event:
  assumes "ev_payload ev = Value v" and "cache_get (ev_key ev) now c = Some cur"
    and "ev_origin_ts ev \<le> cs_timestamp cur"
  shows "core_apply now c ev = c"
  using assms by (simp add: core_apply_def)

text \<open>A tombstone evicts its key whatever is cached, and leaves every other key alone.\<close>

theorem apply_tombstone:
  assumes "ev_payload ev = Tombstone"
  shows "cache_get k t (core_apply now c ev) = (if k = ev_key ev then None else cache_get k t c)"
  using assms by (simp add: core_apply_def cache_get_delete)

text \<open>A strictly newer value replaces the cached one, or fills a miss.\<close>

theorem apply_newer_event:
  assumes "ev_payload ev = Value v" and "cache_wf c" and "int64_ok now"
    and "\<forall>cur. cache_get (ev_key ev) now c = Some cur \<longrightarrow> cs_timestamp cur < ev_origin_ts ev"
  shows "cache_get (ev_key ev) now (core_apply now c ev) = Some v"
  using assms by (auto simp: core_apply_def cache_set_fresh split: option.splits)

text \<open>
  Cache expiry forces the store fallback.  After a successful Write at \<open>now\<close> with a
  positive cache duration \<open>d\<close> (and \<open>now + d\<close> within \<open>int64\<close>), a Read up to
  \<open>now + d\<close> is served from the cache whatever the store holds or whether it answers;
  a Read after \<open>now + d\<close> consults the store and reports exactly the store's answer.
\<close>

theorem expiry_forces_store_fallback:
  assumes "ch_path ch \<noteq> []" and "ch_change_set ch = Some v"
    and "0 < gc_default_expiration c" and "0 \<le> now"
    and "now + gc_default_expiration c \<le> int64_max"
  shows "t \<le> now + gc_default_expiration c \<Longrightarrow>
           out_result (core_read up' t st' (out_cache (core_update True pub now st c ch)) (read_req ch)) = Inr v"
    and "now + gc_default_expiration c < t \<Longrightarrow>
           out_result (core_read True t st' (out_cache (core_update True pub now st c ch)) (read_req ch)) =
           store_answer st' (key_of (ch_namespace ch) (ch_path ch))"
  using assms
  by (simp_all add: core_update_ok core_read_hit core_read_miss cache_set_lifetime read_req_def Let_def)

text \<open>
  Write persists before it publishes: every event a Write publishes comes from a
  successful store write, and names the value the store now holds for its key.
\<close>

theorem update_persists_before_publish:
  assumes "ev \<in> set (out_events (core_update up pub now st c ch))"
  shows "out_result (core_update up pub now st c ch) = Inr ()
         \<and> ev_payload ev = Value (the (ch_change_set ch))
         \<and> out_store (core_update up pub now st c ch) (ev_key ev) = ch_change_set ch"
  using assms
  by (auto simp: core_update_eq Let_def split: if_splits option.splits)

text \<open>
  A failed publish never fails the write: the caller's result, the store and the cache
  do not depend on whether the publish succeeded; only the events do.
\<close>

theorem publish_failure_invisible:
  "out_result (core_update up False now st c ch) = out_result (core_update up True now st c ch)
   \<and> out_store (core_update up False now st c ch) = out_store (core_update up True now st c ch)
   \<and> out_cache (core_update up False now st c ch) = out_cache (core_update up True now st c ch)
   \<and> out_events (core_update up False now st c ch) = []"
  by (auto simp: core_update_eq Let_def split: option.splits)

text \<open>
  A store failure on Write or Delete leaves store, cache and channel untouched and
  reports the transient error (spec 4.2 step 2, 4.3 recommended policy).
\<close>

theorem store_failure_no_effect:
  assumes "ch_path ch \<noteq> []"
  shows "core_delete False pub now st c ch = unchanged st c Unavailable"
    and "ch_change_set ch \<noteq> None \<Longrightarrow> core_update False pub now st c ch = unchanged st c Unavailable"
  using assms by (auto simp: core_delete_fail core_update_fail)

section \<open>Applying events: idempotence and commutation\<close>

text \<open>
  Two events commute under \<open>core_apply\<close> when they are the same event, concern
  different keys, are both tombstones, or are both values with different origin
  timestamps.  Values of one key with equal timestamps do not commute (see
  \<open>deliver_tie_order_dependent\<close>), nor do a value and a tombstone of one key.
\<close>

definition is_value_event :: "change_event \<Rightarrow> bool" where
  "is_value_event ev = (case ev_payload ev of Value _ \<Rightarrow> True | Tombstone \<Rightarrow> False)"

definition apply_compatible :: "change_event \<Rightarrow> change_event \<Rightarrow> bool" where
  "apply_compatible e1 e2 =
     (e1 = e2 \<or> ev_key e1 \<noteq> ev_key e2
      \<or> (ev_payload e1 = Tombstone \<and> ev_payload e2 = Tombstone)
      \<or> (is_value_event e1 \<and> is_value_event e2 \<and> ev_origin_ts e1 \<noteq> ev_origin_ts e2))"

theorem core_apply_idem: "core_apply now (core_apply now c ev) ev = core_apply now c ev"
  by (auto simp: core_apply_def cache_get_delete cache_delete_twice cache_set_twice
      split: payload.splits option.splits if_splits)

lemma core_apply_get_other:
  "k \<noteq> ev_key ev \<Longrightarrow> cache_get k t (core_apply now c ev) = cache_get k t c"
  by (auto simp: core_apply_def cache_get_delete cache_get_set_other split: payload.splits option.splits)

lemma core_apply_commute_keys:
  assumes "ev_key e1 \<noteq> ev_key e2"
  shows "core_apply now (core_apply now c e1) e2 = core_apply now (core_apply now c e2) e1"
  using assms
  by (auto simp: core_apply_def cache_get_delete cache_get_set_other cache_ops_commute
      split: payload.splits option.splits)

lemma core_apply_commute_values:
  assumes "ev_key e1 = ev_key e2" and "ev_payload e1 = Value v1" and "ev_payload e2 = Value v2"
    and "event_wf e1" and "event_wf e2" and "ev_origin_ts e1 < ev_origin_ts e2"
    and "cache_wf c" and "int64_ok now"
  shows "core_apply now (core_apply now c e1) e2 = core_apply now (core_apply now c e2) e1"
proof -
  have fresh: "\<And>v. cache_get (ev_key e2) now (cache_set (ev_key e2) v now c) = Some v"
    using assms(7,8) by (simp add: cache_set_fresh)
  show ?thesis
    using assms fresh
    by (auto simp: core_apply_def event_wf_def cache_set_twice split: option.splits)
qed

theorem core_apply_commute:
  assumes "apply_compatible e1 e2" and "event_wf e1" and "event_wf e2"
    and "cache_wf c" and "int64_ok now"
  shows "core_apply now (core_apply now c e1) e2 = core_apply now (core_apply now c e2) e1"
proof -
  consider "e1 = e2" | "ev_key e1 \<noteq> ev_key e2"
    | "ev_key e1 = ev_key e2" "ev_payload e1 = Tombstone" "ev_payload e2 = Tombstone"
    | v1 v2 where "ev_key e1 = ev_key e2" "ev_payload e1 = Value v1" "ev_payload e2 = Value v2"
        "ev_origin_ts e1 \<noteq> ev_origin_ts e2"
    using assms(1) by (auto simp: apply_compatible_def is_value_event_def split: payload.splits)
  then show ?thesis
  proof cases
    case 1
    then show ?thesis by simp
  next
    case 2
    then show ?thesis by (rule core_apply_commute_keys)
  next
    case 3
    then show ?thesis by (simp add: core_apply_def cache_delete_twice)
  next
    case (4 v1 v2)
    show ?thesis
    proof (cases "ev_origin_ts e1 < ev_origin_ts e2")
      case True
      show ?thesis
        by (rule core_apply_commute_values [OF 4(1-3) assms(2,3) True assms(4,5)])
    next
      case False
      with 4(4) have "ev_origin_ts e2 < ev_origin_ts e1" by simp
      from core_apply_commute_values [OF 4(1) [symmetric] 4(3,2) assms(3,2) this assms(4,5)]
      show ?thesis by simp
    qed
  qed
qed

text \<open>
  Hence any two delivery sequences of the same pairwise compatible, well-formed events,
  in any order and with any repetitions, leave the same cache (spec 4.4, Idempotence).
\<close>

definition events_compatible :: "change_event set \<Rightarrow> bool" where
  "events_compatible A = ((\<forall>e \<in> A. event_wf e) \<and> (\<forall>e1 \<in> A. \<forall>e2 \<in> A. apply_compatible e1 e2))"

lemma core_apply_steps_commute:
  assumes "events_compatible A" and "int64_ok now"
  shows "steps_commute cache_wf (core_apply now) A"
  using assms
  by (auto simp: steps_commute_def events_compatible_def core_cache_wf(4) core_apply_idem
      intro: core_apply_commute)

theorem apply_order_independent:
  assumes "events_compatible (set es)" and "set es = set es'" and "cache_wf c" and "int64_ok now"
  shows "foldl (core_apply now) c es = foldl (core_apply now) c es'"
  by (rule foldl_set_determined [OF core_apply_steps_commute [OF assms(1,4)] assms(3) _ assms(2)]) simp

section \<open>Where values come from\<close>

text \<open>
  No handler invents a value: what a call leaves in the store, the cache and on the
  topic was already in the store or the cache, or is the change set of the request.
\<close>

lemma core_values:
  "out_values (core_read up now st c req) \<subseteq> ran st \<union> cache_values c"
  "out_values (core_update up pub now st c ch) \<subseteq> ran st \<union> cache_values c \<union> set_option (ch_change_set ch)"
  "out_values (core_delete up pub now st c ch) \<subseteq> ran st \<union> cache_values c"
  "cache_values (core_apply now c ev) \<subseteq> cache_values c \<union> payload_values (ev_payload ev)"
  by (auto simp: out_values_def core_read_def core_update_def core_delete_def core_apply_def core_key_def
      store_ops payload_values_def intro: ranI dest: ran_updD ran_restrictD
      split: sum.splits option.splits if_splits payload.splits)+

lemma core_read_result_values:
  "out_result (core_read up now st c req) = Inr v \<Longrightarrow> v \<in> ran st \<union> cache_values c"
  by (auto simp: core_read_def core_key_def store_ops ran_def dest: cache_get_values
      split: sum.splits option.splits if_splits)

lemma core_events_wf:
  "ev \<in> set (out_events (core_update up pub now st c ch)) \<Longrightarrow> event_wf ev \<and> snd (ev_key ev) \<noteq> []"
  "ev \<in> set (out_events (core_delete up pub now st c ch)) \<Longrightarrow> event_wf ev \<and> snd (ev_key ev) \<noteq> []"
  "out_events (core_read up now st c req) = []"
  by (auto simp: core_update_def core_delete_def core_read_def core_key_def store_ops event_wf_def key_of_def
      split: sum.splits option.splits if_splits)

lemma core_bounded:
  assumes "cache_bounded d now c" and "0 < d" and "0 \<le> now"
  shows "cache_bounded d now (out_cache (core_read up now st c req))"
    and "cache_bounded d now (out_cache (core_update up pub now st c ch))"
    and "cache_bounded d now (out_cache (core_delete up pub now st c ch))"
    and "cache_bounded d now (core_apply now c ev)"
  using assms cache_bounded_set [OF assms]
  by (auto simp: core_read_def core_update_eq core_delete_eq core_apply_def core_key_def store_get_def
      unchanged_def Let_def split: sum.splits option.splits payload.splits)

text \<open>A read's result depends on the cache only through what \<open>Get\<close> answers at the read's time.\<close>

lemma core_read_result_cache:
  assumes "\<And>k. cache_get k now c' = cache_get k now c"
  shows "out_result (core_read up now st c' req) = out_result (core_read up now st c req)"
  using assms by (simp add: core_read_def split: sum.split option.split)

end
