(* ===== verification/Cli.thy ===== *)
theory Cli
  imports Proto
begin

text \<open>
  The command-line client and wiring layer, \<open>service/rtss_config/config.go\<close>: the
  package variables (lines 25-39), the \<open>set\<close>, \<open>get\<close> and \<open>del\<close> subcommands
  (\<open>setConfig\<close>, \<open>getConfig\<close>, \<open>delConfig\<close>, lines 77-202), the command tree and its
  flags (\<open>Commands\<close>, lines 204-294) with urfave's dispatch to a subcommand, and the
  start-up of the service (\<open>Run\<close>, lines 41-75, in \<open>Service\<close>).  The client talks to the service through an RPC interface
  \<open>'s config_service\<close> over the service's state \<open>'s\<close>; its lemmas hold for every
  implementation of it, and the root theory instantiates it with the Config Core.
\<close>

section \<open>Package variables\<close>

text \<open>
  The \<open>var\<close> block of lines 25-39, with Go's zero values for the variables that have
  no initialiser; durations in nanoseconds.
\<close>

record globals =
  g_name :: string
  g_database :: string
  g_namespace :: namespace
  g_mgo_url :: string
  g_mgo_database_name :: string
  g_mgo_table_name :: string
  g_cache_duration :: nanos
  g_cache_cleanup_interval :: nanos

definition initial_globals :: globals where
  "initial_globals =
     \<lparr>g_name = ''go.micro.rtss_config'', g_database = ''store'', g_namespace = ''global'',
      g_mgo_url = '''', g_mgo_database_name = '''', g_mgo_table_name = '''',
      g_cache_duration = 0, g_cache_cleanup_interval = 0\<rparr>"

section \<open>The RPC interface and the process outcome\<close>

text \<open>
  \<open>proto.ConfigService\<close>: each call takes the request and the service state and returns
  the error text (\<open>err.Error()\<close>) or the response, and the new state.
\<close>

record 's config_service =
  svc_update :: "change \<Rightarrow> 's \<Rightarrow> (string + unit) \<times> 's"
  svc_read :: "read_request \<Rightarrow> 's \<Rightarrow> (string + read_response) \<times> 's"
  svc_delete :: "change \<Rightarrow> 's \<Rightarrow> (string + unit) \<times> 's"

text \<open>
  \<open>proto.NewConfigService(name, client.New(ctx))\<close>: the client resolves \<open>name\<close> in the
  registry \<open>reg\<close>; when no service of that name is registered, go-micro's client fails
  every call with the selector's error \<open>service <name>: not found\<close>.
\<close>

definition service_not_found_text :: "string \<Rightarrow> string" where
  "service_not_found_text name =
     ''{\"id\":\"go.micro.client\",\"code\":500,\"detail\":\"service '' @ name @ '': not found'' @
     ''\",\"status\":\"Internal Server Error\"}''"

definition unreachable_service :: "string \<Rightarrow> 's config_service" where
  "unreachable_service name =
     \<lparr>svc_update = (\<lambda>_ s. (Inl (service_not_found_text name), s)),
      svc_read = (\<lambda>_ s. (Inl (service_not_found_text name), s)),
      svc_delete = (\<lambda>_ s. (Inl (service_not_found_text name), s))\<rparr>"

definition new_config_service :: "string \<Rightarrow> (string \<Rightarrow> 's config_service option) \<Rightarrow> 's config_service" where
  "new_config_service name reg = (case reg name of Some svc \<Rightarrow> svc | None \<Rightarrow> unreachable_service name)"

text \<open>
  What the process does: the lines it prints on standard output (\<open>fmt.Println\<close>), the
  lines it logs (\<open>log.Fatal\<close>), and whether the action returns or the process exits
  (\<open>os.Exit\<close>, and \<open>log.Fatal\<close>, which exits with status 1).
\<close>

datatype exit_status = Returned | Exited nat

record cli_out =
  out_stdout :: "string list"
  out_log :: "string list"
  out_status :: exit_status

definition println_exit :: "string \<Rightarrow> cli_out" where
  "println_exit msg = \<lparr>out_stdout = [msg], out_log = [], out_status = Exited 1\<rparr>"

definition log_fatal :: "string \<Rightarrow> cli_out" where
  "log_fatal msg = \<lparr>out_stdout = [], out_log = [msg], out_status = Exited 1\<rparr>"

text \<open>
  The \<open>*cli.Context\<close> of an action: its positional arguments and its string flags
  (\<open>c.String(name)\<close> is \<open>''''\<close> for a flag that is not set).  \<open>Args().Get(n)\<close> is
  \<open>''''\<close> past the end of the arguments.
\<close>

record cli_context =
  ctx_args :: "string list"
  ctx_string :: "string \<Rightarrow> string"

definition args_get :: "string list \<Rightarrow> nat \<Rightarrow> string" where
  "args_get args n = (if n < length args then args ! n else '''')"

section \<open>The subcommands\<close>

definition rpc_service_name :: string where
  "rpc_service_name = ''go.micro.rtss_config''"

text \<open>\<open>setConfig\<close> (lines 77-114); \<open>now\<close> is \<open>time.Now().Unix()\<close>.\<close>

definition set_config ::
  "(string \<Rightarrow> 's config_service option) \<Rightarrow> globals \<Rightarrow> int \<Rightarrow> cli_context \<Rightarrow> 's \<Rightarrow> cli_out \<times> 's" where
  "set_config reg g now ctx s =
     (let pb = new_config_service rpc_service_name reg; args = ctx_args ctx in
      if length args = 0 then (println_exit ''Required usage: micro config set key val'', s)
      else
        (let key = args_get args 0; val = args_get args 1;
             (r, s') = svc_update pb
               \<lparr>ch_namespace = g_namespace g, ch_path = key,
                ch_change_set = Some \<lparr>cs_data = val, cs_format = ''json'', cs_source = ''cli'',
                                      cs_timestamp = now\<rparr>\<rparr> s
         in case r of
              Inl err \<Rightarrow> (println_exit err, s')
            | Inr _ \<Rightarrow> (\<lparr>out_stdout = [], out_log = [], out_status = Returned\<rparr>, s')))"

text \<open>
  \<open>getConfig\<close> (lines 116-166).  An error whose lower-cased text contains
  \<open>not found\<close> prints \<open>not found\<close> (line 144); a response without a change, without a
  change set, or with an empty or \<open>null\<close> payload prints \<open>not found\<close> too.
\<close>

definition not_found_error :: "string \<Rightarrow> bool" where
  "not_found_error err = go_contains (go_to_lower err) ''not found''"

definition blank_payload :: "string \<Rightarrow> bool" where
  "blank_payload v = (length v = 0 \<or> v = ''null'')"

definition get_config ::
  "(string \<Rightarrow> 's config_service option) \<Rightarrow> globals \<Rightarrow> cli_context \<Rightarrow> 's \<Rightarrow> cli_out \<times> 's" where
  "get_config reg g ctx s =
     (let pb = new_config_service rpc_service_name reg; args = ctx_args ctx in
      if length args = 0 then (println_exit ''Required usage: micro config get key'', s)
      else
        (let key = args_get args 0 in
         if length key = 0 then (log_fatal ''key cannot be blank'', s)
         else
           (let (r, s') = svc_read pb \<lparr>rr_namespace = g_namespace g, rr_path = key\<rparr> s in
            case r of
              Inl err \<Rightarrow>
                if not_found_error err then (println_exit ''not found'', s') else (println_exit err, s')
            | Inr rsp \<Rightarrow>
                (case rsp_change rsp of
                   None \<Rightarrow> (println_exit ''not found'', s')
                 | Some ch \<Rightarrow>
                     (case ch_change_set ch of
                        None \<Rightarrow> (println_exit ''not found'', s')
                      | Some cs \<Rightarrow>
                          if blank_payload (cs_data cs) then (println_exit ''not found'', s')
                          else (\<lparr>out_stdout = [cs_data cs], out_log = [], out_status = Returned\<rparr>, s'))))))"

text \<open>\<open>delConfig\<close> (lines 168-202), with the usage text the source prints.\<close>

definition del_config ::
  "(string \<Rightarrow> 's config_service option) \<Rightarrow> globals \<Rightarrow> cli_context \<Rightarrow> 's \<Rightarrow> cli_out \<times> 's" where
  "del_config reg g ctx s =
     (let pb = new_config_service rpc_service_name reg; args = ctx_args ctx in
      if length args = 0 then (println_exit ''Required usage: micro config get key'', s)
      else
        (let key = args_get args 0 in
         if length key = 0 then (log_fatal ''key cannot be blank'', s)
         else
           (let (r, s') = svc_delete pb
                  \<lparr>ch_namespace = g_namespace g, ch_path = key, ch_change_set = None\<rparr> s
            in case r of
                 Inl err \<Rightarrow> (println_exit err, s')
               | Inr _ \<Rightarrow> (\<lparr>out_stdout = [], out_log = [], out_status = Returned\<rparr>, s'))))"

section \<open>Flags\<close>

text \<open>
  The flags of \<open>Commands\<close> (lines 232-280): a string or duration flag with its
  environment variables, usage, default \<open>Value\<close>, whether it is \<open>Required\<close>, and the
  package variable its \<open>Destination\<close> points to, if any: any variable of the
  \<open>var\<close> block (lines 25-39) can be one.  Flag values arrive parsed: a string or a
  duration in nanoseconds.
\<close>

datatype dest_var =
    DestName | DestDatabase | DestNamespace
  | DestMgoUrl | DestMgoDatabase | DestMgoTable
  | DestCacheDuration | DestCacheCleanupInterval

datatype flag_val = SVal string | DVal nanos

datatype flag_kind = StringFlag | DurationFlag

record cli_flag =
  flag_kind :: flag_kind
  flag_name :: string
  flag_env :: "string list"
  flag_usage :: string
  flag_value :: "flag_val option"
  flag_required :: bool
  flag_dest :: "dest_var option"

definition minute :: nanos where
  "minute = 60 * 1000000000"

definition config_flags :: "cli_flag list" where
  "config_flags =
     [\<lparr>flag_kind = StringFlag, flag_name = ''namespace'', flag_env = [''MICRO_CONFIG_NAMESPACE''],
       flag_usage = ''Set the namespace used by the Config Service e.g. go.micro.rtss_config'',
       flag_value = None, flag_required = False, flag_dest = None\<rparr>,
      \<lparr>flag_kind = StringFlag, flag_name = ''watch_topic'', flag_env = [''MICRO_CONFIG_WATCH_TOPIC''],
       flag_usage = ''watch the change event.'',
       flag_value = None, flag_required = False, flag_dest = None\<rparr>,
      \<lparr>flag_kind = DurationFlag, flag_name = ''cache_duration'', flag_env = [''MICRO_CONFIG_CACHE_DURATION''],
       flag_usage = ''set cache duration.'',
       flag_value = Some (DVal (5 * minute)), flag_required = False, flag_dest = Some DestCacheDuration\<rparr>,
      \<lparr>flag_kind = DurationFlag, flag_name = ''cache_cleanup_interval'',
       flag_env = [''MICRO_CONFIG_CACHE_CLEANUP_INTERVAL''], flag_usage = ''set cache cleanup interval.'',
       flag_value = Some (DVal (2 * minute)), flag_required = False,
       flag_dest = Some DestCacheCleanupInterval\<rparr>,
      \<lparr>flag_kind = StringFlag, flag_name = ''mgo_url'', flag_env = [''MICRO_CONFIG_MGO_URL''],
       flag_usage = ''set mongodb url.'',
       flag_value = None, flag_required = True, flag_dest = Some DestMgoUrl\<rparr>,
      \<lparr>flag_kind = StringFlag, flag_name = ''mgo_database'', flag_env = [''MICRO_CONFIG_MGO_DATABASE''],
       flag_usage = ''set mongodb database name.'',
       flag_value = Some (SVal ''rtss_config''), flag_required = False, flag_dest = Some DestMgoDatabase\<rparr>,
      \<lparr>flag_kind = StringFlag, flag_name = ''mgo_table'', flag_env = [''MICRO_CONFIG_MGO_TABLE''],
       flag_usage = ''set mongodb table name.'',
       flag_value = Some (SVal ''micro_store''), flag_required = False, flag_dest = Some DestMgoTable\<rparr>]"

text \<open>
  Binding the flags (the urfave/cli semantics of \<open>Destination\<close>, \<open>Value\<close>,
  \<open>EnvVars\<close> and \<open>Required\<close>): a flag's value is the one given on the command line,
  else the first of its environment variables that is set, else its \<open>Value\<close>, else the
  zero value of its kind; a flag with a \<open>Destination\<close> writes that value into its
  variable; a required flag given neither way is an error.
\<close>

definition zero_val :: "flag_kind \<Rightarrow> flag_val" where
  "zero_val k = (case k of StringFlag \<Rightarrow> SVal '''' | DurationFlag \<Rightarrow> DVal 0)"

fun first_env :: "(string \<Rightarrow> flag_val option) \<Rightarrow> string list \<Rightarrow> flag_val option" where
  "first_env env [] = None"
| "first_env env (e # es) = (case env e of Some v \<Rightarrow> Some v | None \<Rightarrow> first_env env es)"

definition given_val :: "(string \<Rightarrow> flag_val option) \<Rightarrow> (string \<Rightarrow> flag_val option) \<Rightarrow> cli_flag \<Rightarrow> flag_val option" where
  "given_val cmd env f =
     (case cmd (flag_name f) of Some v \<Rightarrow> Some v | None \<Rightarrow> first_env env (flag_env f))"

definition flag_effective :: "(string \<Rightarrow> flag_val option) \<Rightarrow> (string \<Rightarrow> flag_val option) \<Rightarrow> cli_flag \<Rightarrow> flag_val" where
  "flag_effective cmd env f =
     (case given_val cmd env f of
        Some v \<Rightarrow> v
      | None \<Rightarrow> (case flag_value f of Some v \<Rightarrow> v | None \<Rightarrow> zero_val (flag_kind f)))"

fun set_dest :: "dest_var \<Rightarrow> flag_val \<Rightarrow> globals \<Rightarrow> globals" where
  "set_dest DestName (SVal x) g = g\<lparr>g_name := x\<rparr>"
| "set_dest DestDatabase (SVal x) g = g\<lparr>g_database := x\<rparr>"
| "set_dest DestNamespace (SVal x) g = g\<lparr>g_namespace := x\<rparr>"
| "set_dest DestCacheDuration (DVal d) g = g\<lparr>g_cache_duration := d\<rparr>"
| "set_dest DestCacheCleanupInterval (DVal d) g = g\<lparr>g_cache_cleanup_interval := d\<rparr>"
| "set_dest DestMgoUrl (SVal x) g = g\<lparr>g_mgo_url := x\<rparr>"
| "set_dest DestMgoDatabase (SVal x) g = g\<lparr>g_mgo_database_name := x\<rparr>"
| "set_dest DestMgoTable (SVal x) g = g\<lparr>g_mgo_table_name := x\<rparr>"
| "set_dest _ _ g = g"

definition required_missing :: "(string \<Rightarrow> flag_val option) \<Rightarrow> (string \<Rightarrow> flag_val option) \<Rightarrow> cli_flag list \<Rightarrow> string list" where
  "required_missing cmd env fs =
     map flag_name (filter (\<lambda>f. flag_required f \<and> given_val cmd env f = None) fs)"

definition required_error :: "string list \<Rightarrow> string" where
  "required_error ns =
     (case ns of
        [n] \<Rightarrow> ''Required flag \"'' @ n @ ''\" not set''
      | _ \<Rightarrow> ''Required flags \"'' @ concat (map (\<lambda>n. n @ '', '') (butlast ns)) @ last ns @ ''\" not set'')"

fun bind_flags :: "(string \<Rightarrow> flag_val option) \<Rightarrow> (string \<Rightarrow> flag_val option) \<Rightarrow> cli_flag list \<Rightarrow> globals \<Rightarrow> globals" where
  "bind_flags cmd env [] g = g"
| "bind_flags cmd env (f # fs) g =
     bind_flags cmd env fs
       (case flag_dest f of None \<Rightarrow> g | Some d \<Rightarrow> set_dest d (flag_effective cmd env f) g)"

definition parse_flags ::
  "(string \<Rightarrow> flag_val option) \<Rightarrow> (string \<Rightarrow> flag_val option) \<Rightarrow> cli_flag list \<Rightarrow> globals \<Rightarrow> string + globals" where
  "parse_flags cmd env fs g =
     (let missing = required_missing cmd env fs in
      if missing = [] then Inr (bind_flags cmd env fs g) else Inl (required_error missing))"

section \<open>The command tree\<close>

text \<open>
  \<open>Commands\<close> (lines 204-294): the \<open>rtss_config\<close> command with its three subcommands
  and flags, then every plugin's commands and flags appended in plugin order.
\<close>

datatype action = ActSet | ActGet | ActDel | ActPlugin string

record sub_command =
  sc_name :: string
  sc_usage :: string
  sc_action :: action

record plugin =
  p_commands :: "sub_command list"
  p_flags :: "cli_flag list"

record command =
  cmd_name :: string
  cmd_usage :: string
  cmd_subcommands :: "sub_command list"
  cmd_flags :: "cli_flag list"

definition config_subcommands :: "sub_command list" where
  "config_subcommands =
     [\<lparr>sc_name = ''set'', sc_usage = ''Set a key-val; micro config set key val'', sc_action = ActSet\<rparr>,
      \<lparr>sc_name = ''get'', sc_usage = ''Get a value; micro config get key'', sc_action = ActGet\<rparr>,
      \<lparr>sc_name = ''del'', sc_usage = ''Delete a value; micro config del key'', sc_action = ActDel\<rparr>]"

definition base_command :: command where
  "base_command =
     \<lparr>cmd_name = ''rtss_config'', cmd_usage = ''Manage configuration values'',
      cmd_subcommands = config_subcommands, cmd_flags = config_flags\<rparr>"

fun add_plugins :: "command \<Rightarrow> plugin list \<Rightarrow> command" where
  "add_plugins c [] = c"
| "add_plugins c (p # ps) =
     add_plugins
       (c\<lparr>cmd_subcommands := (if 0 < length (p_commands p) then cmd_subcommands c @ p_commands p
                               else cmd_subcommands c),
          cmd_flags := (if 0 < length (p_flags p) then cmd_flags c @ p_flags p else cmd_flags c)\<rparr>)
       ps"

definition commands :: "plugin list \<Rightarrow> command list" where
  "commands plugins = [add_plugins base_command plugins]"

text \<open>urfave/cli dispatches to the first subcommand with the given name.\<close>

definition find_subcommand :: "command \<Rightarrow> string \<Rightarrow> action option" where
  "find_subcommand c n = map_option sc_action (find (\<lambda>sc. sc_name sc = n) (cmd_subcommands c))"

text \<open>
  Running the command with a subcommand (urfave/cli's \<open>App.RunAsSubcommand\<close>): the
  command's flags are parsed and its \<open>Required\<close> flags checked first; a missing one is
  the error returned, before any subcommand runs.  Otherwise the subcommand named on
  the command line runs with the package variables the flags bound.  A plugin's action,
  and the base \<open>Action\<close> that an unknown name falls back to, are not modelled (\<open>None\<close>).
\<close>

definition run_subcommand ::
  "(string \<Rightarrow> 's config_service option) \<Rightarrow> command \<Rightarrow> (string \<Rightarrow> flag_val option) \<Rightarrow>
   (string \<Rightarrow> flag_val option) \<Rightarrow> globals \<Rightarrow> int \<Rightarrow> string \<Rightarrow> cli_context \<Rightarrow> 's \<Rightarrow>
   (string + cli_out \<times> 's) option" where
  "run_subcommand reg c cmd env g now name ctx s =
     (case parse_flags cmd env (cmd_flags c) g of
        Inl err \<Rightarrow> Some (Inl err)
      | Inr g' \<Rightarrow>
          (case find_subcommand c name of
             Some ActSet \<Rightarrow> Some (Inr (set_config reg g' now ctx s))
           | Some ActGet \<Rightarrow> Some (Inr (get_config reg g' ctx s))
           | Some ActDel \<Rightarrow> Some (Inr (del_config reg g' ctx s))
           | _ \<Rightarrow> None))"

section \<open>Error texts\<close>

text \<open>
  Which error texts \<open>getConfig\<close> reports as \<open>not found\<close>: any text with
  \<open>: not found\<close> inside, hence the client's own service-not-found error, and of the
  handler's errors exactly \<open>NotFound\<close>.
\<close>

lemma core_error_texts:
  "not_found_error (core_error_text NotFound)"
  "\<not> not_found_error (core_error_text BadRequest)"
  "\<not> not_found_error (core_error_text Unavailable)"
  by code_simp+

lemma core_error_not_found [simp]: "not_found_error (core_error_text e) \<longleftrightarrow> e = NotFound"
  by (cases e) (simp_all only: core_error_texts core_error.distinct simp_thms)

lemma not_found_error_middle: "not_found_error (a @ '': not found'' @ b)"
proof -
  have h: "go_to_lower '': not found'' = '': '' @ ''not found''" by code_simp
  have "go_to_lower (a @ '': not found'' @ b) = (go_to_lower a @ '': '') @ ''not found'' @ go_to_lower b"
    by (simp only: go_to_lower_append h append_assoc)
  then show ?thesis
    by (simp only: not_found_error_def go_contains_sublist sublist_appendI)
qed

lemma not_found_error_after: "not_found_error (a @ name @ '': not found'' @ b)"
  by (metis append_assoc not_found_error_middle)

lemma service_not_found_conflated: "not_found_error (service_not_found_text name)"
  unfolding service_not_found_text_def by (rule not_found_error_after)

section \<open>Properties of the flags and the command tree\<close>

lemma bind_flags_append:
  "bind_flags cmd env (fs @ fs') g = bind_flags cmd env fs' (bind_flags cmd env fs g)"
  by (induction fs arbitrary: g) auto

lemma set_dest_namespace [simp]: "d \<noteq> DestNamespace \<Longrightarrow> g_namespace (set_dest d v g) = g_namespace g"
  by (cases d; cases v) simp_all

lemma set_dest_name [simp]: "d \<noteq> DestName \<Longrightarrow> g_name (set_dest d v g) = g_name g"
  by (cases d; cases v) simp_all

lemma set_dest_cache_duration [simp]:
  "g_cache_duration (set_dest d v g) =
     (case (d, v) of (DestCacheDuration, DVal x) \<Rightarrow> x | _ \<Rightarrow> g_cache_duration g)"
  by (cases d; cases v) simp_all

text \<open>Flags without a \<open>Destination\<close> on \<open>Namespace\<close> never change it.\<close>

lemma bind_flags_namespace:
  "\<forall>f\<in>set fs. flag_dest f \<noteq> Some DestNamespace \<Longrightarrow> g_namespace (bind_flags cmd env fs g) = g_namespace g"
  by (induction fs arbitrary: g) (auto split: option.splits)

text \<open>
  C11.  The \<open>namespace\<close> flag has no \<open>Destination\<close> (lines 233-237), and no other
  flag points at \<open>Namespace\<close>: whatever \<open>--namespace\<close> or
  \<open>MICRO_CONFIG_NAMESPACE\<close> say, binding the flags of \<open>Commands\<close> leaves the package
  variable \<open>Namespace\<close> as it was, so the client always uses \<open>global\<close>.
\<close>

theorem namespace_flag_inert:
  "g_namespace (bind_flags cmd env config_flags g) = g_namespace g"
  by (rule bind_flags_namespace) (simp add: config_flags_def)

text \<open>
  C12.  Flag defaults: with only \<open>--mgo_url u\<close> given and no environment, parsing the
  flags of \<open>Commands\<close> succeeds and sets \<open>CacheDuration\<close> to five minutes,
  \<open>CacheCleanupInterval\<close> to two, the database to \<open>rtss_config\<close>, the table to
  \<open>micro_store\<close> and \<open>MgoUrl\<close> to \<open>u\<close>; without \<open>mgo_url\<close> it fails with urfave's
  required-flag error.
\<close>

theorem flag_defaults:
  "parse_flags (Map.empty(''mgo_url'' \<mapsto> SVal u)) Map.empty config_flags g =
     Inr (g\<lparr>g_mgo_url := u, g_mgo_database_name := ''rtss_config'', g_mgo_table_name := ''micro_store'',
            g_cache_duration := 5 * minute, g_cache_cleanup_interval := 2 * minute\<rparr>)
   \<and> parse_flags Map.empty Map.empty config_flags g = Inl ''Required flag \"mgo_url\" not set''"
  by (simp add: parse_flags_def required_missing_def required_error_def config_flags_def given_val_def
      flag_effective_def zero_val_def)

lemma add_plugins_closed:
  "add_plugins c ps =
     c\<lparr>cmd_subcommands := cmd_subcommands c @ concat (map p_commands ps),
       cmd_flags := cmd_flags c @ concat (map p_flags ps)\<rparr>"
  by (induction ps arbitrary: c) auto

text \<open>
  C13.  The plugin loop of \<open>Commands\<close> is the concatenation: the command's
  subcommands are \<open>set\<close>, \<open>get\<close>, \<open>del\<close> followed by every plugin's commands in
  plugin order, its flags the seven flags followed by every plugin's flags; and however
  the plugins name their commands, \<open>set\<close>, \<open>get\<close> and \<open>del\<close> dispatch to the
  built-in actions.
\<close>

theorem commands_plugins:
  "commands ps =
     [base_command\<lparr>cmd_subcommands := config_subcommands @ concat (map p_commands ps),
                   cmd_flags := config_flags @ concat (map p_flags ps)\<rparr>]
   \<and> find_subcommand (hd (commands ps)) ''set'' = Some ActSet
   \<and> find_subcommand (hd (commands ps)) ''get'' = Some ActGet
   \<and> find_subcommand (hd (commands ps)) ''del'' = Some ActDel"
  by (simp add: commands_def add_plugins_closed base_command_def find_subcommand_def config_subcommands_def)


text \<open>
  C29.  The client subcommands need the store's address: \<open>mgo_url\<close> is a
  \<open>Required\<close> flag of the command (line 263), and urfave checks it before dispatching,
  so without \<open>--mgo_url\<close> and \<open>MICRO_CONFIG_MGO_URL\<close> every \<open>set\<close>, \<open>get\<close>
  and \<open>del\<close> fails with the required-flag error and makes no call, although none of them
  uses the address (when the plugins add no required flags).
\<close>

theorem subcommands_require_mgo_url:
  assumes "cmd ''mgo_url'' = None" and "env ''MICRO_CONFIG_MGO_URL'' = None"
    and "\<forall>f\<in>set (concat (map p_flags ps)). \<not> flag_required f"
  shows "run_subcommand reg (hd (commands ps)) cmd env g now name ctx s =
           Some (Inl ''Required flag \"mgo_url\" not set'')"
proof -
  have "filter (\<lambda>f. flag_required f \<and> given_val cmd env f = None) (concat (map p_flags ps)) = []"
    using assms(3) by (simp add: filter_empty_conv)
  then show ?thesis
    using assms(1,2)
    by (simp add: run_subcommand_def commands_def add_plugins_closed base_command_def parse_flags_def
        required_missing_def config_flags_def given_val_def required_error_def)
qed

theorem subcommands_require_mgo_url_witness:
  "run_subcommand (\<lambda>_. None) (hd (commands [])) Map.empty Map.empty initial_globals 0 ''set''
     \<lparr>ctx_args = [''k'', ''v''], ctx_string = (\<lambda>_. '''')\<rparr> ()
   = Some (Inl ''Required flag \"mgo_url\" not set'')"
  by (rule subcommands_require_mgo_url) simp_all

end
