(* ===== verification/Service.thy ===== *)
theory Service
  imports Config_Core Cli
begin

text \<open>
  The running service: what \<open>Run\<close> (\<open>config.go\<close>, lines 41-75) sets up, and one
  instance of it as a state \<open>node\<close> on which the Config Core answers the client's RPCs
  and the \<open>Watcher\<close> applies the events of the watch topic.  This is where the two
  components meet: \<open>core_service\<close> implements the interface \<open>config_service\<close>
  that the client of \<open>Cli\<close> is written against.
\<close>

section \<open>Run\<close>

text \<open>
  \<open>Run\<close> overrides the service name and the watch topic with the non-empty
  \<open>server_name\<close> and \<open>watch_topic\<close> flags, builds the handler with a fresh cache
  \<open>cache.New(CacheDuration, CacheCleanupInterval)\<close> and a mongo store at
  \<open>MgoUrl\<close>/\<open>MgoDatabaseName\<close>/\<open>MgoTableName\<close>, registers it and the
  \<open>Watcher\<close> subscriber, and logs the three store settings.  \<open>watch_topic\<close> is the
  current value of \<open>handler.WatchTopic\<close>.  The blocking \<open>service.Run()\<close> is the
  node's life below.
\<close>

record service_setup =
  ss_name :: string
  ss_topic :: string
  ss_cache :: cache
  ss_mgo_uri :: string
  ss_mgo_database :: string
  ss_mgo_table :: string
  ss_log :: "string list"

definition run_setup :: "globals \<Rightarrow> string \<Rightarrow> cli_context \<Rightarrow> service_setup" where
  "run_setup g watch_topic c =
     (let name = (if 0 < length (ctx_string c ''server_name'') then ctx_string c ''server_name'' else g_name g);
          topic = (if 0 < length (ctx_string c ''watch_topic'') then ctx_string c ''watch_topic'' else watch_topic)
      in \<lparr>ss_name = name, ss_topic = topic,
          ss_cache = cache_new (g_cache_duration g) (g_cache_cleanup_interval g),
          ss_mgo_uri = g_mgo_url g, ss_mgo_database = g_mgo_database_name g,
          ss_mgo_table = g_mgo_table_name g,
          ss_log = [go_sprintf ''uri %v'' [(''string'', g_mgo_url g)],
                    go_sprintf ''dbname %v'' [(''string'', g_mgo_database_name g)],
                    go_sprintf ''table %v'' [(''string'', g_mgo_table_name g)]]\<rparr>)"

text \<open>
  The end of \<open>Run\<close> (lines 72-74): \<open>service.Run()\<close> returns when the service
  stops; an error \<open>err\<close> (its dynamic type and text) is reported by
  \<open>log.Fatalf("config Run the service error: ", err)\<close>, which logs the formatted line
  and exits with status 1.
\<close>

definition run_service_exit :: "(string \<times> string) option \<Rightarrow> cli_out" where
  "run_service_exit err =
     (case err of
        None \<Rightarrow> \<lparr>out_stdout = [], out_log = [], out_status = Returned\<rparr>
      | Some e \<Rightarrow> log_fatal (go_sprintf ''config Run the service error: '' [e]))"

section \<open>A running instance\<close>

text \<open>
  A node: the shared store, the instance's cache, its clock, whether the store and the
  broker currently answer, the topic it is subscribed to, and the events it has
  published so far.
\<close>

record node =
  nd_store :: store
  nd_cache :: cache
  nd_clock :: nanos
  nd_store_up :: bool
  nd_publish_ok :: bool
  nd_topic :: string
  nd_published :: "change_event list"

definition start_node :: "service_setup \<Rightarrow> store \<Rightarrow> nanos \<Rightarrow> node" where
  "start_node ss st now =
     \<lparr>nd_store = st, nd_cache = ss_cache ss, nd_clock = now, nd_store_up = True,
      nd_publish_ok = True, nd_topic = ss_topic ss, nd_published = []\<rparr>"

definition node_after :: "'a core_out \<Rightarrow> node \<Rightarrow> node" where
  "node_after res n =
     n\<lparr>nd_store := out_store res, nd_cache := out_cache res, nd_published := nd_published n @ out_events res\<rparr>"

definition err_text :: "core_error + 'a \<Rightarrow> string + 'a" where
  "err_text r = (case r of Inl e \<Rightarrow> Inl (core_error_text e) | Inr x \<Rightarrow> Inr x)"

definition read_response_of :: "read_request \<Rightarrow> change_set \<Rightarrow> read_response" where
  "read_response_of req v =
     \<lparr>rsp_change = Some \<lparr>ch_namespace = rr_namespace req, ch_path = rr_path req, ch_change_set = Some v\<rparr>\<rparr>"

text \<open>The handler registered by \<open>proto.RegisterConfigHandler\<close> (line 65).\<close>

definition core_service :: "node config_service" where
  "core_service =
     \<lparr>svc_update = (\<lambda>ch n. let res = core_update (nd_store_up n) (nd_publish_ok n) (nd_clock n)
                                  (nd_store n) (nd_cache n) ch
                           in (err_text (out_result res), node_after res n)),
      svc_read = (\<lambda>req n. let res = core_read (nd_store_up n) (nd_clock n) (nd_store n) (nd_cache n) req
                         in (err_text (map_sum id (read_response_of req) (out_result res)), node_after res n)),
      svc_delete = (\<lambda>ch n. let res = core_delete (nd_store_up n) (nd_publish_ok n) (nd_clock n)
                                  (nd_store n) (nd_cache n) ch
                           in (err_text (out_result res), node_after res n))\<rparr>"

text \<open>The registry after \<open>Run\<close>: the one service, under the name \<open>Run\<close> chose.\<close>

definition deployed :: "service_setup \<Rightarrow> string \<Rightarrow> node config_service option" where
  "deployed ss name = (if name = ss_name ss then Some core_service else None)"

text \<open>
  The subscriber registered on \<open>handler.WatchTopic\<close> (line 66): an event published on
  the node's topic is applied to its cache at the node's clock; other topics do not
  reach it.  Time passes with \<open>tick\<close>.
\<close>

definition deliver :: "string \<Rightarrow> change_event \<Rightarrow> node \<Rightarrow> node" where
  "deliver topic ev n =
     (if topic = nd_topic n then n\<lparr>nd_cache := core_apply (nd_clock n) (nd_cache n) ev\<rparr> else n)"

definition tick :: "nanos \<Rightarrow> node \<Rightarrow> node" where
  "tick d n = n\<lparr>nd_clock := nd_clock n + d\<rparr>"

text \<open>
  A tick of the janitor of the instance's cache (\<open>cache.New\<close> started it when the
  cleanup interval is positive), at the instance's clock.
\<close>

definition sweep :: "node \<Rightarrow> node" where
  "sweep n = n\<lparr>nd_cache := janitor_tick (nd_clock n) (nd_cache n)\<rparr>"

section \<open>Evaluation rules\<close>

lemma new_config_service_deployed:
  "new_config_service name (deployed ss) = (if name = ss_name ss then core_service else unreachable_service name)"
  by (simp add: new_config_service_def deployed_def)

lemma node_after_simps [simp]:
  "nd_store (node_after res n) = out_store res" "nd_cache (node_after res n) = out_cache res"
  "nd_clock (node_after res n) = nd_clock n" "nd_store_up (node_after res n) = nd_store_up n"
  "nd_publish_ok (node_after res n) = nd_publish_ok n" "nd_topic (node_after res n) = nd_topic n"
  "nd_published (node_after res n) = nd_published n @ out_events res"
  by (simp_all add: node_after_def)

lemma run_setup_simps [simp]:
  "ss_cache (run_setup g wt c) = cache_new (g_cache_duration g) (g_cache_cleanup_interval g)"
  "ss_name (run_setup g wt c) =
     (if 0 < length (ctx_string c ''server_name'') then ctx_string c ''server_name'' else g_name g)"
  "ss_topic (run_setup g wt c) =
     (if 0 < length (ctx_string c ''watch_topic'') then ctx_string c ''watch_topic'' else wt)"
  by (simp_all add: run_setup_def Let_def)

lemma start_node_simps [simp]:
  "nd_store (start_node ss st now) = st" "nd_cache (start_node ss st now) = ss_cache ss"
  "nd_clock (start_node ss st now) = now" "nd_store_up (start_node ss st now)"
  "nd_publish_ok (start_node ss st now)" "nd_topic (start_node ss st now) = ss_topic ss"
  "nd_published (start_node ss st now) = []"
  by (simp_all add: start_node_def)

lemmas service_defs = core_service_def err_text_def read_response_of_def args_get_def
  new_config_service_deployed

section \<open>The subcommands against the deployed handler\<close>

text \<open>
  With the service registered under the name the client calls, each subcommand is one
  handler call followed by the client's reading of its result.
\<close>

definition cli_read_outcome :: "core_error + change_set \<Rightarrow> cli_out" where
  "cli_read_outcome r =
     (case r of
        Inl e \<Rightarrow> if not_found_error (core_error_text e) then println_exit ''not found''
                 else println_exit (core_error_text e)
      | Inr v \<Rightarrow> if blank_payload (cs_data v) then println_exit ''not found''
                else \<lparr>out_stdout = [cs_data v], out_log = [], out_status = Returned\<rparr>)"

definition cli_write_outcome :: "core_error + unit \<Rightarrow> cli_out" where
  "cli_write_outcome r =
     (case r of Inl e \<Rightarrow> println_exit (core_error_text e)
      | Inr _ \<Rightarrow> \<lparr>out_stdout = [], out_log = [], out_status = Returned\<rparr>)"

definition cli_change :: "globals \<Rightarrow> string \<Rightarrow> string \<Rightarrow> int \<Rightarrow> change" where
  "cli_change g k v now =
     \<lparr>ch_namespace = g_namespace g, ch_path = k,
      ch_change_set = Some \<lparr>cs_data = v, cs_format = ''json'', cs_source = ''cli'', cs_timestamp = now\<rparr>\<rparr>"

lemma set_config_core:
  assumes "ss_name ss = rpc_service_name"
  shows "set_config (deployed ss) g now \<lparr>ctx_args = k # rest, ctx_string = f\<rparr> n =
    (let res = core_update (nd_store_up n) (nd_publish_ok n) (nd_clock n) (nd_store n) (nd_cache n)
                 (cli_change g k (args_get (k # rest) 1) now)
     in (cli_write_outcome (out_result res), node_after res n))"
  using assms
  by (simp add: set_config_def service_defs cli_change_def cli_write_outcome_def Let_def split: sum.splits)

lemma get_config_core:
  assumes "ss_name ss = rpc_service_name" and "k \<noteq> []"
  shows "get_config (deployed ss) g \<lparr>ctx_args = k # rest, ctx_string = f\<rparr> n =
    (let res = core_read (nd_store_up n) (nd_clock n) (nd_store n) (nd_cache n)
                 \<lparr>rr_namespace = g_namespace g, rr_path = k\<rparr>
     in (cli_read_outcome (out_result res), node_after res n))"
  using assms
  by (simp add: get_config_def service_defs cli_read_outcome_def Let_def
      split: sum.splits)

lemma del_config_core:
  assumes "ss_name ss = rpc_service_name" and "k \<noteq> []"
  shows "del_config (deployed ss) g \<lparr>ctx_args = k # rest, ctx_string = f\<rparr> n =
    (let res = core_delete (nd_store_up n) (nd_publish_ok n) (nd_clock n) (nd_store n) (nd_cache n)
                 \<lparr>ch_namespace = g_namespace g, ch_path = k, ch_change_set = None\<rparr>
     in (cli_write_outcome (out_result res), node_after res n))"
  using assms
  by (simp add: del_config_def service_defs cli_write_outcome_def Let_def split: sum.splits)

lemma node_after_unchanged [simp]: "node_after (unchanged (nd_store n) (nd_cache n) e) n = n"
  by (simp add: node_after_def unchanged_def)

section \<open>Delivery and time\<close>

lemma deliver_simps [simp]:
  "deliver (nd_topic n) ev n = n\<lparr>nd_cache := core_apply (nd_clock n) (nd_cache n) ev\<rparr>"
  "t \<noteq> nd_topic n \<Longrightarrow> deliver t ev n = n"
  by (simp_all add: deliver_def)

lemma deliver_frame [simp]:
  "nd_topic (deliver t ev n) = nd_topic n" "nd_clock (deliver t ev n) = nd_clock n"
  "nd_store (deliver t ev n) = nd_store n" "nd_store_up (deliver t ev n) = nd_store_up n"
  "nd_published (deliver t ev n) = nd_published n"
  by (simp_all add: deliver_def)

lemma tick_simps [simp]:
  "nd_clock (tick d n) = nd_clock n + d" "nd_cache (tick d n) = nd_cache n"
  "nd_store (tick d n) = nd_store n" "nd_store_up (tick d n) = nd_store_up n"
  "nd_topic (tick d n) = nd_topic n" "nd_publish_ok (tick d n) = nd_publish_ok n"
  by (simp_all add: tick_def)

text \<open>Delivering a sequence of events on the node's topic folds \<open>core_apply\<close> over its cache.\<close>

lemma deliver_all:
  "t = nd_topic n \<Longrightarrow> foldl (\<lambda>m ev. deliver t ev m) n es =
     n\<lparr>nd_cache := foldl (core_apply (nd_clock n)) (nd_cache n) es\<rparr>"
proof (induction es arbitrary: n)
  case Nil
  then show ?case by simp
next
  case (Cons e es)
  let ?n = "n\<lparr>nd_cache := core_apply (nd_clock n) (nd_cache n) e\<rparr>"
  have "t = nd_topic ?n" using Cons.prems by simp
  then have "foldl (\<lambda>m ev. deliver t ev m) ?n es =
               ?n\<lparr>nd_cache := foldl (core_apply (nd_clock ?n)) (nd_cache ?n) es\<rparr>"
    by (rule Cons.IH)
  moreover have "deliver t e n = ?n" using Cons.prems by (simp add: deliver_def)
  ultimately show ?case by simp
qed

text \<open>The key a subcommand addresses, and the change set \<open>set\<close> sends.\<close>

definition cli_value :: "string \<Rightarrow> int \<Rightarrow> change_set" where
  "cli_value v now = \<lparr>cs_data = v, cs_format = ''json'', cs_source = ''cli'', cs_timestamp = now\<rparr>"

lemma set_config_ok:
  assumes "ss_name ss = rpc_service_name" and "k \<noteq> []" and "nd_store_up n"
  shows "set_config (deployed ss) g now \<lparr>ctx_args = [k, v], ctx_string = f\<rparr> n =
    (\<lparr>out_stdout = [], out_log = [], out_status = Returned\<rparr>,
     n\<lparr>nd_store := (nd_store n)(key_of (g_namespace g) k \<mapsto> cli_value v now),
       nd_cache := cache_set (key_of (g_namespace g) k) (cli_value v now) (nd_clock n) (nd_cache n),
       nd_published := nd_published n @
         (if nd_publish_ok n then [\<lparr>ev_key = key_of (g_namespace g) k, ev_payload = Value (cli_value v now),
                                    ev_origin_ts = now\<rparr>] else [])\<rparr>)"
  using assms
  by (simp add: set_config_core cli_change_def core_update_ok cli_write_outcome_def args_get_def
      node_after_def cli_value_def Let_def)

lemma del_config_ok:
  assumes "ss_name ss = rpc_service_name" and "k \<noteq> []" and "nd_store_up n"
  shows "del_config (deployed ss) g \<lparr>ctx_args = [k], ctx_string = f\<rparr> n =
    (\<lparr>out_stdout = [], out_log = [], out_status = Returned\<rparr>,
     n\<lparr>nd_store := (nd_store n)(key_of (g_namespace g) k := None),
       nd_cache := cache_delete (key_of (g_namespace g) k) (nd_cache n),
       nd_published := nd_published n @
         (if nd_publish_ok n then [\<lparr>ev_key = key_of (g_namespace g) k, ev_payload = Tombstone,
                                    ev_origin_ts = nd_clock n div 1000000000\<rparr>] else [])\<rparr>)"
  using assms
  by (simp add: del_config_core core_delete_ok cli_write_outcome_def node_after_def Let_def)

lemma get_config_hit:
  assumes "ss_name ss = rpc_service_name" and "k \<noteq> []"
    and "cache_get (key_of (g_namespace g) k) (nd_clock n) (nd_cache n) = Some x"
  shows "get_config (deployed ss) g \<lparr>ctx_args = [k], ctx_string = f\<rparr> n = (cli_read_outcome (Inr x), n)"
  using assms by (simp add: get_config_core core_read_hit node_after_def)

lemma get_config_miss:
  assumes "ss_name ss = rpc_service_name" and "k \<noteq> []" and "nd_store_up n"
    and "cache_get (key_of (g_namespace g) k) (nd_clock n) (nd_cache n) = None"
  shows "fst (get_config (deployed ss) g \<lparr>ctx_args = [k], ctx_string = f\<rparr> n) =
           cli_read_outcome (store_answer (nd_store n) (key_of (g_namespace g) k))"
  using assms by (simp add: get_config_core core_read_miss Let_def)

lemma cli_read_value:
  "\<not> blank_payload v \<Longrightarrow> cli_read_outcome (Inr (cli_value v now)) =
     \<lparr>out_stdout = [v], out_log = [], out_status = Returned\<rparr>"
  by (simp add: cli_read_outcome_def cli_value_def)

text \<open>
  A \<open>get\<close> after a \<open>set\<close> on a node, once the store has been replaced by \<open>st'\<close> (a
  write or delete by another instance) and \<open>d\<close> nanoseconds have passed: the cache
  answers if its item is still alive, the store otherwise.
\<close>

lemma set_then_get_later:
  assumes "ss_name ss = rpc_service_name" and "k \<noteq> []" and "nd_store_up n"
  shows "fst (get_config (deployed ss) g \<lparr>ctx_args = [k], ctx_string = f'\<rparr>
           (tick d ((snd (set_config (deployed ss) g now \<lparr>ctx_args = [k, v], ctx_string = f\<rparr> n))\<lparr>nd_store := st'\<rparr>))) =
    (case cache_get (key_of (g_namespace g) k) (nd_clock n + d)
            (cache_set (key_of (g_namespace g) k) (cli_value v now) (nd_clock n) (nd_cache n)) of
       Some x \<Rightarrow> cli_read_outcome (Inr x)
     | None \<Rightarrow> cli_read_outcome (store_answer st' (key_of (g_namespace g) k)))"
  using assms by (simp add: set_config_ok get_config_hit get_config_miss split: option.split)

section \<open>The subcommands on any arguments\<close>

text \<open>
  On any arguments a subcommand either stops before the call, leaving the node as it
  was, or makes exactly one handler call.  \<open>get\<close> returns normally only with a value
  the node's store or cache held.
\<close>

lemma set_config_state:
  "snd (set_config (deployed ss) g now ctx n) =
     (if ctx_args ctx \<noteq> [] \<and> ss_name ss = rpc_service_name
      then node_after (core_update (nd_store_up n) (nd_publish_ok n) (nd_clock n) (nd_store n) (nd_cache n)
             (cli_change g (args_get (ctx_args ctx) 0) (args_get (ctx_args ctx) 1) now)) n
      else n)"
  by (auto simp: set_config_def service_defs unreachable_service_def cli_change_def Let_def
      split: prod.splits sum.splits)

lemma get_config_state:
  "snd (get_config (deployed ss) g ctx n) =
     (if ctx_args ctx \<noteq> [] \<and> args_get (ctx_args ctx) 0 \<noteq> [] \<and> ss_name ss = rpc_service_name
      then node_after (core_read (nd_store_up n) (nd_clock n) (nd_store n) (nd_cache n)
             \<lparr>rr_namespace = g_namespace g, rr_path = args_get (ctx_args ctx) 0\<rparr>) n
      else n)"
  by (auto simp: get_config_def service_defs unreachable_service_def Let_def
      split: prod.splits sum.splits option.splits)

lemma del_config_state:
  "snd (del_config (deployed ss) g ctx n) =
     (if ctx_args ctx \<noteq> [] \<and> args_get (ctx_args ctx) 0 \<noteq> [] \<and> ss_name ss = rpc_service_name
      then node_after (core_delete (nd_store_up n) (nd_publish_ok n) (nd_clock n) (nd_store n) (nd_cache n)
             \<lparr>ch_namespace = g_namespace g, ch_path = args_get (ctx_args ctx) 0, ch_change_set = None\<rparr>) n
      else n)"
  by (auto simp: del_config_def service_defs unreachable_service_def Let_def
      split: prod.splits sum.splits)

lemma cli_read_outcome_returned:
  "out_status (cli_read_outcome r) = Returned \<Longrightarrow> \<exists>v. r = Inr v \<and> out_stdout (cli_read_outcome r) = [cs_data v]"
  by (auto simp: cli_read_outcome_def println_exit_def split: sum.splits if_splits)

lemma get_config_returned:
  assumes "out_status (fst (get_config (deployed ss) g ctx n)) = Returned"
  shows "ss_name ss = rpc_service_name \<and> ctx_args ctx \<noteq> [] \<and> args_get (ctx_args ctx) 0 \<noteq> []"
  using assms by (auto simp: get_config_def new_config_service_deployed unreachable_service_def println_exit_def
      log_fatal_def Let_def split: if_splits)

lemma get_config_printed:
  assumes "out_status (fst (get_config (deployed ss) g ctx n)) = Returned"
  shows "\<exists>v \<in> ran (nd_store n) \<union> cache_values (nd_cache n).
           out_stdout (fst (get_config (deployed ss) g ctx n)) = [cs_data v]"
proof -
  obtain k rest where args: "ctx_args ctx = k # rest" and k: "k \<noteq> []" and name: "ss_name ss = rpc_service_name"
    using get_config_returned [OF assms] by (cases "ctx_args ctx") (auto simp: args_get_def)
  have ctx: "ctx = \<lparr>ctx_args = k # rest, ctx_string = ctx_string ctx\<rparr>"
    using args by simp
  let ?r = "out_result (core_read (nd_store_up n) (nd_clock n) (nd_store n) (nd_cache n)
              \<lparr>rr_namespace = g_namespace g, rr_path = k\<rparr>)"
  have out: "fst (get_config (deployed ss) g ctx n) = cli_read_outcome ?r"
    by (subst ctx) (simp add: get_config_core [OF name k] Let_def)
  obtain v where r: "?r = Inr v" and v: "out_stdout (cli_read_outcome ?r) = [cs_data v]"
    using cli_read_outcome_returned assms out by metis
  have "v \<in> ran (nd_store n) \<union> cache_values (nd_cache n)"
    by (rule core_read_result_values [OF r])
  then show ?thesis
    using v out by auto
qed

lemma get_config_cache_view:
  assumes "\<And>k. cache_get k (nd_clock n) c = cache_get k (nd_clock n) (nd_cache n)"
  shows "fst (get_config (deployed ss) g ctx (n\<lparr>nd_cache := c\<rparr>)) = fst (get_config (deployed ss) g ctx n)"
proof (cases "ctx_args ctx \<noteq> [] \<and> args_get (ctx_args ctx) 0 \<noteq> [] \<and> ss_name ss = rpc_service_name")
  case True
  then obtain k rest where args: "ctx_args ctx = k # rest" and k: "k \<noteq> []" and name: "ss_name ss = rpc_service_name"
    by (cases "ctx_args ctx") (auto simp: args_get_def)
  have ctx: "ctx = \<lparr>ctx_args = k # rest, ctx_string = ctx_string ctx\<rparr>"
    using args by simp
  show ?thesis
    by (subst (1 2) ctx) (simp add: get_config_core [OF name k] Let_def core_read_result_cache [OF assms])
next
  case False
  then show ?thesis
    by (auto simp: get_config_def new_config_service_deployed unreachable_service_def Let_def)
qed

lemma sweep_frame [simp]:
  "nd_store (sweep n) = nd_store n" "nd_clock (sweep n) = nd_clock n" "nd_topic (sweep n) = nd_topic n"
  "nd_store_up (sweep n) = nd_store_up n" "nd_publish_ok (sweep n) = nd_publish_ok n"
  "nd_published (sweep n) = nd_published n" "nd_cache (sweep n) = janitor_tick (nd_clock n) (nd_cache n)"
  by (simp_all add: sweep_def)

end
