(* ===== verification/Cluster.thy ===== *)
theory Cluster
  imports Service
begin

text \<open>
  A deployment: several instances of the service, each started by \<open>Run\<close>
  (\<open>config.go\<close>, lines 41-75) with the same setup, sharing one backing store and one
  broker.  What can happen is a sequence of operations: a client runs \<open>set\<close>,
  \<open>get\<close> or \<open>del\<close> (lines 77-202) and its RPC reaches one of the instances; the
  broker delivers to an instance any event published so far (at-least-once delivery, in
  any order, with duplicates, spec section 6); time passes on an instance; the store or
  the broker become reachable or unreachable from an instance.  The reachable states
  are an inductive relation over the trace of operations.  Its invariants show that
  no instance answers with a value nobody wrote, that the topic only carries
  well-formed events, that an instance's staleness is bounded by the cache duration,
  and that the shared store behaves as a plain key/value map (a refinement) as long
  as every instance reaches it.  Two-instance traces show how deletes and concurrent
  writes propagate.
\<close>

section \<open>State and operations\<close>

text \<open>
  The shared store, the instances, and every event published so far with its topic
  (the broker may deliver any of them again).  An instance's own \<open>nd_store\<close> is
  refreshed from the shared store before each call.
\<close>

record cluster =
  cl_store :: store
  cl_nodes :: "node list"
  cl_channel :: "(string \<times> change_event) list"

datatype cluster_op =
    CliSet nat "string list" int
  | CliGet nat "string list"
  | CliDel nat "string list"
  | Redeliver nat nat
  | Elapse nat nat
  | StoreReachable nat bool
  | BrokerReachable nat bool
  | Sweep nat

definition cluster_start :: "service_setup \<Rightarrow> store \<Rightarrow> nanos list \<Rightarrow> cluster" where
  "cluster_start ss st clocks =
     \<lparr>cl_store = st, cl_nodes = map (start_node ss st) clocks, cl_channel = []\<rparr>"

text \<open>The command line of a subcommand: its arguments, no flags.\<close>

definition cli_ctx :: "string list \<Rightarrow> cli_context" where
  "cli_ctx args = \<lparr>ctx_args = args, ctx_string = (\<lambda>_. '''')\<rparr>"

text \<open>
  A subcommand served by instance \<open>i\<close>: it runs on the instance with the shared store,
  the store it leaves is the new shared store, and the events it publishes go on the
  channel.  An instance that does not exist serves nothing.
\<close>

definition run_on :: "nat \<Rightarrow> (node \<Rightarrow> cli_out \<times> node) \<Rightarrow> cluster \<Rightarrow> cli_out option \<times> cluster" where
  "run_on i cmd cl =
     (if i < length (cl_nodes cl) then
        (let (out, n') = cmd ((cl_nodes cl ! i)\<lparr>nd_store := cl_store cl, nd_published := []\<rparr>)
         in (Some out, \<lparr>cl_store = nd_store n', cl_nodes = (cl_nodes cl)[i := n'\<lparr>nd_published := []\<rparr>],
                        cl_channel = cl_channel cl @ map (Pair (nd_topic n')) (nd_published n')\<rparr>))
      else (None, cl))"

definition on_node :: "nat \<Rightarrow> (node \<Rightarrow> node) \<Rightarrow> cluster \<Rightarrow> cluster" where
  "on_node i f cl = cl\<lparr>cl_nodes := (cl_nodes cl)[i := f (cl_nodes cl ! i)]\<rparr>"

fun cluster_exec :: "globals \<Rightarrow> service_setup \<Rightarrow> cluster_op \<Rightarrow> cluster \<Rightarrow> cli_out option \<times> cluster" where
  "cluster_exec g ss (CliSet i args now) cl = run_on i (set_config (deployed ss) g now (cli_ctx args)) cl"
| "cluster_exec g ss (CliGet i args) cl = run_on i (get_config (deployed ss) g (cli_ctx args)) cl"
| "cluster_exec g ss (CliDel i args) cl = run_on i (del_config (deployed ss) g (cli_ctx args)) cl"
| "cluster_exec g ss (Redeliver i j) cl =
     (None, if j < length (cl_channel cl)
            then on_node i (deliver (fst (cl_channel cl ! j)) (snd (cl_channel cl ! j))) cl else cl)"
| "cluster_exec g ss (Elapse i d) cl = (None, on_node i (tick (int d)) cl)"
| "cluster_exec g ss (StoreReachable i b) cl = (None, on_node i (\<lambda>n. n\<lparr>nd_store_up := b\<rparr>) cl)"
| "cluster_exec g ss (BrokerReachable i b) cl = (None, on_node i (\<lambda>n. n\<lparr>nd_publish_ok := b\<rparr>) cl)"
| "cluster_exec g ss (Sweep i) cl = (None, on_node i sweep cl)"

definition cluster_run :: "globals \<Rightarrow> service_setup \<Rightarrow> cluster_op list \<Rightarrow> cluster \<Rightarrow> cluster" where
  "cluster_run g ss ops cl = foldl (\<lambda>c op. snd (cluster_exec g ss op c)) cl ops"

text \<open>The states reachable from \<open>c0\<close> by a trace of operations.\<close>

inductive reach :: "globals \<Rightarrow> service_setup \<Rightarrow> cluster \<Rightarrow> cluster_op list \<Rightarrow> cluster \<Rightarrow> bool"
  for g ss c0 where
  reach_start: "reach g ss c0 [] c0"
| reach_step: "reach g ss c0 ops c \<Longrightarrow> reach g ss c0 (ops @ [op]) (snd (cluster_exec g ss op c))"

section \<open>Observations\<close>

text \<open>The change sets a trace's \<open>set\<close> commands send.\<close>

fun sent_values :: "cluster_op list \<Rightarrow> change_set list" where
  "sent_values [] = []"
| "sent_values (CliSet i args now # ops) = cli_value (args_get args 1) now # sent_values ops"
| "sent_values (_ # ops) = sent_values ops"

text \<open>Every value held anywhere: in the store, in a cache, or on the topic.\<close>

definition node_values :: "node \<Rightarrow> change_set set" where
  "node_values n =
     ran (nd_store n) \<union> cache_values (nd_cache n) \<union> (\<Union>ev\<in>set (nd_published n). payload_values (ev_payload ev))"

definition cluster_values :: "cluster \<Rightarrow> change_set set" where
  "cluster_values cl =
     ran (cl_store cl) \<union> (\<Union>n\<in>set (cl_nodes cl). cache_values (nd_cache n))
     \<union> (\<Union>te\<in>set (cl_channel cl). payload_values (ev_payload (snd te)))"

text \<open>
  Well-formedness of a deployment of setup \<open>ss\<close>: every instance listens on the
  setup's topic with a well-formed cache, and every event on the channel was published
  on that topic, is well formed and names a valid key.
\<close>

definition cluster_wf :: "service_setup \<Rightarrow> cluster \<Rightarrow> bool" where
  "cluster_wf ss cl =
     ((\<forall>n\<in>set (cl_nodes cl). nd_topic n = ss_topic ss \<and> cache_wf (nd_cache n))
      \<and> (\<forall>te\<in>set (cl_channel cl). fst te = ss_topic ss \<and> event_wf (snd te) \<and> snd (ev_key (snd te)) \<noteq> []))"

text \<open>The same for one instance, with the events it has just published.\<close>

definition node_wf :: "service_setup \<Rightarrow> node \<Rightarrow> bool" where
  "node_wf ss n =
     (nd_topic n = ss_topic ss \<and> cache_wf (nd_cache n)
      \<and> (\<forall>ev\<in>set (nd_published n). event_wf ev \<and> snd (ev_key ev) \<noteq> []))"

text \<open>
  Bounded staleness of one instance for a cache duration \<open>d\<close>: its clock is after the
  epoch and every item of its cache expires within \<open>d\<close> of the clock.
\<close>

definition node_bounded :: "nanos \<Rightarrow> node \<Rightarrow> bool" where
  "node_bounded d n = (0 \<le> nd_clock n \<and> cache_bounded d (nd_clock n) (nd_cache n))"

text \<open>
  The abstract key/value store of spec section 6: \<open>Update\<close> and \<open>Delete\<close> of a valid
  key replace or remove its entry; nothing else changes it.  \<open>nn\<close> is the number of
  instances (an operation on a missing instance does nothing).
\<close>

fun kv_step :: "globals \<Rightarrow> nat \<Rightarrow> store \<Rightarrow> cluster_op \<Rightarrow> store" where
  "kv_step g nn m (CliSet i args now) =
     (if i < nn \<and> args \<noteq> [] \<and> args_get args 0 \<noteq> []
      then m(key_of (g_namespace g) (args_get args 0) \<mapsto> cli_value (args_get args 1) now) else m)"
| "kv_step g nn m (CliDel i args) =
     (if i < nn \<and> args \<noteq> [] \<and> args_get args 0 \<noteq> [] then m(key_of (g_namespace g) (args_get args 0) := None) else m)"
| "kv_step g nn m _ = m"

fun disconnects_store :: "cluster_op \<Rightarrow> bool" where
  "disconnects_store (StoreReachable i b) = (\<not> b)"
| "disconnects_store _ = False"

text \<open>Whether a write reaches the store: a \<open>set\<close> or \<open>del\<close> on an existing instance that currently reaches it.\<close>

fun write_reaches_store :: "cluster \<Rightarrow> cluster_op \<Rightarrow> bool" where
  "write_reaches_store cl (CliSet i args now) = (i < length (cl_nodes cl) \<longrightarrow> nd_store_up (cl_nodes cl ! i))"
| "write_reaches_store cl (CliDel i args) = (i < length (cl_nodes cl) \<longrightarrow> nd_store_up (cl_nodes cl ! i))"
| "write_reaches_store cl _ = True"

section \<open>Evaluation rules\<close>

inductive_cases reach_NilE [elim!]: "reach g ss c0 [] c"

lemma reach_run: "reach g ss c0 ops c \<longleftrightarrow> c = cluster_run g ss ops c0"
proof
  assume "reach g ss c0 ops c"
  then show "c = cluster_run g ss ops c0"
    by induction (simp_all add: cluster_run_def)
next
  assume "c = cluster_run g ss ops c0"
  then show "reach g ss c0 ops c"
  proof (induction ops arbitrary: c rule: rev_induct)
    case Nil
    then show ?case by (simp add: cluster_run_def reach_start)
  next
    case (snoc op ops)
    have "reach g ss c0 (ops @ [op]) (snd (cluster_exec g ss op (cluster_run g ss ops c0)))"
      by (rule reach_step [OF snoc.IH [OF refl]])
    then show ?case using snoc.prems by (simp add: cluster_run_def)
  qed
qed

lemma sent_values_append [simp]: "sent_values (xs @ ys) = sent_values xs @ sent_values ys"
  by (induction xs rule: sent_values.induct) simp_all

lemma on_node_simps [simp]:
  "cl_store (on_node i f cl) = cl_store cl" "cl_channel (on_node i f cl) = cl_channel cl"
  "cl_nodes (on_node i f cl) = (cl_nodes cl)[i := f (cl_nodes cl ! i)]"
  by (simp_all add: on_node_def)

lemma node_after_values:
  "out_values res \<subseteq> Y \<Longrightarrow> node_values n \<subseteq> Y \<Longrightarrow> node_values (node_after res n) \<subseteq> Y"
  by (auto simp: node_values_def out_values_def node_after_def)

lemma subcommand_values:
  "node_values (snd (set_config (deployed ss) g now ctx n)) \<subseteq> node_values n \<union> {cli_value (args_get (ctx_args ctx) 1) now}"
  "node_values (snd (get_config (deployed ss) g ctx n)) \<subseteq> node_values n \<union> {}"
  "node_values (snd (del_config (deployed ss) g ctx n)) \<subseteq> node_values n \<union> {}"
proof -
  have "out_values (core_update (nd_store_up n) (nd_publish_ok n) (nd_clock n) (nd_store n) (nd_cache n)
          (cli_change g k v now)) \<subseteq> node_values n \<union> {cli_value v now}" for k v
    using core_values(2) [of _ _ _ "nd_store n" "nd_cache n" "cli_change g k v now"]
    by (auto simp: node_values_def cli_change_def cli_value_def)
  then have "node_values (node_after (core_update (nd_store_up n) (nd_publish_ok n) (nd_clock n) (nd_store n)
               (nd_cache n) (cli_change g k v now)) n) \<subseteq> node_values n \<union> {cli_value v now}" for k v
    by (rule node_after_values) auto
  then show "node_values (snd (set_config (deployed ss) g now ctx n)) \<subseteq> node_values n \<union> {cli_value (args_get (ctx_args ctx) 1) now}"
    by (auto simp: set_config_state)
  have "node_values (node_after (core_read (nd_store_up n) (nd_clock n) (nd_store n) (nd_cache n) req) n)
          \<subseteq> node_values n" for req
    using core_values(1) [of _ _ "nd_store n" "nd_cache n" req]
    by (intro node_after_values) (auto simp: node_values_def)
  then show "node_values (snd (get_config (deployed ss) g ctx n)) \<subseteq> node_values n \<union> {}"
    by (simp add: get_config_state)
  have "node_values (node_after (core_delete (nd_store_up n) (nd_publish_ok n) (nd_clock n) (nd_store n)
          (nd_cache n) ch) n) \<subseteq> node_values n" for ch
    using core_values(3) [of _ _ _ "nd_store n" "nd_cache n" ch]
    by (intro node_after_values) (auto simp: node_values_def)
  then show "node_values (snd (del_config (deployed ss) g ctx n)) \<subseteq> node_values n \<union> {}"
    by (simp add: del_config_state)
qed

lemma run_on_values:
  assumes "\<And>n. node_values (snd (cmd n)) \<subseteq> node_values n \<union> X"
  shows "cluster_values (snd (run_on i cmd cl)) \<subseteq> cluster_values cl \<union> X"
proof (cases "i < length (cl_nodes cl)")
  case True
  let ?n = "(cl_nodes cl ! i)\<lparr>nd_store := cl_store cl, nd_published := []\<rparr>"
  obtain out n' where cmd: "cmd ?n = (out, n')" by fastforce
  have "node_values ?n \<subseteq> cluster_values cl"
    using True nth_mem [OF True] by (auto simp: node_values_def cluster_values_def)
  then have n': "node_values n' \<subseteq> cluster_values cl \<union> X"
    using assms [of ?n] cmd by auto
  have "set ((cl_nodes cl)[i := n'\<lparr>nd_published := []\<rparr>]) \<subseteq> insert (n'\<lparr>nd_published := []\<rparr>) (set (cl_nodes cl))"
    by (rule set_update_subset_insert)
  then show ?thesis
    using True cmd n' by (fastforce simp: run_on_def cluster_values_def node_values_def)
qed (simp add: run_on_def)

lemma on_node_values:
  assumes "\<And>n. cache_values (nd_cache (f n)) \<subseteq> cache_values (nd_cache n) \<union> X"
  shows "cluster_values (on_node i f cl) \<subseteq> cluster_values cl \<union> X"
proof (cases "i < length (cl_nodes cl)")
  case True
  have "set ((cl_nodes cl)[i := f (cl_nodes cl ! i)]) \<subseteq> insert (f (cl_nodes cl ! i)) (set (cl_nodes cl))"
    by (rule set_update_subset_insert)
  then show ?thesis
    using True assms [of "cl_nodes cl ! i"] nth_mem [OF True] by (fastforce simp: cluster_values_def)
qed (simp add: on_node_def not_less list_update_beyond)

lemma deliver_values:
  "cache_values (nd_cache (deliver t ev n)) \<subseteq> cache_values (nd_cache n) \<union> payload_values (ev_payload ev)"
  using core_values(4) by (simp add: deliver_def)

lemma cluster_exec_values:
  "cluster_values (snd (cluster_exec g ss op cl)) \<subseteq> cluster_values cl \<union> set (sent_values [op])"
proof (cases op)
  case (CliSet i args now)
  have "cluster_values (snd (run_on i (set_config (deployed ss) g now (cli_ctx args)) cl))
          \<subseteq> cluster_values cl \<union> {cli_value (args_get (ctx_args (cli_ctx args)) 1) now}"
    by (rule run_on_values [OF subcommand_values(1)])
  then show ?thesis using CliSet by (simp add: cli_ctx_def)
next
  case (CliGet i args)
  then show ?thesis using run_on_values [OF subcommand_values(2)] by simp
next
  case (CliDel i args)
  then show ?thesis using run_on_values [OF subcommand_values(3)] by simp
next
  case (Redeliver i j)
  show ?thesis
  proof (cases "j < length (cl_channel cl)")
    case True
    have "payload_values (ev_payload (snd (cl_channel cl ! j))) \<subseteq> cluster_values cl"
      using nth_mem [OF True] by (auto simp: cluster_values_def)
    then show ?thesis
      using Redeliver True on_node_values [OF deliver_values] by fastforce
  qed (simp add: Redeliver)
qed (auto intro!: on_node_values [where X = "{}", simplified] dest: janitor_tick_props(1) [THEN subsetD])

section \<open>Invariants of one step\<close>

lemma core_store:
  "out_store (core_read up now st c req) = st"
  "out_store (core_update True pub now st c ch) =
     (case ch_change_set ch of None \<Rightarrow> st
      | Some v \<Rightarrow> if ch_path ch = [] then st else st(key_of (ch_namespace ch) (ch_path ch) \<mapsto> v))"
  "out_store (core_delete True pub now st c ch) =
     (if ch_path ch = [] then st else st(key_of (ch_namespace ch) (ch_path ch) := None))"
  "out_store (core_update False pub now st c ch) = st"
  "out_store (core_delete False pub now st c ch) = st"
  by (auto simp: core_read_def core_update_eq core_delete_eq unchanged_def core_key_def store_ops Let_def
      split: sum.splits option.splits)

lemma node_after_wf:
  "node_wf ss n \<Longrightarrow> cache_wf (out_cache res) \<Longrightarrow>
   (\<And>ev. ev \<in> set (out_events res) \<Longrightarrow> event_wf ev \<and> snd (ev_key ev) \<noteq> []) \<Longrightarrow>
   node_wf ss (node_after res n)"
  by (auto simp: node_wf_def)

lemma subcommand_wf:
  assumes "node_wf ss n"
  shows "node_wf ss (snd (set_config (deployed ss') g now ctx n))"
    and "node_wf ss (snd (get_config (deployed ss') g ctx n))"
    and "node_wf ss (snd (del_config (deployed ss') g ctx n))"
proof -
  have c: "cache_wf (nd_cache n)" using assms by (simp add: node_wf_def)
  show "node_wf ss (snd (set_config (deployed ss') g now ctx n))"
    using assms core_cache_wf(2) [OF c] core_events_wf(1) by (auto simp: set_config_state intro!: node_after_wf)
  show "node_wf ss (snd (get_config (deployed ss') g ctx n))"
    using assms core_cache_wf(1) [OF c] core_events_wf(3) by (auto simp: get_config_state intro!: node_after_wf)
  show "node_wf ss (snd (del_config (deployed ss') g ctx n))"
    using assms core_cache_wf(3) [OF c] core_events_wf(2) by (auto simp: del_config_state intro!: node_after_wf)
qed

lemma run_on_wf:
  assumes "\<And>n. node_wf ss n \<Longrightarrow> node_wf ss (snd (cmd n))" and "cluster_wf ss cl"
  shows "cluster_wf ss (snd (run_on i cmd cl))"
proof (cases "i < length (cl_nodes cl)")
  case True
  let ?n = "(cl_nodes cl ! i)\<lparr>nd_store := cl_store cl, nd_published := []\<rparr>"
  obtain out n' where cmd: "cmd ?n = (out, n')" by fastforce
  have "node_wf ss ?n"
    using assms(2) nth_mem [OF True] by (auto simp: cluster_wf_def node_wf_def)
  then have n': "node_wf ss n'"
    using assms(1) [of ?n] cmd by simp
  have "set ((cl_nodes cl)[i := n'\<lparr>nd_published := []\<rparr>]) \<subseteq> insert (n'\<lparr>nd_published := []\<rparr>) (set (cl_nodes cl))"
    by (rule set_update_subset_insert)
  then show ?thesis
    using True cmd n' assms(2) by (fastforce simp: run_on_def cluster_wf_def node_wf_def)
qed (simp add: run_on_def assms(2))

lemma cluster_start_wf: "cache_wf (ss_cache ss) \<Longrightarrow> cluster_wf ss (cluster_start ss st clocks)"
  by (auto simp: cluster_wf_def cluster_start_def)

lemma cluster_exec_length [simp]: "length (cl_nodes (snd (cluster_exec g ss op cl))) = length (cl_nodes cl)"
  by (cases op) (auto simp: run_on_def on_node_def split: prod.splits)

lemma cluster_run_length [simp]: "length (cl_nodes (cluster_run g ss ops cl)) = length (cl_nodes cl)"
  by (induction ops arbitrary: cl) (simp_all add: cluster_run_def)

lemma run_on_nodes:
  assumes "\<forall>n\<in>set (cl_nodes cl). P n"
    and "\<And>n. P n \<Longrightarrow> P ((snd (cmd (n\<lparr>nd_store := cl_store cl, nd_published := []\<rparr>)))\<lparr>nd_published := []\<rparr>)"
  shows "\<forall>n\<in>set (cl_nodes (snd (run_on i cmd cl))). P n"
proof (cases "i < length (cl_nodes cl)")
  case True
  obtain out n' where cmd: "cmd ((cl_nodes cl ! i)\<lparr>nd_store := cl_store cl, nd_published := []\<rparr>) = (out, n')"
    by fastforce
  have "P (n'\<lparr>nd_published := []\<rparr>)"
    using assms(2) [of "cl_nodes cl ! i"] assms(1) nth_mem [OF True] cmd by simp
  then have "\<forall>n\<in>set ((cl_nodes cl)[i := n'\<lparr>nd_published := []\<rparr>]). P n"
    by (rule set_update_all [OF assms(1)])
  then show ?thesis using True cmd by (simp add: run_on_def)
qed (simp add: run_on_def assms(1))

lemma on_node_nodes:
  assumes "\<forall>n\<in>set (cl_nodes cl). P n" and "\<And>n. P n \<Longrightarrow> P (f n)"
  shows "\<forall>n\<in>set (cl_nodes (on_node i f cl)). P n"
  unfolding on_node_simps using assms(1) by (rule set_update_all) (meson assms nth_mem)

lemma on_node_wf:
  assumes "\<And>n. nd_topic (f n) = nd_topic n" and "\<And>n. cache_wf (nd_cache n) \<Longrightarrow> cache_wf (nd_cache (f n))"
    and "cluster_wf ss cl"
  shows "cluster_wf ss (on_node i f cl)"
proof -
  have "\<forall>n\<in>set (cl_nodes (on_node i f cl)). nd_topic n = ss_topic ss \<and> cache_wf (nd_cache n)"
    using assms(3) by (intro on_node_nodes) (auto simp: cluster_wf_def assms(1,2))
  then show ?thesis using assms(3) by (simp add: cluster_wf_def)
qed

lemma cluster_exec_wf:
  assumes "cluster_wf ss cl"
  shows "cluster_wf ss (snd (cluster_exec g ss' op cl))"
proof (cases op)
  case (CliSet i args now)
  show ?thesis unfolding CliSet cluster_exec.simps by (rule run_on_wf [OF subcommand_wf(1) assms])
next
  case (CliGet i args)
  show ?thesis unfolding CliGet cluster_exec.simps by (rule run_on_wf [OF subcommand_wf(2) assms])
next
  case (CliDel i args)
  show ?thesis unfolding CliDel cluster_exec.simps by (rule run_on_wf [OF subcommand_wf(3) assms])
next
  case (Redeliver i j)
  have "cluster_wf ss (on_node i (deliver t ev) cl)" for t ev
    by (rule on_node_wf [OF _ _ assms]) (simp_all add: deliver_def core_cache_wf(4))
  then show ?thesis using Redeliver assms by simp
next
  case (Elapse i d)
  show ?thesis unfolding Elapse cluster_exec.simps snd_conv by (rule on_node_wf [OF _ _ assms]) simp_all
next
  case (StoreReachable i b)
  show ?thesis unfolding StoreReachable cluster_exec.simps snd_conv by (rule on_node_wf [OF _ _ assms]) simp_all
next
  case (BrokerReachable i b)
  show ?thesis unfolding BrokerReachable cluster_exec.simps snd_conv by (rule on_node_wf [OF _ _ assms]) simp_all
next
  case (Sweep i)
  show ?thesis unfolding Sweep cluster_exec.simps snd_conv
    by (rule on_node_wf [OF _ _ assms]) (simp_all add: janitor_tick_props)
qed

lemma subcommand_store_up [simp]:
  "nd_store_up (snd (set_config (deployed ss) g now ctx n)) = nd_store_up n"
  "nd_store_up (snd (get_config (deployed ss) g ctx n)) = nd_store_up n"
  "nd_store_up (snd (del_config (deployed ss) g ctx n)) = nd_store_up n"
  by (simp_all add: set_config_state get_config_state del_config_state)

lemma cluster_exec_store_up:
  assumes "\<forall>n\<in>set (cl_nodes cl). nd_store_up n" and "\<not> disconnects_store op"
  shows "\<forall>n\<in>set (cl_nodes (snd (cluster_exec g ss op cl))). nd_store_up n"
proof (cases op)
  case (CliSet i args now)
  show ?thesis unfolding CliSet cluster_exec.simps by (rule run_on_nodes [OF assms(1)]) simp
next
  case (CliGet i args)
  show ?thesis unfolding CliGet cluster_exec.simps by (rule run_on_nodes [OF assms(1)]) simp
next
  case (CliDel i args)
  show ?thesis unfolding CliDel cluster_exec.simps by (rule run_on_nodes [OF assms(1)]) simp
next
  case (Redeliver i j)
  have "\<forall>n\<in>set (cl_nodes (on_node i (deliver t ev) cl)). nd_store_up n" for t ev
    by (rule on_node_nodes [OF assms(1)]) (simp add: deliver_def)
  then show ?thesis using Redeliver assms(1) by simp
next
  case (Elapse i d)
  show ?thesis unfolding Elapse cluster_exec.simps snd_conv by (rule on_node_nodes [OF assms(1)]) simp
next
  case (StoreReachable i b)
  then show ?thesis using assms
    unfolding StoreReachable cluster_exec.simps snd_conv by (intro on_node_nodes) simp_all
next
  case (BrokerReachable i b)
  show ?thesis unfolding BrokerReachable cluster_exec.simps snd_conv by (rule on_node_nodes [OF assms(1)]) simp
next
  case (Sweep i)
  show ?thesis unfolding Sweep cluster_exec.simps snd_conv by (rule on_node_nodes [OF assms(1)]) simp
qed

section \<open>The store and the observations of a step\<close>

lemma run_on_store:
  "i < length (cl_nodes cl) \<Longrightarrow>
   cl_store (snd (run_on i cmd cl)) = nd_store (snd (cmd ((cl_nodes cl ! i)\<lparr>nd_store := cl_store cl, nd_published := []\<rparr>)))"
  "\<not> i < length (cl_nodes cl) \<Longrightarrow> run_on i cmd cl = (None, cl)"
  by (simp_all add: run_on_def split: prod.splits)

lemma run_on_fst:
  "i < length (cl_nodes cl) \<Longrightarrow>
   fst (run_on i cmd cl) = Some (fst (cmd ((cl_nodes cl ! i)\<lparr>nd_store := cl_store cl, nd_published := []\<rparr>)))"
  by (simp add: run_on_def split: prod.split)

lemma run_on_out:
  "fst (run_on i cmd cl) = Some out \<Longrightarrow>
   i < length (cl_nodes cl) \<and> out = fst (cmd ((cl_nodes cl ! i)\<lparr>nd_store := cl_store cl, nd_published := []\<rparr>))"
  by (auto simp: run_on_def split: prod.splits if_splits)

text \<open>A write served by an existing instance changes the store as the abstract map does if the instance reaches the store, and not at all otherwise.\<close>

lemma run_on_write_store:
  assumes "ss_name ss = rpc_service_name" and "i < length (cl_nodes cl)"
  shows "cl_store (snd (cluster_exec g ss (CliSet i args now) cl)) =
           (if nd_store_up (cl_nodes cl ! i) then kv_step g (length (cl_nodes cl)) (cl_store cl) (CliSet i args now)
            else cl_store cl)"
    and "cl_store (snd (cluster_exec g ss (CliDel i args) cl)) =
           (if nd_store_up (cl_nodes cl ! i) then kv_step g (length (cl_nodes cl)) (cl_store cl) (CliDel i args)
            else cl_store cl)"
  using assms
  by (cases "nd_store_up (cl_nodes cl ! i)";
      simp add: run_on_store set_config_state del_config_state core_store cli_change_def cli_value_def cli_ctx_def)+

lemma cluster_exec_store:
  assumes "ss_name ss = rpc_service_name" and "\<forall>n\<in>set (cl_nodes cl). nd_store_up n"
  shows "cl_store (snd (cluster_exec g ss op cl)) = kv_step g (length (cl_nodes cl)) (cl_store cl) op"
proof (cases op)
  case (CliSet i args now)
  then show ?thesis
    using run_on_write_store(1) [OF assms(1)] assms(2)
    by (cases "i < length (cl_nodes cl)") (simp_all add: run_on_store)
next
  case (CliGet i args)
  then show ?thesis
    by (cases "i < length (cl_nodes cl)") (simp_all add: run_on_store get_config_state core_store)
next
  case (CliDel i args)
  then show ?thesis
    using run_on_write_store(2) [OF assms(1)] assms(2)
    by (cases "i < length (cl_nodes cl)") (simp_all add: run_on_store)
qed simp_all

lemma reach_values:
  "reach g ss c0 ops c \<Longrightarrow> cluster_values c \<subseteq> cluster_values c0 \<union> set (sent_values ops)"
proof (induction rule: reach.induct)
  case reach_start
  then show ?case by simp
next
  case (reach_step ops c op)
  then show ?case using cluster_exec_values [of g ss op c] by auto
qed

lemma cluster_start_values:
  "cluster_values (cluster_start (run_setup g wt cx) st clocks) = ran st"
  by (auto simp: cluster_values_def cluster_start_def)

lemma on_node_twice: "(\<And>n. f (f n) = f n) \<Longrightarrow> on_node i f (on_node i f cl) = on_node i f cl"
  by (cases "i < length (cl_nodes cl)") (simp_all add: on_node_def not_less list_update_beyond)

lemma deliver_twice: "deliver t ev (deliver t ev n) = deliver t ev n"
  by (simp add: deliver_def core_apply_idem)

lemma node_bounded_frame [simp]:
  "node_bounded d (n\<lparr>nd_store := st, nd_published := p\<rparr>) = node_bounded d n"
  "node_bounded d (n\<lparr>nd_published := p\<rparr>) = node_bounded d n"
  "node_bounded d (n\<lparr>nd_store_up := b\<rparr>) = node_bounded d n"
  "node_bounded d (n\<lparr>nd_publish_ok := b\<rparr>) = node_bounded d n"
  by (simp_all add: node_bounded_def)

lemma subcommand_bounded:
  assumes "node_bounded d n" and "0 < d"
  shows "node_bounded d (snd (set_config (deployed ss) g now ctx n))"
    and "node_bounded d (snd (get_config (deployed ss) g ctx n))"
    and "node_bounded d (snd (del_config (deployed ss) g ctx n))"
  using assms core_bounded [of d "nd_clock n" "nd_cache n"]
  by (simp_all add: node_bounded_def set_config_state get_config_state del_config_state)

lemma cluster_exec_bounded:
  assumes "\<forall>n\<in>set (cl_nodes cl). node_bounded d n" and "0 < d"
  shows "\<forall>n\<in>set (cl_nodes (snd (cluster_exec g ss op cl))). node_bounded d n"
proof (cases op)
  case (CliSet i args now)
  show ?thesis unfolding CliSet cluster_exec.simps
    by (rule run_on_nodes [OF assms(1)]) (metis node_bounded_frame(1,2) subcommand_bounded assms(2))
next
  case (CliGet i args)
  show ?thesis unfolding CliGet cluster_exec.simps
    by (rule run_on_nodes [OF assms(1)]) (metis node_bounded_frame(1,2) subcommand_bounded assms(2))
next
  case (CliDel i args)
  show ?thesis unfolding CliDel cluster_exec.simps
    by (rule run_on_nodes [OF assms(1)]) (metis node_bounded_frame(1,2) subcommand_bounded assms(2))
next
  case (Redeliver i j)
  have "\<forall>n\<in>set (cl_nodes (on_node i (deliver t ev) cl)). node_bounded d n" for t ev
    by (rule on_node_nodes [OF assms(1)]) (simp add: node_bounded_def deliver_def core_bounded assms(2))
  then show ?thesis using Redeliver assms by simp
next
  case (Elapse i e)
  show ?thesis unfolding Elapse cluster_exec.simps snd_conv
    by (rule on_node_nodes [OF assms(1)]) (auto simp: node_bounded_def intro: cache_bounded_ops(4))
next
  case (StoreReachable i b)
  show ?thesis unfolding StoreReachable cluster_exec.simps snd_conv by (rule on_node_nodes [OF assms(1)]) simp
next
  case (BrokerReachable i b)
  show ?thesis unfolding BrokerReachable cluster_exec.simps snd_conv by (rule on_node_nodes [OF assms(1)]) simp
next
  case (Sweep i)
  show ?thesis unfolding Sweep cluster_exec.simps snd_conv
    by (rule on_node_nodes [OF assms(1)]) (simp add: node_bounded_def sweep_def janitor_tick_props)
qed

lemma reach_bounded:
  assumes "reach g (run_setup g wt cx) (cluster_start (run_setup g wt cx) st clocks) ops c"
    and "0 < g_cache_duration g" and "\<forall>t\<in>set clocks. 0 \<le> t"
  shows "\<forall>n\<in>set (cl_nodes c). node_bounded (g_cache_duration g) n"
  using assms(1)
proof (induction rule: reach.induct)
  case reach_start
  show ?case using assms(2,3) by (auto simp: cluster_start_def node_bounded_def)
next
  case (reach_step ops c op)
  show ?case by (rule cluster_exec_bounded [OF reach_step.IH assms(2)])
qed

section \<open>Writes and deliveries on two instances\<close>

text \<open>
  A \<open>set\<close> or \<open>del\<close> served by an instance that reaches the store and the broker:
  the store takes the change, the instance's cache follows it, and the event goes on
  the channel after the events already there.
\<close>

lemma cluster_set_ok:
  assumes "ss_name ss = rpc_service_name" and "k \<noteq> []" and "i < length (cl_nodes c)"
    and "nd_store_up (cl_nodes c ! i)" and "nd_publish_ok (cl_nodes c ! i)"
  shows "snd (cluster_exec g ss (CliSet i [k, v] t) c) =
    \<lparr>cl_store = (cl_store c)(key_of (g_namespace g) k \<mapsto> cli_value v t),
     cl_nodes = (cl_nodes c)[i := (cl_nodes c ! i)\<lparr>nd_store := (cl_store c)(key_of (g_namespace g) k \<mapsto> cli_value v t),
        nd_cache := cache_set (key_of (g_namespace g) k) (cli_value v t) (nd_clock (cl_nodes c ! i)) (nd_cache (cl_nodes c ! i)),
        nd_published := []\<rparr>],
     cl_channel = cl_channel c @ [(nd_topic (cl_nodes c ! i),
        \<lparr>ev_key = key_of (g_namespace g) k, ev_payload = Value (cli_value v t), ev_origin_ts = t\<rparr>)]\<rparr>"
  using assms by (simp add: run_on_def cli_ctx_def set_config_ok)

lemma cluster_del_ok:
  assumes "ss_name ss = rpc_service_name" and "k \<noteq> []" and "i < length (cl_nodes c)"
    and "nd_store_up (cl_nodes c ! i)" and "nd_publish_ok (cl_nodes c ! i)"
  shows "snd (cluster_exec g ss (CliDel i [k]) c) =
    \<lparr>cl_store = (cl_store c)(key_of (g_namespace g) k := None),
     cl_nodes = (cl_nodes c)[i := (cl_nodes c ! i)\<lparr>nd_store := (cl_store c)(key_of (g_namespace g) k := None),
        nd_cache := cache_delete (key_of (g_namespace g) k) (nd_cache (cl_nodes c ! i)),
        nd_published := []\<rparr>],
     cl_channel = cl_channel c @ [(nd_topic (cl_nodes c ! i),
        \<lparr>ev_key = key_of (g_namespace g) k, ev_payload = Tombstone,
         ev_origin_ts = nd_clock (cl_nodes c ! i) div 1000000000\<rparr>)]\<rparr>"
  using assms by (simp add: run_on_def cli_ctx_def del_config_ok)

text \<open>
  An instance that cached its own write \<open>v\<close> (timestamp \<open>t\<close>) and then receives
  another instance's write \<open>w\<close> (timestamp \<open>t'\<close>) of the same key keeps the strictly
  newer of the two, its own on a tie.
\<close>

lemma deliver_after_own_write:
  assumes "cache_wf (nd_cache n)" and "int64_ok (nd_clock n)"
  shows "cache_get key (nd_clock n) (nd_cache (deliver (nd_topic n)
           \<lparr>ev_key = key, ev_payload = Value (cli_value w t'), ev_origin_ts = t'\<rparr>
           (n\<lparr>nd_store := st, nd_cache := cache_set key (cli_value v t) (nd_clock n) (nd_cache n), nd_published := p\<rparr>))) =
         Some (if t < t' then cli_value w t' else cli_value v t)"
  using assms by (simp add: deliver_def core_apply_def cache_set_fresh cache_set_twice cli_value_def)

section \<open>Properties of every reachable deployment\<close>

text \<open>
  C25.  No value from nowhere: in every deployment started by \<open>Run\<close> on a store
  \<open>st\<close>, after any trace of operations (writes, deletes, reads, redeliveries in any
  order and number, time passing, store and broker outages), a \<open>get\<close> that returns
  normally prints the payload of a value that was in \<open>st\<close> at start-up or was sent
  by one of the trace's \<open>set\<close> commands.
\<close>

theorem cluster_get_prints_written:
  assumes "reach g (run_setup g wt cx) (cluster_start (run_setup g wt cx) st clocks) ops c"
    and "fst (cluster_exec g (run_setup g wt cx) (CliGet i args) c) = Some out"
    and "out_status out = Returned"
  shows "\<exists>v \<in> ran st \<union> set (sent_values ops). out_stdout out = [cs_data v]"
proof -
  let ?n = "(cl_nodes c ! i)\<lparr>nd_store := cl_store c, nd_published := []\<rparr>"
  have i: "i < length (cl_nodes c)"
    and out: "out = fst (get_config (deployed (run_setup g wt cx)) g (cli_ctx args) ?n)"
    using run_on_out assms(2) by auto
  obtain v where v: "v \<in> ran (nd_store ?n) \<union> cache_values (nd_cache ?n)" and "out_stdout out = [cs_data v]"
    using get_config_printed assms(3) out by metis
  moreover have "ran (nd_store ?n) \<union> cache_values (nd_cache ?n) \<subseteq> cluster_values c"
    using nth_mem [OF i] by (auto simp: cluster_values_def)
  moreover have "cluster_values c \<subseteq> ran st \<union> set (sent_values ops)"
    using reach_values [OF assms(1)] by (simp add: cluster_start_values)
  ultimately show ?thesis by blast
qed

theorem cluster_get_prints_written_witness:
  "\<exists>v \<in> ran (Map.empty :: store) \<union> set (sent_values [CliSet 0 [''k'', ''v''] 100, Redeliver 1 0]).
     out_stdout \<lparr>out_stdout = [''v''], out_log = [], out_status = Returned\<rparr> = [cs_data v]"
proof -
  have r: "reach initial_globals (run_setup initial_globals ''t'' (cli_ctx []))
          (cluster_start (run_setup initial_globals ''t'' (cli_ctx [])) Map.empty [0, 0])
          [CliSet 0 [''k'', ''v''] 100, Redeliver 1 0]
          (cluster_run initial_globals (run_setup initial_globals ''t'' (cli_ctx [])) [CliSet 0 [''k'', ''v''] 100, Redeliver 1 0]
             (cluster_start (run_setup initial_globals ''t'' (cli_ctx [])) Map.empty [0, 0]))"
    by (simp add: reach_run)
  have o: "fst (cluster_exec initial_globals (run_setup initial_globals ''t'' (cli_ctx [])) (CliGet 1 [''k''])
          (cluster_run initial_globals (run_setup initial_globals ''t'' (cli_ctx [])) [CliSet 0 [''k'', ''v''] 100, Redeliver 1 0]
             (cluster_start (run_setup initial_globals ''t'' (cli_ctx [])) Map.empty [0, 0]))) =
        Some \<lparr>out_stdout = [''v''], out_log = [], out_status = Returned\<rparr>"
    by (simp add: cluster_run_def cluster_start_def run_on_def cli_ctx_def set_config_ok initial_globals_def
        rpc_service_name_def get_config_hit cli_read_outcome_def blank_payload_def cli_value_def deliver_def
        core_apply_def cache_get_def cache_set_def cache_set_d_def cache_new_def item_expired_def Let_def
        no_expiration_def default_expiration_def)
  show ?thesis using cluster_get_prints_written [OF r o] by simp
qed

text \<open>
  C26.  Refinement of the abstract key/value store: as long as every instance reaches
  the store, the shared store after any trace is the abstract map obtained by applying,
  in trace order, each \<open>set\<close> and \<open>del\<close> of a valid key on an existing instance;
  redelivery, reads, time and broker outages never change it (spec 4.4 step 3).
\<close>

theorem cluster_store_refines_kv:
  assumes "ss_name ss = rpc_service_name" and "reach g ss (cluster_start ss st clocks) ops c"
    and "\<not> list_ex disconnects_store ops"
  shows "cl_store c = foldl (kv_step g (length clocks)) st ops"
proof -
  have "cl_store c = foldl (kv_step g (length clocks)) st ops \<and> length (cl_nodes c) = length clocks
        \<and> (\<forall>n\<in>set (cl_nodes c). nd_store_up n)"
    using assms(2,3)
  proof (induction rule: reach.induct)
    case reach_start
    then show ?case by (simp add: cluster_start_def)
  next
    case (reach_step ops c op)
    then show ?case using cluster_exec_store_up [of c op g ss] by (simp add: cluster_exec_store [OF assms(1)])
  qed
  then show ?thesis ..
qed

theorem cluster_store_refines_kv_witness:
  "cl_store (cluster_run initial_globals (run_setup initial_globals ''t'' (cli_ctx []))
      [CliSet 0 [''k'', ''v''] 100, Redeliver 1 0, CliGet 1 [''k''], CliDel 1 [''k'']]
      (cluster_start (run_setup initial_globals ''t'' (cli_ctx [])) Map.empty [0, 0])) =
   foldl (kv_step initial_globals (length [0, 0 :: int])) Map.empty
      [CliSet 0 [''k'', ''v''] 100, Redeliver 1 0, CliGet 1 [''k''], CliDel 1 [''k'']]"
  by (rule cluster_store_refines_kv)
    (simp_all add: reach_run initial_globals_def rpc_service_name_def cli_ctx_def)

text \<open>
  C27.  Invariant of every reachable deployment whose cache duration is an \<open>int64\<close>:
  every instance listens on the topic \<open>Run\<close> chose with a well-formed cache, and every
  event on the topic was published there, carries its value's own timestamp and names a
  valid key.
\<close>

theorem cluster_reach_wf:
  assumes "reach g (run_setup g wt cx) (cluster_start (run_setup g wt cx) st clocks) ops c"
    and "int64_ok (g_cache_duration g)"
  shows "cluster_wf (run_setup g wt cx) c"
  using assms(1)
proof (induction rule: reach.induct)
  case reach_start
  then show ?case using assms(2) by (simp add: cluster_start_wf cache_new_wf)
next
  case (reach_step ops c op)
  show ?case by (rule cluster_exec_wf [OF reach_step.IH])
qed

theorem cluster_reach_wf_witness:
  "cluster_wf (run_setup initial_globals ''t'' (cli_ctx []))
     (cluster_run initial_globals (run_setup initial_globals ''t'' (cli_ctx []))
        [CliSet 0 [''k'', ''v''] 100, CliDel 1 [''k'']]
        (cluster_start (run_setup initial_globals ''t'' (cli_ctx [])) Map.empty [0, 0]))"
  by (rule cluster_reach_wf) (simp_all add: reach_run initial_globals_def int64_ok_def int64_min_def int64_max_def)

text \<open>
  C28.  Duplicate delivery is harmless: delivering an event a second time right after the
  first leaves the deployment as one delivery did (spec 4.4, idempotence).
\<close>

theorem cluster_redeliver_idempotent:
  "snd (cluster_exec g ss (Redeliver i j) (snd (cluster_exec g ss (Redeliver i j) cl))) =
   snd (cluster_exec g ss (Redeliver i j) cl)"
  by (simp add: on_node_twice deliver_twice)


text \<open>
  C31.  Progress of a lagging instance: once the broker delivers to an instance a
  published value event for a key that the instance caches with an older timestamp or
  not at all, \<open>get\<close> on that instance prints the new value, without consulting the store.
\<close>

theorem cluster_redeliver_serves_value:
  assumes "ss_name ss = rpc_service_name" and "i < length (cl_nodes c)" and "j < length (cl_channel c)"
    and "cl_channel c ! j = (nd_topic (cl_nodes c ! i), ev)"
    and "ev_payload ev = Value v" and "ev_key ev = key_of (g_namespace g) k" and "k \<noteq> []"
    and "\<not> blank_payload (cs_data v)"
    and "cache_wf (nd_cache (cl_nodes c ! i))" and "int64_ok (nd_clock (cl_nodes c ! i))"
    and "\<forall>cur. cache_get (ev_key ev) (nd_clock (cl_nodes c ! i)) (nd_cache (cl_nodes c ! i)) = Some cur
              \<longrightarrow> cs_timestamp cur < ev_origin_ts ev"
  shows "fst (cluster_exec g ss (CliGet i [k]) (snd (cluster_exec g ss (Redeliver i j) c))) =
           Some \<lparr>out_stdout = [cs_data v], out_log = [], out_status = Returned\<rparr>"
proof -
  let ?n = "cl_nodes c ! i"
  let ?c' = "cache_set (ev_key ev) v (nd_clock ?n) (nd_cache ?n)"
  have applied: "core_apply (nd_clock ?n) (nd_cache ?n) ev = ?c'"
    using assms(5,11) by (auto simp: core_apply_def split: option.splits)
  have hit: "cache_get (ev_key ev) (nd_clock ?n) ?c' = Some v"
    using assms(9,10) by (simp add: cache_set_fresh)
  have delivered: "snd (cluster_exec g ss (Redeliver i j) c) = on_node i (\<lambda>n. n\<lparr>nd_cache := ?c'\<rparr>) c"
    using assms(3,4) applied by (simp add: on_node_def deliver_def)
  let ?m = "(?n\<lparr>nd_cache := ?c'\<rparr>)\<lparr>nd_store := cl_store c, nd_published := []\<rparr>"
  have "get_config (deployed ss) g (cli_ctx [k]) ?m = (cli_read_outcome (Inr v), ?m)"
    unfolding cli_ctx_def using assms(6) hit by (intro get_config_hit [OF assms(1,7)]) simp
  then show ?thesis
    using assms(2,8) delivered by (simp add: run_on_def cli_read_outcome_def)
qed


theorem cluster_redeliver_serves_value_witness:
  "fst (cluster_exec initial_globals (run_setup initial_globals ''t'' (cli_ctx [])) (CliGet 1 [''k''])
     (snd (cluster_exec initial_globals (run_setup initial_globals ''t'' (cli_ctx [])) (Redeliver 1 0)
        (cluster_run initial_globals (run_setup initial_globals ''t'' (cli_ctx [])) [CliSet 0 [''k'', ''v''] 100]
           (cluster_start (run_setup initial_globals ''t'' (cli_ctx [])) Map.empty [0, 0]))))) =
   Some \<lparr>out_stdout = [cs_data (cli_value ''v'' 100)], out_log = [], out_status = Returned\<rparr>"
  by (rule cluster_redeliver_serves_value
      [where ev = "\<lparr>ev_key = (''global'', ''k''), ev_payload = Value (cli_value ''v'' 100), ev_origin_ts = 100\<rparr>"
         and k = "''k''"])
    (simp_all add: cluster_run_def cluster_start_def run_on_def cli_ctx_def set_config_ok initial_globals_def
      rpc_service_name_def cli_value_def blank_payload_def key_of_def global_namespace_def cache_new_wf
      cache_get_new)


text \<open>
  C35.  The janitor is unobservable: a \<open>get\<close> on an instance prints the same whether or
  not the instance's janitor has just swept its cache; sweeping only removes entries
  that \<open>Get\<close> already treats as absent (spec section 3: the cache is a performance
  optimisation only).
\<close>

theorem cluster_sweep_unobservable:
  "fst (cluster_exec g ss (CliGet i args) (snd (cluster_exec g ss (Sweep i) cl))) =
   fst (cluster_exec g ss (CliGet i args) cl)"
proof (cases "i < length (cl_nodes cl)")
  case True
  let ?m = "cl_nodes cl ! i"
  let ?n = "?m\<lparr>nd_store := cl_store cl, nd_published := []\<rparr>"
  have swept: "(sweep ?m)\<lparr>nd_store := cl_store cl, nd_published := []\<rparr> =
               ?n\<lparr>nd_cache := janitor_tick (nd_clock ?n) (nd_cache ?n)\<rparr>"
    by (cases ?m) (simp add: sweep_def)
  have view: "fst (get_config (deployed ss) g (cli_ctx args) (?n\<lparr>nd_cache := janitor_tick (nd_clock ?n) (nd_cache ?n)\<rparr>)) =
        fst (get_config (deployed ss) g (cli_ctx args) ?n)"
    by (rule get_config_cache_view) (simp add: janitor_invisible)
  have "fst (cluster_exec g ss (CliGet i args) (snd (cluster_exec g ss (Sweep i) cl))) =
        Some (fst (get_config (deployed ss) g (cli_ctx args) ((sweep ?m)\<lparr>nd_store := cl_store cl, nd_published := []\<rparr>)))"
    using True by (simp add: run_on_fst on_node_def)
  also have "\<dots> = Some (fst (get_config (deployed ss) g (cli_ctx args) ?n))"
    by (simp only: swept view)
  also have "\<dots> = fst (cluster_exec g ss (CliGet i args) cl)"
    using True by (simp add: run_on_fst)
  finally show ?thesis .
qed (simp add: run_on_def on_node_def not_less list_update_beyond)


text \<open>
  C39.  Writes during a store outage: a \<open>set\<close> or \<open>del\<close> served by an instance that
  cannot reach the store leaves the shared store unchanged (the client prints the
  error and exits with status 1); every other operation changes it as the abstract
  key/value map does.
\<close>

theorem cluster_write_store_outage:
  assumes "ss_name ss = rpc_service_name"
  shows "cl_store (snd (cluster_exec g ss op cl)) =
           (if write_reaches_store cl op then kv_step g (length (cl_nodes cl)) (cl_store cl) op else cl_store cl)"
proof (cases op)
  case (CliSet i args now)
  then show ?thesis
    using run_on_write_store(1) [OF assms] by (cases "i < length (cl_nodes cl)") (simp_all add: run_on_store)
next
  case (CliGet i args)
  then show ?thesis
    by (cases "i < length (cl_nodes cl)") (simp_all add: run_on_store get_config_state core_store)
next
  case (CliDel i args)
  then show ?thesis
    using run_on_write_store(2) [OF assms] by (cases "i < length (cl_nodes cl)") (simp_all add: run_on_store)
qed simp_all

theorem cluster_write_store_outage_witness:
  "cl_store (snd (cluster_exec initial_globals (run_setup initial_globals ''t'' (cli_ctx [])) (CliSet 0 [''k'', ''v''] 100)
     (snd (cluster_exec initial_globals (run_setup initial_globals ''t'' (cli_ctx [])) (StoreReachable 0 False)
        (cluster_start (run_setup initial_globals ''t'' (cli_ctx [])) Map.empty [0]))))) =
   (if write_reaches_store (snd (cluster_exec initial_globals (run_setup initial_globals ''t'' (cli_ctx [])) (StoreReachable 0 False)
        (cluster_start (run_setup initial_globals ''t'' (cli_ctx [])) Map.empty [0]))) (CliSet 0 [''k'', ''v''] 100)
    then kv_step initial_globals (length (cl_nodes (snd (cluster_exec initial_globals (run_setup initial_globals ''t'' (cli_ctx []))
        (StoreReachable 0 False) (cluster_start (run_setup initial_globals ''t'' (cli_ctx [])) Map.empty [0])))))
        (cl_store (snd (cluster_exec initial_globals (run_setup initial_globals ''t'' (cli_ctx [])) (StoreReachable 0 False)
           (cluster_start (run_setup initial_globals ''t'' (cli_ctx [])) Map.empty [0])))) (CliSet 0 [''k'', ''v''] 100)
    else cl_store (snd (cluster_exec initial_globals (run_setup initial_globals ''t'' (cli_ctx [])) (StoreReachable 0 False)
        (cluster_start (run_setup initial_globals ''t'' (cli_ctx [])) Map.empty [0]))))"
  by (rule cluster_write_store_outage) (simp add: initial_globals_def rpc_service_name_def cli_ctx_def)

text \<open>
  C30.  Bounded staleness: in every deployment started by \<open>Run\<close> with a positive
  \<open>--cache_duration\<close> \<open>d\<close>, on clocks after the epoch, after any trace, once an
  instance's clock has moved on by more than \<open>d\<close>, \<open>get\<close> on that instance answers
  exactly what the shared store holds, whatever the instance cached and whichever
  events it missed, as long as its clock plus \<open>d\<close> stays within \<open>int64\<close> (C22).
\<close>

theorem cluster_staleness_bounded:
  assumes "reach g (run_setup g wt cx) (cluster_start (run_setup g wt cx) st clocks) ops c"
    and "ss_name (run_setup g wt cx) = rpc_service_name" and "0 < g_cache_duration g"
    and "\<forall>t\<in>set clocks. 0 \<le> t" and "i < length (cl_nodes c)" and "nd_store_up (cl_nodes c ! i)"
    and "k \<noteq> []" and "nd_clock (cl_nodes c ! i) + g_cache_duration g \<le> int64_max"
  shows "fst (cluster_exec g (run_setup g wt cx) (CliGet i [k])
            (snd (cluster_exec g (run_setup g wt cx) (Elapse i (nat (g_cache_duration g) + 1)) c))) =
         Some (cli_read_outcome (store_answer (cl_store c) (key_of (g_namespace g) k)))"
proof -
  let ?n = "cl_nodes c ! i"
  let ?m = "(tick (int (nat (g_cache_duration g) + 1)) ?n)\<lparr>nd_store := cl_store c, nd_published := []\<rparr>"
  have "node_bounded (g_cache_duration g) ?n"
    using reach_bounded [OF assms(1,3,4)] assms(5) by simp
  then have "cache_bounded (g_cache_duration g) (nd_clock ?n) (nd_cache ?n)"
    by (simp add: node_bounded_def)
  then have "cache_get (key_of (g_namespace g) k) (nd_clock ?m) (nd_cache ?m) = None"
    using assms(3) by (intro cache_bounded_expired [OF _ assms(8)]) simp_all
  then have "fst (get_config (deployed (run_setup g wt cx)) g (cli_ctx [k]) ?m) =
               cli_read_outcome (store_answer (cl_store c) (key_of (g_namespace g) k))"
    unfolding cli_ctx_def using assms(6) by (subst get_config_miss [OF assms(2,7)]) simp_all
  then show ?thesis
    using assms(5) by (simp add: run_on_fst on_node_def)
qed

theorem cluster_staleness_bounded_witness:
  "fst (cluster_exec (initial_globals\<lparr>g_cache_duration := 5 * minute\<rparr>)
          (run_setup (initial_globals\<lparr>g_cache_duration := 5 * minute\<rparr>) ''t'' (cli_ctx [])) (CliGet 0 [''k''])
     (snd (cluster_exec (initial_globals\<lparr>g_cache_duration := 5 * minute\<rparr>)
          (run_setup (initial_globals\<lparr>g_cache_duration := 5 * minute\<rparr>) ''t'' (cli_ctx []))
          (Elapse 0 (nat (g_cache_duration (initial_globals\<lparr>g_cache_duration := 5 * minute\<rparr>)) + 1))
        (cluster_run (initial_globals\<lparr>g_cache_duration := 5 * minute\<rparr>)
          (run_setup (initial_globals\<lparr>g_cache_duration := 5 * minute\<rparr>) ''t'' (cli_ctx []))
          [CliSet 0 [''k'', ''a''] 100, CliSet 1 [''k'', ''b''] 101]
          (cluster_start (run_setup (initial_globals\<lparr>g_cache_duration := 5 * minute\<rparr>) ''t'' (cli_ctx []))
             Map.empty [0, 0]))))) =
   Some (cli_read_outcome (store_answer
     (cl_store (cluster_run (initial_globals\<lparr>g_cache_duration := 5 * minute\<rparr>)
          (run_setup (initial_globals\<lparr>g_cache_duration := 5 * minute\<rparr>) ''t'' (cli_ctx []))
          [CliSet 0 [''k'', ''a''] 100, CliSet 1 [''k'', ''b''] 101]
          (cluster_start (run_setup (initial_globals\<lparr>g_cache_duration := 5 * minute\<rparr>) ''t'' (cli_ctx []))
             Map.empty [0, 0])))
     (key_of (g_namespace (initial_globals\<lparr>g_cache_duration := 5 * minute\<rparr>)) ''k'')))"
  by (rule cluster_staleness_bounded [where st = Map.empty and clocks = "[0, 0]"
        and ops = "[CliSet 0 [''k'', ''a''] 100, CliSet 1 [''k'', ''b''] 101]"])
    (simp_all add: reach_run cluster_run_def cluster_start_def run_on_def cli_ctx_def set_config_ok
      initial_globals_def rpc_service_name_def minute_def int64_max_def)

text \<open>
  C38.  Two writes of one key on two instances: after \<open>set k a\<close> with timestamp
  \<open>t1\<close> on instance \<open>i\<close>, \<open>set k b\<close> with timestamp \<open>t2\<close> on instance \<open>j\<close>, and
  delivery of each write's event to the other instance, the store holds \<open>b\<close>, the
  write that reached it last, while each instance prints the write with the strictly
  newer timestamp and its own write on a tie.  As \<open>setConfig\<close> stamps changes with
  \<open>time.Now().Unix()\<close> in whole seconds, two writes in the same second leave \<open>i\<close>
  printing \<open>a\<close> and \<open>j\<close> printing \<open>b\<close> until their entries expire; writes in
  different seconds converge on the later stamp, which need not be the store's value
  when the second client's clock is behind.
\<close>

theorem cluster_concurrent_writes:
  assumes "ss_name ss = rpc_service_name" and "k \<noteq> []" and "\<not> blank_payload a" and "\<not> blank_payload b"
    and "i < length (cl_nodes c)" and "j < length (cl_nodes c)" and "i \<noteq> j"
    and "nd_topic (cl_nodes c ! i) = nd_topic (cl_nodes c ! j)"
    and "nd_store_up (cl_nodes c ! i)" and "nd_publish_ok (cl_nodes c ! i)"
    and "nd_store_up (cl_nodes c ! j)" and "nd_publish_ok (cl_nodes c ! j)"
    and "cache_wf (nd_cache (cl_nodes c ! i))" and "int64_ok (nd_clock (cl_nodes c ! i))"
    and "cache_wf (nd_cache (cl_nodes c ! j))" and "int64_ok (nd_clock (cl_nodes c ! j))"
  shows "let c' = cluster_run g ss [CliSet i [k, a] t1, CliSet j [k, b] t2,
                    Redeliver i (length (cl_channel c) + 1), Redeliver j (length (cl_channel c))] c
         in cl_store c' (key_of (g_namespace g) k) = Some (cli_value b t2)
            \<and> fst (cluster_exec g ss (CliGet i [k]) c') =
                Some \<lparr>out_stdout = [if t1 < t2 then b else a], out_log = [], out_status = Returned\<rparr>
            \<and> fst (cluster_exec g ss (CliGet j [k]) c') =
                Some \<lparr>out_stdout = [if t2 < t1 then a else b], out_log = [], out_status = Returned\<rparr>"
proof -
  let ?key = "key_of (g_namespace g) k"
  let ?c1 = "snd (cluster_exec g ss (CliSet i [k, a] t1) c)"
  let ?c2 = "snd (cluster_exec g ss (CliSet j [k, b] t2) ?c1)"
  have c1: "?c1 = \<lparr>cl_store = (cl_store c)(?key \<mapsto> cli_value a t1),
     cl_nodes = (cl_nodes c)[i := (cl_nodes c ! i)\<lparr>nd_store := (cl_store c)(?key \<mapsto> cli_value a t1),
        nd_cache := cache_set ?key (cli_value a t1) (nd_clock (cl_nodes c ! i)) (nd_cache (cl_nodes c ! i)),
        nd_published := []\<rparr>],
     cl_channel = cl_channel c @ [(nd_topic (cl_nodes c ! i),
        \<lparr>ev_key = ?key, ev_payload = Value (cli_value a t1), ev_origin_ts = t1\<rparr>)]\<rparr>"
    by (rule cluster_set_ok [OF assms(1,2,5,9,10)])
  have c2: "?c2 = \<lparr>cl_store = (cl_store ?c1)(?key \<mapsto> cli_value b t2),
     cl_nodes = (cl_nodes ?c1)[j := (cl_nodes ?c1 ! j)\<lparr>nd_store := (cl_store ?c1)(?key \<mapsto> cli_value b t2),
        nd_cache := cache_set ?key (cli_value b t2) (nd_clock (cl_nodes ?c1 ! j)) (nd_cache (cl_nodes ?c1 ! j)),
        nd_published := []\<rparr>],
     cl_channel = cl_channel ?c1 @ [(nd_topic (cl_nodes ?c1 ! j),
        \<lparr>ev_key = ?key, ev_payload = Value (cli_value b t2), ev_origin_ts = t2\<rparr>)]\<rparr>"
    by (rule cluster_set_ok [OF assms(1,2)]) (simp_all del: cluster_exec.simps add: c1 assms(6,7,11,12))
  have get_i: "cache_get ?key (nd_clock (cl_nodes c ! i)) (nd_cache (deliver (nd_topic (cl_nodes c ! i))
           \<lparr>ev_key = ?key, ev_payload = Value (cli_value b t2), ev_origin_ts = t2\<rparr>
           ((cl_nodes c ! i)\<lparr>nd_store := st, nd_cache := cache_set ?key (cli_value a t1) (nd_clock (cl_nodes c ! i))
              (nd_cache (cl_nodes c ! i)), nd_published := p\<rparr>))) =
         Some (if t1 < t2 then cli_value b t2 else cli_value a t1)" for st p
    by (rule deliver_after_own_write [OF assms(13,14)])
  have get_j: "cache_get ?key (nd_clock (cl_nodes c ! j)) (nd_cache (deliver (nd_topic (cl_nodes c ! j))
           \<lparr>ev_key = ?key, ev_payload = Value (cli_value a t1), ev_origin_ts = t1\<rparr>
           ((cl_nodes c ! j)\<lparr>nd_store := st, nd_cache := cache_set ?key (cli_value b t2) (nd_clock (cl_nodes c ! j))
              (nd_cache (cl_nodes c ! j)), nd_published := p\<rparr>))) =
         Some (if t2 < t1 then cli_value a t1 else cli_value b t2)" for st p
    by (rule deliver_after_own_write [OF assms(15,16)])
  show ?thesis
    unfolding Let_def cluster_run_def foldl.simps unfolding c2 unfolding c1 using assms(5-7)
    by (simp add: nth_append on_node_def run_on_fst cli_ctx_def assms(8)
        get_config_hit [OF assms(1,2)] get_i [unfolded assms(8)] get_j cli_read_value assms(3,4)
        del: deliver_simps)
qed

theorem cluster_concurrent_writes_witness:
  "let c' = cluster_run initial_globals (run_setup initial_globals ''t'' (cli_ctx []))
              [CliSet 0 [''k'', ''a''] 100, CliSet 1 [''k'', ''b''] 100,
               Redeliver 0 (length (cl_channel (cluster_start (run_setup initial_globals ''t'' (cli_ctx [])) Map.empty [0, 0])) + 1),
               Redeliver 1 (length (cl_channel (cluster_start (run_setup initial_globals ''t'' (cli_ctx [])) Map.empty [0, 0])))]
              (cluster_start (run_setup initial_globals ''t'' (cli_ctx [])) Map.empty [0, 0])
   in cl_store c' (key_of (g_namespace initial_globals) ''k'') = Some (cli_value ''b'' 100)
      \<and> fst (cluster_exec initial_globals (run_setup initial_globals ''t'' (cli_ctx [])) (CliGet 0 [''k'']) c') =
          Some \<lparr>out_stdout = [if (100::int) < 100 then ''b'' else ''a''], out_log = [], out_status = Returned\<rparr>
      \<and> fst (cluster_exec initial_globals (run_setup initial_globals ''t'' (cli_ctx [])) (CliGet 1 [''k'']) c') =
          Some \<lparr>out_stdout = [if (100::int) < 100 then ''a'' else ''b''], out_log = [], out_status = Returned\<rparr>"
  by (rule cluster_concurrent_writes)
    (simp_all add: cluster_start_def initial_globals_def rpc_service_name_def cli_ctx_def blank_payload_def cache_new_wf)

text \<open>
  C18.  A delete reaches another instance only through its tombstone: after \<open>del k\<close>
  on instance \<open>j\<close>, an instance \<open>i\<close> that caches a value for \<open>k\<close> still prints it
  although the store no longer holds \<open>k\<close>; once the broker delivers the tombstone to
  \<open>i\<close>, \<open>get k\<close> on \<open>i\<close> prints \<open>not found\<close>.
\<close>

theorem cluster_delete_propagates:
  assumes "ss_name ss = rpc_service_name" and "k \<noteq> []" and "i < length (cl_nodes c)"
    and "j < length (cl_nodes c)" and "i \<noteq> j" and "nd_topic (cl_nodes c ! i) = nd_topic (cl_nodes c ! j)"
    and "nd_store_up (cl_nodes c ! i)" and "nd_store_up (cl_nodes c ! j)" and "nd_publish_ok (cl_nodes c ! j)"
    and "cache_get (key_of (g_namespace g) k) (nd_clock (cl_nodes c ! i)) (nd_cache (cl_nodes c ! i)) = Some v"
    and "\<not> blank_payload (cs_data v)"
  shows "let c1 = snd (cluster_exec g ss (CliDel j [k]) c)
         in cl_store c1 (key_of (g_namespace g) k) = None
            \<and> fst (cluster_exec g ss (CliGet i [k]) c1) =
                Some \<lparr>out_stdout = [cs_data v], out_log = [], out_status = Returned\<rparr>
            \<and> fst (cluster_exec g ss (CliGet i [k]) (snd (cluster_exec g ss (Redeliver i (length (cl_channel c))) c1))) =
                Some (println_exit ''not found'')"
proof -
  let ?key = "key_of (g_namespace g) k"
  have c1: "snd (cluster_exec g ss (CliDel j [k]) c) =
    \<lparr>cl_store = (cl_store c)(?key := None),
     cl_nodes = (cl_nodes c)[j := (cl_nodes c ! j)\<lparr>nd_store := (cl_store c)(?key := None),
        nd_cache := cache_delete ?key (nd_cache (cl_nodes c ! j)), nd_published := []\<rparr>],
     cl_channel = cl_channel c @ [(nd_topic (cl_nodes c ! j),
        \<lparr>ev_key = ?key, ev_payload = Tombstone, ev_origin_ts = nd_clock (cl_nodes c ! j) div 1000000000\<rparr>)]\<rparr>"
    by (rule cluster_del_ok [OF assms(1,2,4,8,9)])
  have evicted: "cache_get ?key t (core_apply now C \<lparr>ev_key = ?key, ev_payload = Tombstone, ev_origin_ts = ts\<rparr>) = None"
    for t now C ts
    by (simp add: apply_tombstone)
  show ?thesis
    unfolding Let_def c1 using assms(3-5,7,10,11)
    by (simp add: assms(6) [symmetric] nth_append on_node_def run_on_fst cli_ctx_def get_config_hit [OF assms(1,2)]
        get_config_miss [OF assms(1,2)] cli_read_value evicted store_answer_def cli_read_outcome_def)
qed

theorem cluster_delete_propagates_witness:
  "let c1 = snd (cluster_exec initial_globals (run_setup initial_globals ''t'' (cli_ctx [])) (CliDel 1 [''k''])
              (cluster_run initial_globals (run_setup initial_globals ''t'' (cli_ctx [])) [CliSet 0 [''k'', ''v''] 100]
                 (cluster_start (run_setup initial_globals ''t'' (cli_ctx [])) Map.empty [0, 0])))
   in cl_store c1 (key_of (g_namespace initial_globals) ''k'') = None
      \<and> fst (cluster_exec initial_globals (run_setup initial_globals ''t'' (cli_ctx [])) (CliGet 0 [''k'']) c1) =
          Some \<lparr>out_stdout = [cs_data (cli_value ''v'' 100)], out_log = [], out_status = Returned\<rparr>
      \<and> fst (cluster_exec initial_globals (run_setup initial_globals ''t'' (cli_ctx [])) (CliGet 0 [''k''])
          (snd (cluster_exec initial_globals (run_setup initial_globals ''t'' (cli_ctx []))
             (Redeliver 0 (length (cl_channel (cluster_run initial_globals (run_setup initial_globals ''t'' (cli_ctx []))
                [CliSet 0 [''k'', ''v''] 100] (cluster_start (run_setup initial_globals ''t'' (cli_ctx [])) Map.empty [0, 0])))))
             c1))) =
          Some (println_exit ''not found'')"
  by (rule cluster_delete_propagates)
    (simp_all add: cluster_run_def cluster_start_def run_on_def cli_ctx_def set_config_ok initial_globals_def
      rpc_service_name_def cli_value_def blank_payload_def key_of_def global_namespace_def cache_new_wf cache_set_fresh)

end
