(* ===== verification/Spec2Isabelle.thy ===== *)
theory Spec2Isabelle
  imports Cluster
begin

text \<open>
  A verification development of the configuration service of \<open>micro\<close>,
  \<open>src/service/rtss_config/config.go\<close>, and of the coherent caching layer it wires
  together.

  \<^bold>\<open>The program.\<close>  \<open>config.go\<close> has three parts.  (1) The package variables
  (lines 25-39) and \<open>Commands\<close> (lines 204-294): the \<open>config\<close> command with its
  seven flags, the \<open>set\<close>, \<open>get\<close> and \<open>del\<close> subcommands and the plugin loop.
  (2) The client subcommands \<open>setConfig\<close>, \<open>getConfig\<close>, \<open>delConfig\<close> (lines
  77-202).  Each builds a \<open>proto.ConfigService\<close> client for the fixed name
  \<open>go.micro.rtss_config\<close> and makes one RPC.  It then prints the answer or an error and
  exits.  (3) \<open>Run\<close> (lines 41-75) starts the service.  It registers the Config Core
  handler (a go-cache in front of a mongo store) under \<open>server_name\<close> or \<open>Name\<close>.  It
  subscribes the handler's \<open>Watcher\<close> to the watch topic.  The handler, the proto
  package, go-cache, the store and the broker are not among the sources.  They are
  modelled from the spec (sections 3-7) and from the fields \<open>config.go\<close> uses.

  \<^bold>\<open>Theories.\<close>
  \<^item> \<open>Prelude\<close>: the \<open>int64\<close> arithmetic with its wrap-around (\<open>int64_add\<close>), Go's
    \<open>strings.ToLower\<close> and \<open>strings.Contains\<close> (\<open>go_to_lower\<close>, \<open>go_contains\<close>,
    shown equal to \<open>sublist\<close>), Go's \<open>fmt.Sprintf\<close> for the verbs the logger calls
    use (\<open>go_sprintf\<close>, with the \<open>MISSING\<close> and \<open>EXTRA\<close> markers), and a generic theorem \<open>foldl_set_determined\<close>.  It
    says that a fold of commuting, idempotent steps depends only on the set of steps.
  \<^item> \<open>Proto\<close>: \<open>change_set\<close>, \<open>change\<close>, read requests and responses, change events, and
    the error taxonomy \<open>core_error\<close> with the texts \<open>err.Error()\<close> gives.
  \<^item> \<open>Go_Cache\<close>: go-cache's \<open>New\<close>, \<open>Set\<close>, \<open>Get\<close>, \<open>Delete\<close>, \<open>DeleteExpired\<close>
    on \<open>('k,'v) go_cache\<close>.  Expirations are \<open>UnixNano\<close> values computed with
    \<open>int64_add\<close>.  Its lemmas cover the well-formedness invariant \<open>cache_wf\<close> and
    the refinement of every operation to a plain map (\<open>cache_view\<close>).  They also
    cover the exact lifetime of an entry, that a duration of \<open>0\<close> never expires,
    that an overflowing expiry never expires, and commutation on distinct keys.
    \<open>cache_bounded\<close> is bounded staleness: every item expires within the default
    duration of the clock; every operation keeps it.  The janitor that \<open>New\<close>
    starts for a positive cleanup interval is the field \<open>gc_janitor\<close>.
    \<open>janitor.Run\<close> is \<open>janitor_run\<close>: \<open>time.NewTicker\<close> panics on a non-positive
    interval, and otherwise the ticker loop \<open>janitor_loop\<close> runs until the stop.
    One tick is \<open>janitor_tick\<close>, and it never changes what \<open>Get\<close> answers.
  \<^item> \<open>Config_Core\<close>: the handler's Read, Write, Delete and Apply Remote Change
    Event as \<open>core_read\<close>, \<open>core_update\<close>, \<open>core_delete\<close>, \<open>core_apply\<close>.  Each is a
    function from the store, the cache, the clock and the availability of the store
    and the broker to a \<open>core_out\<close> (result, store, cache, published events).  Its
    lemmas give every branch, errors included, and show that the cache invariant is
    kept.  They also show read-after-write, idempotent delete and the properties of
    spec section 8 for one instance.  For event application they show idempotence,
    commutation of compatible events and \<open>apply_order_independent\<close>: any order
    and any duplication of a compatible set of events give the same cache.
  \<^item> \<open>Cli\<close>: the package variables (\<open>globals\<close>), the client subcommands
    \<open>set_config\<close>, \<open>get_config\<close>, \<open>del_config\<close>, the flags (\<open>config_flags\<close>,
    \<open>parse_flags\<close>, \<open>bind_flags\<close>) and the command tree (\<open>commands\<close>).  The
    client is written against the interface \<open>'s config_service\<close> (Update, Read,
    Delete on a service state \<open>'s\<close>) and a registry from names to services.  A
    missing name answers go-micro's "service not found" error.  \<open>run_subcommand\<close>
    is urfave's dispatch: the command's flags are parsed and its required flags
    checked before the subcommand runs.  Its lemmas cover the flags (C11, C12), the
    plugin loop (C13) and the required-flag check of every subcommand (C29).
  \<^item> \<open>Service\<close>: \<open>Run\<close> as \<open>run_setup\<close> and a running instance \<open>node\<close> (shared
    store, own cache, clock, availability, topic, published events).
    \<open>core_service\<close> implements \<open>config_service\<close> with the Config Core;
    \<open>deployed\<close> is the registry \<open>Run\<close> builds; \<open>deliver\<close> is the subscriber;
    \<open>tick\<close> lets time pass.  Its lemmas reduce each subcommand on the deployed
    service to one handler call.
  \<^item> \<open>Cluster\<close>: a deployment of several instances started by \<open>Run\<close> on one shared
    store and one broker.  A \<open>cluster_op\<close> is one of: a client subcommand served by
    instance \<open>i\<close>; a delivery to \<open>i\<close> of any event published so far
    (\<open>Redeliver\<close>, so any order and any duplication); time passing; a store or
    broker outage.  \<open>cluster_exec\<close> is the step function and \<open>reach\<close> the reachable
    states of a trace, as an inductive relation.  The invariants are proved by rule
    induction: no instance answers with a value nobody wrote (C25); the store refines
    the abstract key/value map \<open>kv_step\<close> (C26); the deployment stays well formed
    (C27); duplicate delivery is idempotent (C28); once an instance's clock has moved
    on by more than the cache duration, \<open>get\<close> on it answers from the store (C30,
    bounded staleness); delivery makes a lagging instance serve the new value (C31).
    The operation \<open>Sweep\<close> is a janitor tick on one instance, and it is unobservable
    by \<open>get\<close> (C35).  On any deployment: a delete reaches another instance only through
    its tombstone (C18); two writes of one key on two instances leave each instance
    with the strictly newer timestamp, its own on a tie, so writes in the same second
    diverge (C38); a write on an instance that cannot reach the store changes nothing,
    and every other step follows the abstract map (C39).
  \<^item> This theory: claims about the whole program.  Subcommands run against a node
    started by \<open>Run\<close> (C1-C10), and \<open>del\<close> while the store is down (C34); events
    are delivered on the watch topic (C14-C17, C19, C24); time passes and the cache
    expires, and a second instance is started on the same store (C20-C23); the
    \<open>--cache_duration\<close> flag reaches the cache that \<open>Run\<close> builds (C32); the janitor
    of that cache never panics and returns by any stop time (C33); \<open>Run\<close>'s
    \<open>Infof\<close> lines print its settings verbatim (C36), and its \<open>Fatalf\<close> line lacks a
    verb for the error (C37, \<open>run_service_exit\<close>).  \<open>Cli\<close> holds C11-C13 and C29.
    Each claim with hypotheses has a witness on a concrete node or deployment.

  \<^bold>\<open>Bounds.\<close>  Clocks and durations are unbounded integers.  The model applies the
  \<open>int64\<close> wrap exactly where Go's arithmetic can overflow: go-cache's expiry
  \<open>now + d\<close>.  Theorems that need no overflow assume \<open>int64_ok\<close> of the clock, or
  \<open>now + d \<le> int64_max\<close>.  C22 is about the overflowing case, and C30 assumes that
  the instance's clock plus the duration stays within \<open>int64\<close>, since beyond it an
  entry may never expire.  The one loop of the model whose termination depends on
  its input is go-cache's janitor loop.  It is \<open>janitor_loop\<close>, a
  \<open>partial_function (option)\<close> with no fuel: \<open>None\<close> is a loop that never returns.
  \<open>janitor_loop_closed\<close> proves by induction on the time left that with a positive
  interval it returns \<open>Some\<close>; \<open>janitor_run\<close> only enters it with a positive
  interval, so \<open>janitor_run_returns\<close> shows that \<open>janitor.Run\<close> returns or panics
  for every input.  Every other definition is total and executable.

  \<^bold>\<open>Not modelled.\<close>  The RPC transport and the broker beyond their observable
  answers: a failed call is an error value, and delivery is an explicit sequence of
  \<open>deliver\<close> steps.  Concurrency inside one handler call, which the spec makes atomic
  per key.  Logging beyond the text of \<open>Run\<close>'s log lines (\<open>ss_log\<close>, \<open>run_service_exit\<close>):
  levels, timestamps and the logger's output.  The go-micro
  bootstrap of \<open>Run\<close>: \<open>micro.NewService\<close>; the default store, which the mongo store
  replaces at once; the blocking \<open>service.Run\<close>, whose error is the parameter of
  \<open>run_service_exit\<close>.  The plugin mechanism beyond the plugin loop of
  \<open>Commands\<close>: \<open>run_subcommand\<close> does not run a plugin's action or the base
  \<open>Action\<close>, and not the help text urfave prints with a missing required flag.  Go's lowering of non-ASCII letters, on
  which no claim depends.
\<close>

section \<open>The command-line client against the running service\<close>

definition demo_context :: "string list \<Rightarrow> cli_context" where
  "demo_context args = \<lparr>ctx_args = args, ctx_string = (\<lambda>_. '''')\<rparr>"

definition demo_globals :: globals where
  "demo_globals = initial_globals\<lparr>g_cache_duration := 5 * minute\<rparr>"

definition demo_setup :: service_setup where
  "demo_setup = run_setup demo_globals ''go.micro.config.watch'' (demo_context [])"

definition demo_node :: node where
  "demo_node = start_node demo_setup Map.empty 1700000000000000000"

definition renamed_context :: cli_context where
  "renamed_context =
     \<lparr>ctx_args = [], ctx_string = (\<lambda>x. if x = ''server_name'' then ''go.micro.rtss_config.v2'' else '''')\<rparr>"

definition demo_key :: ckey where
  "demo_key = (''global'', ''feature.x'')"

definition tie_a :: change_event where
  "tie_a = \<lparr>ev_key = demo_key, ev_payload = Value (cli_value ''a'' 100), ev_origin_ts = 100\<rparr>"

definition newer_b :: change_event where
  "newer_b = \<lparr>ev_key = demo_key, ev_payload = Value (cli_value ''b'' 101), ev_origin_ts = 101\<rparr>"

definition demo_set :: "string \<Rightarrow> globals \<Rightarrow> service_setup \<Rightarrow> node \<Rightarrow> cli_out \<times> node" where
  "demo_set v g ss n = set_config (deployed ss) g 100 \<lparr>ctx_args = [''feature.x'', v], ctx_string = (\<lambda>_. '''')\<rparr> n"

definition topic_context :: cli_context where
  "topic_context =
     \<lparr>ctx_args = [], ctx_string = (\<lambda>x. if x = ''watch_topic'' then ''cfg.events'' else '''')\<rparr>"

lemma demo_events:
  "ev_key tie_a = demo_key" "ev_key newer_b = demo_key"
  "event_wf tie_a" "event_wf newer_b"
  "key_of (g_namespace demo_globals) ''feature.x'' = demo_key"
  by (simp_all add: tie_a_def newer_b_def event_wf_def cli_value_def key_of_def
      demo_globals_def initial_globals_def demo_key_def)

lemma demo_facts:
  "ss_name demo_setup = rpc_service_name" "cache_wf (nd_cache demo_node)"
  "int64_ok (nd_clock demo_node)" "nd_store_up demo_node" "nd_publish_ok demo_node"
  "nd_store demo_node = Map.empty" "cache_get k t (nd_cache demo_node) = None"
  by (simp_all add: demo_setup_def demo_node_def demo_context_def demo_globals_def initial_globals_def
      rpc_service_name_def cache_new_wf cache_get_new minute_def int64_ok_def int64_min_def int64_max_def)

text \<open>
  C1.  Read-after-write through the command line: on a service started by \<open>Run\<close> under
  the name the client calls, \<open>set key val\<close> returns normally and a following
  \<open>get key\<close> prints \<open>val\<close> and returns, for every non-blank key and every payload that
  is neither empty nor \<open>null\<close>, from the cache alone.
\<close>

theorem cli_set_then_get:
  assumes "ss_name ss = rpc_service_name" and "k \<noteq> []" and "\<not> blank_payload v"
    and "nd_store_up n" and "cache_wf (nd_cache n)" and "int64_ok (nd_clock n)"
  shows "let (o1, n1) = set_config (deployed ss) g now \<lparr>ctx_args = [k, v], ctx_string = f\<rparr> n;
             (o2, n2) = get_config (deployed ss) g \<lparr>ctx_args = [k], ctx_string = f'\<rparr> n1
         in out_status o1 = Returned \<and> o2 = \<lparr>out_stdout = [v], out_log = [], out_status = Returned\<rparr>"
proof -
  let ?k = "key_of (g_namespace g) k"
  let ?v = "\<lparr>cs_data = v, cs_format = ''json'', cs_source = ''cli'', cs_timestamp = now\<rparr>"
  have hit: "cache_get ?k (nd_clock n) (cache_set ?k ?v (nd_clock n) (nd_cache n)) = Some ?v"
    using assms(5,6) by (simp add: cache_set_fresh)
  show ?thesis
    using assms hit
    by (simp add: set_config_def get_config_def service_defs core_update_ok core_read_hit Let_def)
qed

theorem cli_set_then_get_witness:
  "let (o1, n1) = set_config (deployed demo_setup) demo_globals 100
                    \<lparr>ctx_args = [''feature.x'', ''true''], ctx_string = (\<lambda>_. '''')\<rparr>
                    (start_node demo_setup Map.empty 1700000000000000000);
       (o2, n2) = get_config (deployed demo_setup) demo_globals
                    \<lparr>ctx_args = [''feature.x''], ctx_string = (\<lambda>_. '''')\<rparr> n1
   in out_status o1 = Returned \<and> o2 = \<lparr>out_stdout = [''true''], out_log = [], out_status = Returned\<rparr>"
proof (rule cli_set_then_get)
  show "ss_name demo_setup = rpc_service_name"
    by (simp add: demo_setup_def demo_context_def demo_globals_def initial_globals_def rpc_service_name_def)
  show "cache_wf (nd_cache (start_node demo_setup Map.empty 1700000000000000000))"
    by (simp add: demo_setup_def demo_globals_def cache_new_wf minute_def int64_ok_def int64_min_def int64_max_def)
qed (simp_all add: blank_payload_def int64_ok_def int64_min_def int64_max_def)

text \<open>
  C2.  Not found on an absent key: \<open>get key\<close> for a key that neither the store nor
  the node's cache holds prints \<open>not found\<close> when the store answers, and prints the
  store's transient error text (not \<open>not found\<close>) when it does not.
\<close>

theorem cli_get_absent:
  assumes "ss_name ss = rpc_service_name" and "k \<noteq> []"
    and "nd_store n (key_of (g_namespace g) k) = None"
    and "cache_get (key_of (g_namespace g) k) (nd_clock n) (nd_cache n) = None"
  shows "fst (get_config (deployed ss) g \<lparr>ctx_args = [k], ctx_string = f\<rparr> n) =
           (if nd_store_up n then println_exit ''not found'' else println_exit (core_error_text Unavailable))"
  using assms read_absent [of "\<lparr>rr_namespace = g_namespace g, rr_path = k\<rparr>" "nd_store n" "nd_clock n" "nd_cache n"]
  by (simp add: get_config_core cli_read_outcome_def Let_def)


theorem cli_get_absent_witness:
  "fst (get_config (deployed demo_setup) demo_globals \<lparr>ctx_args = [''feature.x''], ctx_string = (\<lambda>_. '''')\<rparr> demo_node) =
     (if nd_store_up demo_node then println_exit ''not found'' else println_exit (core_error_text Unavailable))"
  by (rule cli_get_absent) (simp_all add: demo_facts)

text \<open>
  C3.  Delete is idempotent through the command line: two \<open>del key\<close> both return
  normally, the second leaves the store as the first left it, and a following
  \<open>get key\<close> prints \<open>not found\<close>.
\<close>

theorem cli_del_idempotent:
  assumes "ss_name ss = rpc_service_name" and "k \<noteq> []" and "nd_store_up n"
  shows "let ctx = \<lparr>ctx_args = [k], ctx_string = f\<rparr>;
             (o1, n1) = del_config (deployed ss) g ctx n;
             (o2, n2) = del_config (deployed ss) g ctx n1;
             (o3, n3) = get_config (deployed ss) g ctx n2
         in out_status o1 = Returned \<and> out_status o2 = Returned \<and> nd_store n2 = nd_store n1
            \<and> o3 = println_exit ''not found''"
  using assms
  by (simp add: del_config_core get_config_core core_delete_ok core_read_miss cache_get_delete
      cli_write_outcome_def cli_read_outcome_def store_answer_def Let_def)


theorem cli_del_idempotent_witness:
  "let ctx = \<lparr>ctx_args = [''feature.x''], ctx_string = (\<lambda>_. '''')\<rparr>;
       (o1, n1) = del_config (deployed demo_setup) demo_globals ctx demo_node;
       (o2, n2) = del_config (deployed demo_setup) demo_globals ctx n1;
       (o3, n3) = get_config (deployed demo_setup) demo_globals ctx n2
   in out_status o1 = Returned \<and> out_status o2 = Returned \<and> nd_store n2 = nd_store n1
      \<and> o3 = println_exit ''not found''"
  by (rule cli_del_idempotent) (simp_all add: demo_facts)

text \<open>
  C4.  When \<open>Run\<close> starts the service under a \<open>server_name\<close> other than
  \<open>go.micro.rtss_config\<close>, the client, which always calls that fixed name, gets the
  transport's "service not found" error, and \<open>get\<close> prints \<open>not found\<close> for every key,
  stored or not, without reaching the service.
\<close>

theorem cli_get_service_renamed:
  assumes "ctx_string c ''server_name'' \<noteq> []" and "ctx_string c ''server_name'' \<noteq> rpc_service_name"
    and "k \<noteq> []"
  shows "get_config (deployed (run_setup g wt c)) g \<lparr>ctx_args = k # rest, ctx_string = f\<rparr> n =
           (println_exit ''not found'', n)"
  using assms
  by (simp add: get_config_def new_config_service_deployed unreachable_service_def
      service_not_found_conflated args_get_def Let_def)


theorem cli_get_service_renamed_witness:
  "get_config (deployed (run_setup demo_globals ''go.micro.config.watch'' renamed_context)) demo_globals
     \<lparr>ctx_args = [''feature.x''], ctx_string = (\<lambda>_. '''')\<rparr> demo_node =
   (println_exit ''not found'', demo_node)"
  by (rule cli_get_service_renamed) (simp_all add: renamed_context_def rpc_service_name_def)

text \<open>
  C5.  \<open>set key\<close> without a value stores the empty payload (\<open>Args().Get(1)\<close> is
  empty) and returns normally; a following \<open>get key\<close> prints \<open>not found\<close>.
\<close>

theorem cli_set_missing_value:
  assumes "ss_name ss = rpc_service_name" and "k \<noteq> []" and "nd_store_up n"
    and "cache_wf (nd_cache n)" and "int64_ok (nd_clock n)"
  shows "let (o1, n1) = set_config (deployed ss) g now \<lparr>ctx_args = [k], ctx_string = f\<rparr> n;
             (o2, n2) = get_config (deployed ss) g \<lparr>ctx_args = [k], ctx_string = f\<rparr> n1
         in out_status o1 = Returned
            \<and> nd_store n1 (key_of (g_namespace g) k) =
                Some \<lparr>cs_data = '''', cs_format = ''json'', cs_source = ''cli'', cs_timestamp = now\<rparr>
            \<and> o2 = println_exit ''not found''"
proof -
  let ?k = "key_of (g_namespace g) k"
  let ?v = "\<lparr>cs_data = '''', cs_format = ''json'', cs_source = ''cli'', cs_timestamp = now\<rparr>"
  have hit: "cache_get ?k (nd_clock n) (cache_set ?k ?v (nd_clock n) (nd_cache n)) = Some ?v"
    using assms(4,5) by (simp add: cache_set_fresh)
  show ?thesis
    using assms hit
    by (simp add: set_config_core get_config_core cli_change_def core_update_ok core_read_hit
        cli_write_outcome_def cli_read_outcome_def blank_payload_def args_get_def Let_def)
qed


theorem cli_set_missing_value_witness:
  "let (o1, n1) = set_config (deployed demo_setup) demo_globals 100
                    \<lparr>ctx_args = [''feature.x''], ctx_string = (\<lambda>_. '''')\<rparr> demo_node;
       (o2, n2) = get_config (deployed demo_setup) demo_globals
                    \<lparr>ctx_args = [''feature.x''], ctx_string = (\<lambda>_. '''')\<rparr> n1
   in out_status o1 = Returned
      \<and> nd_store n1 (key_of (g_namespace demo_globals) ''feature.x'') =
          Some \<lparr>cs_data = '''', cs_format = ''json'', cs_source = ''cli'', cs_timestamp = 100\<rparr>
      \<and> o2 = println_exit ''not found''"
  by (rule cli_set_missing_value) (simp_all add: demo_facts)

text \<open>
  C6.  Without arguments each subcommand prints its usage line and exits with status 1
  before any call; \<open>del\<close> prints the usage line of \<open>get\<close>.
\<close>

theorem cli_no_args:
  "set_config reg g now \<lparr>ctx_args = [], ctx_string = f\<rparr> s = (println_exit ''Required usage: micro config set key val'', s)
   \<and> get_config reg g \<lparr>ctx_args = [], ctx_string = f\<rparr> s = (println_exit ''Required usage: micro config get key'', s)
   \<and> del_config reg g \<lparr>ctx_args = [], ctx_string = f\<rparr> s = (println_exit ''Required usage: micro config get key'', s)"
  by (simp add: set_config_def get_config_def del_config_def)

text \<open>
  C7.  \<open>get\<close> and \<open>del\<close> with a blank key log \<open>key cannot be blank\<close> and exit
  with status 1 before any call.
\<close>

theorem cli_blank_key:
  "get_config reg g \<lparr>ctx_args = [] # rest, ctx_string = f\<rparr> s = (log_fatal ''key cannot be blank'', s)
   \<and> del_config reg g \<lparr>ctx_args = [] # rest, ctx_string = f\<rparr> s = (log_fatal ''key cannot be blank'', s)"
  by (simp add: get_config_def del_config_def args_get_def)

text \<open>
  C8.  \<open>set\<close> does not check its key: with a blank key the request reaches the
  handler, which rejects it as invalid before any store access; the client prints that
  error, exits with status 1, and the node is unchanged.
\<close>

theorem cli_set_blank_key:
  assumes "ss_name ss = rpc_service_name"
  shows "set_config (deployed ss) g now \<lparr>ctx_args = [] # rest, ctx_string = f\<rparr> n =
           (println_exit (core_error_text BadRequest), n)"
  using assms
  by (simp add: set_config_core cli_change_def core_blank_path cli_write_outcome_def)


theorem cli_set_blank_key_witness:
  "set_config (deployed demo_setup) demo_globals 100 \<lparr>ctx_args = ['''', ''v''], ctx_string = (\<lambda>_. '''')\<rparr> demo_node =
     (println_exit (core_error_text BadRequest), demo_node)"
  by (rule cli_set_blank_key) (simp add: demo_facts)

text \<open>
  C9.  When the store does not answer, \<open>set\<close> prints the transient error and exits with
  status 1, and the node (store, cache, published events) is unchanged.
\<close>

theorem cli_set_store_down:
  assumes "ss_name ss = rpc_service_name" and "k \<noteq> []" and "\<not> nd_store_up n"
  shows "set_config (deployed ss) g now \<lparr>ctx_args = k # rest, ctx_string = f\<rparr> n =
           (println_exit (core_error_text Unavailable), n)"
  using assms
  by (simp add: set_config_core cli_change_def core_update_fail cli_write_outcome_def)


theorem cli_set_store_down_witness:
  "set_config (deployed demo_setup) demo_globals 100
     \<lparr>ctx_args = [''feature.x'', ''true''], ctx_string = (\<lambda>_. '''')\<rparr> (demo_node\<lparr>nd_store_up := False\<rparr>) =
   (println_exit (core_error_text Unavailable), demo_node\<lparr>nd_store_up := False\<rparr>)"
  by (rule cli_set_store_down) (simp_all add: demo_facts)

text \<open>
  C10.  A failed publish does not fail \<open>set\<close>: it returns normally, the store holds the
  new value, and no event is published.
\<close>

theorem cli_set_publish_failure:
  assumes "ss_name ss = rpc_service_name" and "k \<noteq> []" and "nd_store_up n" and "\<not> nd_publish_ok n"
  shows "let (o1, n1) = set_config (deployed ss) g now \<lparr>ctx_args = [k, v], ctx_string = f\<rparr> n
         in out_status o1 = Returned \<and> nd_published n1 = nd_published n
            \<and> nd_store n1 (key_of (g_namespace g) k) =
                Some \<lparr>cs_data = v, cs_format = ''json'', cs_source = ''cli'', cs_timestamp = now\<rparr>"
  using assms
  by (simp add: set_config_core cli_change_def core_update_ok cli_write_outcome_def args_get_def Let_def)


theorem cli_set_publish_failure_witness:
  "let (o1, n1) = set_config (deployed demo_setup) demo_globals 100
                    \<lparr>ctx_args = [''feature.x'', ''true''], ctx_string = (\<lambda>_. '''')\<rparr>
                    (demo_node\<lparr>nd_publish_ok := False\<rparr>)
   in out_status o1 = Returned \<and> nd_published n1 = nd_published (demo_node\<lparr>nd_publish_ok := False\<rparr>)
      \<and> nd_store n1 (key_of (g_namespace demo_globals) ''feature.x'') =
          Some \<lparr>cs_data = ''true'', cs_format = ''json'', cs_source = ''cli'', cs_timestamp = 100\<rparr>"
  by (rule cli_set_publish_failure) (simp_all add: demo_facts)

section \<open>Delivery on the watch topic\<close>

text \<open>
  C14.  Last writer wins on the watch topic: two value events for one key with origin
  timestamps \<open>T1 < T2\<close>, delivered to a node in either order, leave the node in the same
  state; that state caches the \<open>T2\<close> value, unless the node already cached a value at
  least as new as \<open>T2\<close>, which it keeps.
\<close>

theorem deliver_last_writer_wins:
  assumes "ev_key e1 = ev_key e2" and "ev_payload e1 = Value v1" and "ev_payload e2 = Value v2"
    and "event_wf e1" and "event_wf e2" and "ev_origin_ts e1 < ev_origin_ts e2"
    and "cache_wf (nd_cache n)" and "int64_ok (nd_clock n)"
  shows "deliver (nd_topic n) e2 (deliver (nd_topic n) e1 n) = deliver (nd_topic n) e1 (deliver (nd_topic n) e2 n)
         \<and> cache_get (ev_key e2) (nd_clock n) (nd_cache (deliver (nd_topic n) e2 (deliver (nd_topic n) e1 n))) =
             (case cache_get (ev_key e2) (nd_clock n) (nd_cache n) of
                None \<Rightarrow> Some v2
              | Some cur \<Rightarrow> if ev_origin_ts e2 \<le> cs_timestamp cur then Some cur else Some v2)"
proof -
  have fresh: "\<And>v. cache_get (ev_key e2) (nd_clock n) (cache_set (ev_key e2) v (nd_clock n) (nd_cache n)) = Some v"
    using assms(7,8) by (simp add: cache_set_fresh)
  have "core_apply (nd_clock n) (core_apply (nd_clock n) (nd_cache n) e1) e2 =
        core_apply (nd_clock n) (core_apply (nd_clock n) (nd_cache n) e2) e1"
    by (rule core_apply_commute_values [OF assms(1-8)])
  moreover have "cache_get (ev_key e2) (nd_clock n)
                   (core_apply (nd_clock n) (core_apply (nd_clock n) (nd_cache n) e1) e2) =
             (case cache_get (ev_key e2) (nd_clock n) (nd_cache n) of
                None \<Rightarrow> Some v2
              | Some cur \<Rightarrow> if ev_origin_ts e2 \<le> cs_timestamp cur then Some cur else Some v2)"
    using assms fresh by (auto simp: core_apply_def event_wf_def cache_set_twice split: option.split)
  ultimately show ?thesis by (simp add: deliver_def)
qed


theorem deliver_last_writer_wins_witness:
  "deliver (nd_topic demo_node) newer_b (deliver (nd_topic demo_node) tie_a demo_node) =
     deliver (nd_topic demo_node) tie_a (deliver (nd_topic demo_node) newer_b demo_node)
   \<and> cache_get (ev_key newer_b) (nd_clock demo_node)
       (nd_cache (deliver (nd_topic demo_node) newer_b (deliver (nd_topic demo_node) tie_a demo_node))) =
     (case cache_get (ev_key newer_b) (nd_clock demo_node) (nd_cache demo_node) of
        None \<Rightarrow> Some (cli_value ''b'' 101)
      | Some cur \<Rightarrow> if ev_origin_ts newer_b \<le> cs_timestamp cur then Some cur else Some (cli_value ''b'' 101))"
  by (rule deliver_last_writer_wins) (simp_all add: demo_events demo_facts tie_a_def newer_b_def event_wf_def cli_value_def)

text \<open>
  C15.  Delivery order and duplicates do not matter: delivering two sequences with the
  same set of pairwise compatible, well-formed events (\<open>events_compatible\<close>) to a node
  gives the same node, whatever the order and however often each event arrives.
\<close>

theorem deliver_order_independent:
  assumes "events_compatible (set es)" and "set es = set es'"
    and "cache_wf (nd_cache n)" and "int64_ok (nd_clock n)"
  shows "foldl (\<lambda>m ev. deliver (nd_topic n) ev m) n es = foldl (\<lambda>m ev. deliver (nd_topic n) ev m) n es'"
proof -
  have "foldl (core_apply (nd_clock n)) (nd_cache n) es = foldl (core_apply (nd_clock n)) (nd_cache n) es'"
    by (rule apply_order_independent [OF assms])
  then show ?thesis by (simp add: deliver_all)
qed


theorem deliver_order_independent_witness:
  "foldl (\<lambda>m ev. deliver (nd_topic demo_node) ev m) demo_node [tie_a, newer_b, tie_a] =
   foldl (\<lambda>m ev. deliver (nd_topic demo_node) ev m) demo_node [newer_b, tie_a]"
  by (rule deliver_order_independent)
    (auto simp: demo_facts demo_events events_compatible_def apply_compatible_def is_value_event_def
      tie_a_def newer_b_def event_wf_def cli_value_def)

text \<open>
  C16.  Stale-event rejection: a value event whose origin timestamp is not newer than
  the value the node caches for its key leaves the node unchanged.
\<close>

theorem deliver_stale_rejected:
  assumes "ev_payload ev = Value v" and "cache_get (ev_key ev) (nd_clock n) (nd_cache n) = Some cur"
    and "ev_origin_ts ev \<le> cs_timestamp cur"
  shows "deliver (nd_topic n) ev n = n"
  using assms by (simp add: apply_stale_event)


theorem deliver_stale_rejected_witness:
  "deliver (nd_topic (deliver (nd_topic demo_node) newer_b demo_node)) tie_a
     (deliver (nd_topic demo_node) newer_b demo_node) = deliver (nd_topic demo_node) newer_b demo_node"
proof (rule deliver_stale_rejected [of tie_a "cli_value ''a'' 100" _ "cli_value ''b'' 101"])
  show "cache_get (ev_key tie_a) (nd_clock (deliver (nd_topic demo_node) newer_b demo_node))
          (nd_cache (deliver (nd_topic demo_node) newer_b demo_node)) = Some (cli_value ''b'' 101)"
    using demo_facts by (simp add: demo_events core_apply_def newer_b_def cache_set_fresh)
qed (simp_all add: tie_a_def cli_value_def)

text \<open>
  C17.  A tombstone evicts whatever is cached: after a tombstone for a key is delivered,
  \<open>get\<close> for that key answers from the store.
\<close>

theorem deliver_tombstone_evicts:
  assumes "ss_name ss = rpc_service_name" and "k \<noteq> []" and "nd_store_up n"
    and "ev_payload ev = Tombstone" and "ev_key ev = key_of (g_namespace g) k"
  shows "fst (get_config (deployed ss) g \<lparr>ctx_args = [k], ctx_string = f\<rparr> (deliver (nd_topic n) ev n)) =
           cli_read_outcome (store_answer (nd_store n) (key_of (g_namespace g) k))"
proof -
  have "cache_get (key_of (g_namespace g) k) (nd_clock n) (core_apply (nd_clock n) (nd_cache n) ev) = None"
    using assms(4,5) by (simp add: apply_tombstone)
  then show ?thesis
    using get_config_miss [OF assms(1,2)] assms(3) by simp
qed


theorem deliver_tombstone_evicts_witness:
  "fst (get_config (deployed demo_setup) demo_globals \<lparr>ctx_args = [''feature.x''], ctx_string = (\<lambda>_. '''')\<rparr>
     (deliver (nd_topic demo_node) \<lparr>ev_key = demo_key, ev_payload = Tombstone, ev_origin_ts = 1\<rparr> demo_node)) =
   cli_read_outcome (store_answer (nd_store demo_node) (key_of (g_namespace demo_globals) ''feature.x''))"
  by (rule deliver_tombstone_evicts) (simp_all add: demo_facts demo_events)

text \<open>
  C19.  Deleting does not survive redelivery: after \<open>set key val\<close> and \<open>del key\<close> on a
  node, a second delivery of the event the \<open>set\<close> published (at-least-once delivery,
  including to the publisher) refills the cache, and \<open>get key\<close> prints \<open>val\<close> although the
  store no longer holds the key.
\<close>

theorem cli_delete_then_redelivery:
  assumes "ss_name ss = rpc_service_name" and "k \<noteq> []" and "\<not> blank_payload v"
    and "nd_store_up n" and "nd_publish_ok n" and "cache_wf (nd_cache n)" and "int64_ok (nd_clock n)"
  shows "let (o1, n1) = set_config (deployed ss) g now \<lparr>ctx_args = [k, v], ctx_string = f\<rparr> n;
             (o2, n2) = del_config (deployed ss) g \<lparr>ctx_args = [k], ctx_string = f\<rparr> n1;
             n3 = deliver (nd_topic n2) (last (nd_published n1)) n2;
             (o4, n4) = get_config (deployed ss) g \<lparr>ctx_args = [k], ctx_string = f\<rparr> n3
         in nd_store n3 (key_of (g_namespace g) k) = None
            \<and> o4 = \<lparr>out_stdout = [v], out_log = [], out_status = Returned\<rparr>"
proof -
  let ?k = "key_of (g_namespace g) k" and ?v = "cli_value v now"
  let ?c2 = "cache_delete ?k (cache_set ?k ?v (nd_clock n) (nd_cache n))"
  have wf2: "cache_wf ?c2" using assms(6) by (simp add: cache_ops_wf)
  have miss: "cache_get ?k (nd_clock n) ?c2 = None" by (simp add: cache_get_delete)
  have hit: "cache_get ?k (nd_clock n) (cache_set ?k ?v (nd_clock n) ?c2) = Some ?v"
    using wf2 assms(7) by (simp add: cache_set_fresh)
  show ?thesis
    using assms miss hit
    by (simp add: set_config_ok del_config_core core_delete_ok node_after_def get_config_hit
        cli_write_outcome_def core_apply_def cli_read_value Let_def)
qed


theorem cli_delete_then_redelivery_witness:
  "let (o1, n1) = set_config (deployed demo_setup) demo_globals 100
                    \<lparr>ctx_args = [''feature.x'', ''true''], ctx_string = (\<lambda>_. '''')\<rparr> demo_node;
       (o2, n2) = del_config (deployed demo_setup) demo_globals
                    \<lparr>ctx_args = [''feature.x''], ctx_string = (\<lambda>_. '''')\<rparr> n1;
       n3 = deliver (nd_topic n2) (last (nd_published n1)) n2;
       (o4, n4) = get_config (deployed demo_setup) demo_globals
                    \<lparr>ctx_args = [''feature.x''], ctx_string = (\<lambda>_. '''')\<rparr> n3
   in nd_store n3 (key_of (g_namespace demo_globals) ''feature.x'') = None
      \<and> o4 = \<lparr>out_stdout = [''true''], out_log = [], out_status = Returned\<rparr>"
  by (rule cli_delete_then_redelivery) (simp_all add: demo_facts blank_payload_def)

section \<open>Expiry, a second instance and the watch topic\<close>

text \<open>
  C20.  Cache expiry forces the store fallback.  On a node started by \<open>Run\<close> with a
  positive \<open>CacheDuration\<close> \<open>d\<close> (a clock after the epoch, \<open>now + d\<close> within
  \<open>int64\<close>), after \<open>set key val\<close> and a change of the store by another instance,
  \<open>get key\<close> keeps printing \<open>val\<close> from the cache for \<open>d\<close> nanoseconds, and prints the
  store's answer once \<open>d\<close> has passed.
\<close>

theorem cli_get_after_expiry:
  assumes "ss_name (run_setup g wt c) = rpc_service_name" and "k \<noteq> []" and "\<not> blank_payload v"
    and "0 < g_cache_duration g" and "0 \<le> t0" and "t0 + g_cache_duration g \<le> int64_max"
  shows "fst (get_config (deployed (run_setup g wt c)) g \<lparr>ctx_args = [k], ctx_string = f\<rparr>
              (tick d ((snd (set_config (deployed (run_setup g wt c)) g now \<lparr>ctx_args = [k, v], ctx_string = f\<rparr>
                (start_node (run_setup g wt c) st t0)))\<lparr>nd_store := st'\<rparr>))) =
         (if d \<le> g_cache_duration g then \<lparr>out_stdout = [v], out_log = [], out_status = Returned\<rparr>
          else cli_read_outcome (store_answer st' (key_of (g_namespace g) k)))"
proof -
  have d: "gc_default_expiration (ss_cache (run_setup g wt c)) = g_cache_duration g"
    using assms(4) by (simp add: cache_new_def)
  show ?thesis
    using set_then_get_later [OF assms(1,2)] assms(3-6) d
    by (simp add: cache_set_lifetime cli_read_value)
qed


theorem cli_get_after_expiry_witness:
  "fst (get_config (deployed demo_setup) demo_globals \<lparr>ctx_args = [''feature.x''], ctx_string = (\<lambda>_. '''')\<rparr>
     (tick (6 * minute) ((snd (demo_set ''true'' demo_globals demo_setup demo_node))\<lparr>nd_store := Map.empty\<rparr>))) =
   (if 6 * minute \<le> g_cache_duration demo_globals then \<lparr>out_stdout = [''true''], out_log = [], out_status = Returned\<rparr>
    else cli_read_outcome (store_answer Map.empty (key_of (g_namespace demo_globals) ''feature.x'')))"
  unfolding demo_setup_def demo_node_def demo_set_def
  by (rule cli_get_after_expiry)
    (simp_all add: demo_set_def demo_setup_def demo_node_def demo_context_def demo_globals_def
      initial_globals_def rpc_service_name_def blank_payload_def minute_def int64_max_def)

text \<open>
  C21.  With \<open>CacheDuration = 0\<close> (\<open>--cache_duration 0\<close>) go-cache's \<open>New\<close> turns the
  default into \<open>NoExpiration\<close>: after \<open>set key val\<close>, \<open>get key\<close> prints \<open>val\<close> at
  every later time, whatever other instances write to the store.
\<close>

theorem cache_duration_zero_never_expires:
  assumes "ss_name (run_setup g wt c) = rpc_service_name" and "k \<noteq> []" and "\<not> blank_payload v"
    and "g_cache_duration g = 0"
  shows "fst (get_config (deployed (run_setup g wt c)) g \<lparr>ctx_args = [k], ctx_string = f\<rparr>
              (tick d ((snd (set_config (deployed (run_setup g wt c)) g now \<lparr>ctx_args = [k, v], ctx_string = f\<rparr>
                (start_node (run_setup g wt c) st t0)))\<lparr>nd_store := st'\<rparr>))) = \<lparr>out_stdout = [v], out_log = [], out_status = Returned\<rparr>"
proof -
  have d: "gc_default_expiration (ss_cache (run_setup g wt c)) \<le> 0"
    using assms(4) by (simp add: cache_new_def no_expiration_def)
  show ?thesis
    using set_then_get_later [OF assms(1,2)] assms(3) d
    by (simp add: cache_set_no_expiry cli_read_value)
qed


theorem cache_duration_zero_never_expires_witness:
  "fst (get_config (deployed (run_setup initial_globals ''t'' (demo_context []))) initial_globals
     \<lparr>ctx_args = [''feature.x''], ctx_string = (\<lambda>_. '''')\<rparr>
     (tick (1000 * minute) ((snd (demo_set ''true'' initial_globals (run_setup initial_globals ''t'' (demo_context []))
        (start_node (run_setup initial_globals ''t'' (demo_context [])) Map.empty 0)))\<lparr>nd_store := Map.empty\<rparr>))) =
   \<lparr>out_stdout = [''true''], out_log = [], out_status = Returned\<rparr>"
  unfolding demo_set_def
  by (rule cache_duration_zero_never_expires)
    (simp_all add: demo_set_def demo_context_def initial_globals_def rpc_service_name_def blank_payload_def)

text \<open>
  C22.  Wrap-around of the expiry time: with a positive \<open>CacheDuration\<close> so large that
  \<open>now + d\<close> leaves \<open>int64\<close>, the stored expiration wraps below zero and the entry never
  expires: \<open>get key\<close> prints \<open>val\<close> at every later time.
\<close>

theorem cache_duration_overflow_never_expires:
  assumes "ss_name (run_setup g wt c) = rpc_service_name" and "k \<noteq> []" and "\<not> blank_payload v"
    and "0 < g_cache_duration g" and "int64_ok (g_cache_duration g)" and "int64_ok t0"
    and "int64_max < t0 + g_cache_duration g"
  shows "fst (get_config (deployed (run_setup g wt c)) g \<lparr>ctx_args = [k], ctx_string = f\<rparr>
              (tick d ((snd (set_config (deployed (run_setup g wt c)) g now \<lparr>ctx_args = [k, v], ctx_string = f\<rparr>
                (start_node (run_setup g wt c) st t0)))\<lparr>nd_store := st'\<rparr>))) = \<lparr>out_stdout = [v], out_log = [], out_status = Returned\<rparr>"
proof -
  have wf: "cache_wf (ss_cache (run_setup g wt c))"
    using assms(4,5) by (simp add: cache_new_def cache_wf_def)
  have d: "gc_default_expiration (ss_cache (run_setup g wt c)) = g_cache_duration g"
    using assms(4) by (simp add: cache_new_def)
  show ?thesis
    using set_then_get_later [OF assms(1,2)] assms(3,4,6,7) wf d
    by (simp add: cache_set_overflow_never_expires cli_read_value)
qed


theorem cache_duration_overflow_never_expires_witness:
  "fst (get_config (deployed (run_setup (initial_globals\<lparr>g_cache_duration := int64_max\<rparr>) ''t'' (demo_context [])))
     (initial_globals\<lparr>g_cache_duration := int64_max\<rparr>)
     \<lparr>ctx_args = [''feature.x''], ctx_string = (\<lambda>_. '''')\<rparr>
     (tick int64_max ((snd (demo_set ''true'' (initial_globals\<lparr>g_cache_duration := int64_max\<rparr>)
        (run_setup (initial_globals\<lparr>g_cache_duration := int64_max\<rparr>) ''t'' (demo_context []))
        (start_node (run_setup (initial_globals\<lparr>g_cache_duration := int64_max\<rparr>) ''t'' (demo_context []))
           Map.empty 1700000000000000000)))\<lparr>nd_store := Map.empty\<rparr>))) =
   \<lparr>out_stdout = [''true''], out_log = [], out_status = Returned\<rparr>"
  unfolding demo_set_def
  by (rule cache_duration_overflow_never_expires)
    (simp_all add: demo_set_def demo_context_def initial_globals_def rpc_service_name_def blank_payload_def
      int64_ok_def int64_min_def int64_max_def)

text \<open>
  C23.  A second instance that never received the change event falls back to the
  store: after \<open>set key val\<close> on one node, a node freshly started by \<open>Run\<close> on the same
  store prints \<open>val\<close> for \<open>get key\<close> (the end-to-end scenario of spec section 8).
\<close>

theorem second_instance_reads_store:
  assumes "ss_name ss = rpc_service_name" and "ss_name (run_setup g' wt c) = rpc_service_name"
    and "k \<noteq> []" and "\<not> blank_payload v" and "nd_store_up n"
  shows "fst (get_config (deployed (run_setup g' wt c)) g \<lparr>ctx_args = [k], ctx_string = f\<rparr>
              (start_node (run_setup g' wt c)
                 (nd_store (snd (set_config (deployed ss) g now \<lparr>ctx_args = [k, v], ctx_string = f\<rparr> n))) t)) =
         \<lparr>out_stdout = [v], out_log = [], out_status = Returned\<rparr>"
  using get_config_miss [OF assms(2,3)] assms(4)
  by (simp add: set_config_ok [OF assms(1,3,5)] cache_get_new store_answer_def empty_payload_def
      cli_value_def blank_payload_def cli_read_value [unfolded cli_value_def])


theorem second_instance_reads_store_witness:
  "fst (get_config (deployed (run_setup demo_globals ''t'' (demo_context []))) demo_globals
     \<lparr>ctx_args = [''feature.x''], ctx_string = (\<lambda>_. '''')\<rparr>
     (start_node (run_setup demo_globals ''t'' (demo_context []))
        (nd_store (snd (demo_set ''true'' demo_globals demo_setup demo_node))) 5)) =
   \<lparr>out_stdout = [''true''], out_log = [], out_status = Returned\<rparr>"
  unfolding demo_set_def
  by (rule second_instance_reads_store)
    (simp_all add: demo_set_def demo_facts demo_context_def demo_globals_def initial_globals_def
      rpc_service_name_def blank_payload_def)

text \<open>
  C24.  The subscriber listens on the topic \<open>Run\<close> chose: when \<open>--watch_topic\<close> is set,
  events published on any other topic do not reach a node started with it.
\<close>

theorem deliver_other_topic:
  assumes "ctx_string c ''watch_topic'' \<noteq> []" and "t \<noteq> ctx_string c ''watch_topic''"
  shows "deliver t ev (start_node (run_setup g wt c) st now) = start_node (run_setup g wt c) st now"
  using assms by simp


theorem deliver_other_topic_witness:
  "deliver ''other.topic'' tie_a (start_node (run_setup demo_globals ''t'' topic_context) Map.empty 0) =
   start_node (run_setup demo_globals ''t'' topic_context) Map.empty 0"
  by (rule deliver_other_topic) (simp_all add: topic_context_def)

section \<open>From the command line to the cache\<close>

text \<open>
  C32.  The cache duration given on the command line is the one the cache uses: when
  the flags of \<open>Commands\<close> parse with \<open>--cache_duration d\<close>, the cache that \<open>Run\<close>
  builds has default expiration \<open>d\<close> (\<open>NoExpiration\<close> when \<open>d = 0\<close>), whatever the
  environment and the other flags say.
\<close>

theorem cache_duration_flag_reaches_cache:
  assumes "parse_flags cmd env config_flags g = Inr g'" and "cmd ''cache_duration'' = Some (DVal d)"
  shows "gc_default_expiration (nd_cache (start_node (run_setup g' wt cx) st t)) =
           (if d = 0 then no_expiration else d)"
  using assms
  by (auto simp: parse_flags_def config_flags_def flag_effective_def given_val_def cache_new_def Let_def
      split: if_splits)

theorem cache_duration_flag_reaches_cache_witness:
  "gc_default_expiration (nd_cache (start_node
     (run_setup (projr (parse_flags (Map.empty(''mgo_url'' \<mapsto> SVal ''u'', ''cache_duration'' \<mapsto> DVal 7))
                          Map.empty config_flags initial_globals)) ''t'' (cli_ctx [])) Map.empty 0)) =
   (if (7::int) = 0 then no_expiration else 7)"
  by (rule cache_duration_flag_reaches_cache [where cmd = "Map.empty(''mgo_url'' \<mapsto> SVal ''u'', ''cache_duration'' \<mapsto> DVal 7)"
        and env = Map.empty and g = initial_globals])
    (simp_all add: parse_flags_def required_missing_def config_flags_def given_val_def)


section \<open>The janitor of the cache Run builds\<close>

text \<open>
  C33.  The janitor of \<open>Run\<close>'s cache returns and never panics:
  \<open>cache.New(CacheDuration, CacheCleanupInterval)\<close> starts one exactly when
  \<open>--cache_cleanup_interval\<close> is positive, with that interval, so \<open>time.NewTicker\<close>
  never sees a non-positive one, and the janitor returns by any stop time, its net
  effect one \<open>DeleteExpired\<close> at its last tick before the stop.  With a non-positive
  interval there is no janitor, and expired entries stay until overwritten.
\<close>

theorem run_janitor_returns:
  "case gc_janitor (ss_cache (run_setup g wt cx)) of
     None \<Rightarrow> g_cache_cleanup_interval g \<le> 0
   | Some ci \<Rightarrow> ci = g_cache_cleanup_interval g
       \<and> janitor_run ci stop now c =
           Some (Inr (if stop < now + ci then c else cache_delete_expired (now + (stop - now) div ci * ci) c))"
  by (simp add: cache_new_def janitor_run_returns)

text \<open>
  C34.  When the store does not answer, \<open>del\<close> prints the transient error and exits
  with status 1, and the node is unchanged: with the policy spec 4.3 recommends, the
  handler neither evicts the key nor publishes a tombstone when the store delete
  fails, so the node's cache still serves the key.
\<close>

theorem cli_del_store_down:
  assumes "ss_name ss = rpc_service_name" and "k \<noteq> []" and "\<not> nd_store_up n"
  shows "del_config (deployed ss) g \<lparr>ctx_args = k # rest, ctx_string = f\<rparr> n =
           (println_exit (core_error_text Unavailable), n)"
  using assms by (simp add: del_config_core core_delete_fail cli_write_outcome_def)

theorem cli_del_store_down_witness:
  "del_config (deployed demo_setup) demo_globals
     \<lparr>ctx_args = [''feature.x''], ctx_string = (\<lambda>_. '''')\<rparr> (demo_node\<lparr>nd_store_up := False\<rparr>) =
   (println_exit (core_error_text Unavailable), demo_node\<lparr>nd_store_up := False\<rparr>)"
  by (rule cli_del_store_down) (simp_all add: demo_facts)

section \<open>What Run logs\<close>

text \<open>
  C36.  \<open>Run\<close> logs its three store settings verbatim: through \<open>log.Infof\<close> with the
  \<open>%v\<close> verb, its log lines are \<open>uri\<close>, \<open>dbname\<close> and \<open>table\<close> followed by the
  setting, whatever text the setting holds.
\<close>

theorem run_log_lines:
  "ss_log (run_setup g wt cx) =
     [''uri '' @ g_mgo_url g, ''dbname '' @ g_mgo_database_name g, ''table '' @ g_mgo_table_name g]"
  by (simp add: run_setup_def Let_def)

text \<open>
  C37.  The \<open>log.Fatalf\<close> call of line 73 has no verb for its argument: when
  \<open>service.Run()\<close> fails with an error of type \<open>ty\<close> and text \<open>e\<close>, \<open>Run\<close> logs
  \<open>config Run the service error: %!(EXTRA ty=e)\<close> and exits with status 1, not the
  message followed by the error text.
\<close>

theorem run_fatal_line:
  "run_service_exit (Some (ty, e)) =
     \<lparr>out_stdout = [], out_log = [''config Run the service error: %!(EXTRA '' @ ty @ ''='' @ e @ '')''],
      out_status = Exited 1\<rparr>
   \<and> run_service_exit (Some (ty, e)) \<noteq> log_fatal (''config Run the service error: '' @ e)"
  by (auto simp: run_service_exit_def log_fatal_def go_extra_def dest: arg_cong [where f = length])

end
